theory Spec2Isabelle
  imports Complex_Main
begin

section \<open>TDGAN multi-discriminator model: the training step\<close>

text \<open>
  A shallow embedding of \<^verbatim>\<open>models/TDGAN_multiD_model.py\<close> (class
  \<^verbatim>\<open>TDGANMultiDModel\<close>). The control flow, the index arithmetic and every
  assignment to an attribute of \<^verbatim>\<open>self\<close> follow the Python source. What the
  source only calls (the networks, the loss criteria, autograd, the Adam optimiser,
  \<^verbatim>\<open>torch.load\<close>) is kept symbolic: a tensor is the computation graph that
  produced it, a network's parameters are the history of where they came from.
  Equality of two graphs therefore means: the same operations on the same operands in
  the same order, whatever the floating point arithmetic does with them.
\<close>

subsection \<open>Python values\<close>

datatype error =
    IndexError
  | KeyError string
  | AttributeError string
  | TypeError
  | FileNotFoundError string
  | RuntimeError string

definition bind_err :: "error + 'a \<Rightarrow> ('a \<Rightarrow> error + 'b) \<Rightarrow> error + 'b" where
  "bind_err m f = (case m of Inl e \<Rightarrow> Inl e | Inr x \<Rightarrow> f x)"

text \<open>A \<^verbatim>\<open>for\<close> loop whose body mutates \<^verbatim>\<open>self\<close>; an exception in the
  body leaves the loop and the method.\<close>

fun for_loop :: "('s \<Rightarrow> 'i \<Rightarrow> error + 's) \<Rightarrow> 'i list \<Rightarrow> 's \<Rightarrow> error + 's" where
  "for_loop body [] s = Inr s"
| "for_loop body (i # is) s = bind_err (body s i) (for_loop body is)"

text \<open>\<^verbatim>\<open>range(a, b)\<close> over Python's unbounded integers.\<close>

definition range_py :: "int \<Rightarrow> int \<Rightarrow> int list" where
  "range_py a b = [a..b - 1]"

text \<open>\<^verbatim>\<open>xs[i]\<close>: a negative index counts from the end, anything outside
  raises IndexError.\<close>

definition py_nth :: "'a list \<Rightarrow> int \<Rightarrow> error + 'a" where
  "py_nth xs i =
     (if 0 \<le> i \<and> i < int (length xs) then Inr (xs ! nat i)
      else if - int (length xs) \<le> i \<and> i < 0 then Inr (xs ! nat (int (length xs) + i))
      else Inl IndexError)"

text \<open>\<^verbatim>\<open>str(i)\<close> and the format field \<^verbatim>\<open>{:d}\<close>: decimal digits, a
  minus sign for a negative number.\<close>

definition digit_char :: "nat \<Rightarrow> char" where
  "digit_char d = ''0123456789'' ! d"

fun str_nat :: "nat \<Rightarrow> string" where
  "str_nat n = (if n < 10 then [digit_char n] else str_nat (n div 10) @ [digit_char (n mod 10)])"

declare str_nat.simps [simp del]

definition str_int :: "int \<Rightarrow> string" where
  "str_int i = (if i < 0 then CHR ''-'' # str_nat (nat (- i)) else str_nat (nat i))"

subsection \<open>Networks, parameters and computation graphs\<close>

text \<open>The networks the model owns: the trainable generator \<^verbatim>\<open>netG\<close>, the
  previous-task generator \<^verbatim>\<open>netG_prev\<close>, the discriminators
  \<^verbatim>\<open>netD[0]\<close>, \<^verbatim>\<open>netD[1]\<close>, and the feature extractor
  \<^verbatim>\<open>vgg_model\<close>.\<close>

datatype net = NetG | NetG_prev | NetD nat | Vgg

type_synonym image = nat

text \<open>
  \<open>weights\<close> is the value of a network's parameters: as constructed by
  \<^verbatim>\<open>networks.define_G\<close>/\<^verbatim>\<open>define_D\<close>, as read from a checkpoint
  file, or the result of an Adam step on earlier parameters with the gradients held at
  that moment (the losses back-propagated into them since the last
  \<^verbatim>\<open>zero_grad\<close>).

  \<open>graph\<close> is a tensor together with its autograd graph. \<open>Apply n w rg x\<close> is the
  forward call of network \<open>n\<close> with parameters \<open>w\<close> on \<open>x\<close>; \<open>rg\<close> records
  whether the parameters had \<^verbatim>\<open>requires_grad\<close> set when the call was made.
  \<open>Data\<close> is a tensor from the data loader. \<open>Scale x c\<close> is \<^verbatim>\<open>x * c\<close>
  for a Python float \<open>c\<close> taken from the options; the model never calculates with
  \<open>c\<close>, the type \<open>real\<close> only carries the option's value.
\<close>

datatype weights =
    Fresh net
  | Checkpoint string
  | Adam weights "graph list"
and graph =
    Data image
  | Apply net weights bool graph
  | Cat graph graph
  | Detach graph
  | GANLoss graph bool
  | L1Loss graph graph
  | Perceptual graph graph
  | Add graph graph
  | Scale graph real

text \<open>The parameters that \<^verbatim>\<open>backward()\<close> on a tensor reaches: those of every
  network applied with \<^verbatim>\<open>requires_grad\<close> on a path that no
  \<^verbatim>\<open>detach()\<close> cuts.\<close>

fun leaves :: "graph \<Rightarrow> net set" where
  "leaves (Data a) = {}"
| "leaves (Apply n w rg x) = (if rg then {n} else {}) \<union> leaves x"
| "leaves (Cat x y) = leaves x \<union> leaves y"
| "leaves (Detach x) = {}"
| "leaves (GANLoss x b) = leaves x"
| "leaves (L1Loss x y) = leaves x \<union> leaves y"
| "leaves (Perceptual x y) = leaves x \<union> leaves y"
| "leaves (Add x y) = leaves x \<union> leaves y"
| "leaves (Scale x c) = leaves x"

text \<open>The networks whose forward pass a tensor's value comes from, detached or not.\<close>

fun nets_of :: "graph \<Rightarrow> net set" where
  "nets_of (Data a) = {}"
| "nets_of (Apply n w rg x) = {n} \<union> nets_of x"
| "nets_of (Cat x y) = nets_of x \<union> nets_of y"
| "nets_of (Detach x) = nets_of x"
| "nets_of (GANLoss x b) = nets_of x"
| "nets_of (L1Loss x y) = nets_of x \<union> nets_of y"
| "nets_of (Perceptual x y) = nets_of x \<union> nets_of y"
| "nets_of (Add x y) = nets_of x \<union> nets_of y"
| "nets_of (Scale x c) = nets_of x"

datatype event =
    Forward net graph
  | Backward graph
  | ZeroGrad "net list"
  | Step "net list"
  | SetRequiresGrad "net list" bool
  | LoadStateDict net string

subsection \<open>Options, batches and the model object\<close>

record options =
  isTrain_opt :: bool
  task_num :: int
  no_lifelong_training :: bool
  prev_model_path :: string
  prev_model_epoch :: int
  lambda_digesting_L1 :: real
  lambda_digesting_perceptual :: real
  lambda_reminding_L1 :: real
  lambda_reminding_perceptual :: real
  lambda_G :: real
  lambda_D :: real

datatype entry = Tensor image | Paths "string list"

type_synonym batch = "string \<rightharpoonup> entry"

text \<open>The attributes of \<^verbatim>\<open>self\<close>. An attribute that
  \<^verbatim>\<open>__init__\<close> creates in training mode only, or that may hold
  \<^verbatim>\<open>None\<close>, is an option. The lists that one method creates and another
  reads (\<^verbatim>\<open>real_A\<close>, \<^verbatim>\<open>real_B\<close>, \<^verbatim>\<open>fake_B\<close>,
  \<^verbatim>\<open>fake_B_curG\<close>, \<^verbatim>\<open>fake_B_prevG\<close>) do not exist until they are
  first assigned: \<open>created\<close> is the set of the names of those that exist, and the
  field of one that does not exist is never read. The named images kept for display
  (\<^verbatim>\<open>real_A_cur1\<close>, \<^verbatim>\<open>fake_B_prev2\<close>, ...) are the map \<open>visuals\<close>, keyed
  by attribute name. Two fields are ghosts: \<open>log\<close> is the calls made so far, in
  order, and \<open>aliased\<close> is the position, in its list, of the tensor object that the
  accumulators of the running accumulation loop are bound to.\<close>

record model =
  opt :: options
  isTrain :: bool
  loss_names :: "string list"
  visual_names :: "string list"
  model_names :: "string list"
  weights :: "net \<Rightarrow> weights"
  requires_grad :: "net \<Rightarrow> bool"
  grad :: "net \<Rightarrow> graph list"
  netD :: "net list option"
  optimizer_G :: "net list option"
  optimizer_D :: "net list list option"
  optimizers :: "net list list"
  real_A :: "image list"
  real_B :: "image list"
  image_paths :: "entry list"
  created :: "string set"
  visuals :: "string \<rightharpoonup> graph"
  fake_B :: "graph list"
  fake_B_curG :: "graph list"
  fake_B_prevG :: "graph list"
  loss_D_fake :: "graph list"
  loss_D_real :: "graph list"
  loss_D_fake_all :: "graph option"
  loss_D_real_all :: "graph option"
  loss_D :: "graph option"
  loss_G_GAN :: "graph list"
  loss_G_L1 :: "graph list"
  loss_G_perceptual :: "graph list"
  loss_G_GAN_all :: "graph option"
  loss_G_L1_all :: "graph option"
  loss_G_perceptual_all :: "graph option"
  loss_reminding_L1 :: "graph list"
  loss_reminding_perceptual :: "graph list"
  loss_reminding_L1_all :: "graph option"
  loss_reminding_perceptual_all :: "graph option"
  loss_G :: "graph option"
  aliased :: nat
  log :: "event list"

definition attr :: "string \<Rightarrow> 'a option \<Rightarrow> error + 'a" where
  "attr name v = (case v of None \<Rightarrow> Inl (AttributeError name) | Some x \<Rightarrow> Inr x)"

definition element :: "model \<Rightarrow> string \<Rightarrow> 'a list \<Rightarrow> int \<Rightarrow> error + 'a" where
  \<comment> \<open>\<^verbatim>\<open>self.name[i]\<close>, where \<open>xs\<close> is the field of the attribute \<open>name\<close>: the
      attribute is looked up first, then indexed\<close>
  "element s name xs i =
     (if name \<in> created s then py_nth xs i else Inl (AttributeError name))"

definition lifelong :: "options \<Rightarrow> bool" where
  \<comment> \<open>\<^verbatim>\<open>opt.task_num > 1 and (not opt.no_lifelong_training)\<close>\<close>
  "lifelong opts \<longleftrightarrow> task_num opts > 1 \<and> \<not> no_lifelong_training opts"

definition retention :: "model \<Rightarrow> bool" where
  \<comment> \<open>the test of \<^verbatim>\<open>set_input\<close>, \<^verbatim>\<open>forward\<close> and \<^verbatim>\<open>backward_G\<close>
      on \<^verbatim>\<open>self.opt\<close>\<close>
  "retention st = lifelong (opt st)"

definition call :: "model \<Rightarrow> net \<Rightarrow> graph \<Rightarrow> graph" where
  \<comment> \<open>the forward call \<^verbatim>\<open>net(x)\<close> with the parameters of this moment\<close>
  "call st n x = Apply n (weights st n) (requires_grad st n) x"

definition logged :: "event list \<Rightarrow> model \<Rightarrow> model" where
  "logged es st = st\<lparr>log := log st @ es\<rparr>"

definition set_visual :: "string \<Rightarrow> graph \<Rightarrow> model \<Rightarrow> model" where
  "set_visual name x st = st\<lparr>visuals := (visuals st)(name \<mapsto> x)\<rparr>"

subsection \<open>Initialisation\<close>

text \<open>
  \<^verbatim>\<open>torch.load(path)\<close> followed by \<^verbatim>\<open>net.load_state_dict\<close>. The file
  system is a map from paths to checkpoints; the boolean of a checkpoint says whether
  its keys fit the generator, as the strict \<^verbatim>\<open>load_state_dict\<close> demands.
  Deleting \<^verbatim>\<open>_metadata\<close> and unwrapping \<^verbatim>\<open>DataParallel\<close> change
  neither the file read nor the network written.
\<close>

type_synonym files = "string \<rightharpoonup> bool"

definition load_state :: "files \<Rightarrow> net \<Rightarrow> string \<Rightarrow> model \<Rightarrow> error + model" where
  "load_state fs n path st =
     (case fs path of
        None \<Rightarrow> Inl (FileNotFoundError path)
      | Some fits \<Rightarrow>
          if fits
          then Inr (logged [LoadStateDict n path] (st\<lparr>weights := (weights st)(n := Checkpoint path)\<rparr>))
          else Inl (RuntimeError ''load_state_dict''))"

definition checkpoint_path :: "options \<Rightarrow> string" where
  \<comment> \<open>\<^verbatim>\<open>'{:s}/{:d}_net_G.pth'.format(prev_model_path, prev_model_epoch)\<close>\<close>
  "checkpoint_path opts = prev_model_path opts @ ''/'' @ str_int (prev_model_epoch opts) @ ''_net_G.pth''"

definition load_prev_model :: "files \<Rightarrow> model \<Rightarrow> error + model" where
  "load_prev_model fs st =
     (let nets = [NetG_prev, NetG];
          model_paths = [checkpoint_path (opt st), checkpoint_path (opt st)]
      in for_loop
           (\<lambda>s i. bind_err (py_nth nets i) (\<lambda>n.
                   bind_err (py_nth model_paths i) (\<lambda>path.
                   load_state fs n path s)))
           (range_py 0 (int (length nets))) st)"

text \<open>
  \<^verbatim>\<open>__init__\<close>. \<open>vgg_rg\<close> says whether the parameters of
  \<^verbatim>\<open>vgg16_feat()\<close> are created with \<^verbatim>\<open>requires_grad\<close>; that module
  is not part of the file, so it is a parameter. Parameters made by
  \<^verbatim>\<open>define_G\<close> and \<^verbatim>\<open>define_D\<close> require gradients, as every
  \<^verbatim>\<open>nn.Parameter\<close> does when created. In test mode the discriminators, the
  criteria and the optimisers are not created. No list of images or of losses exists yet:
  \<open>created\<close> is empty, so that a method reading \<^verbatim>\<open>real_A\<close> or
  \<^verbatim>\<open>fake_B\<close> before the method that creates it has run raises
  \<^verbatim>\<open>AttributeError\<close>; the lists of losses and their accumulators are assigned by
  the method that reads them before it reads them, and what their fields hold until then
  is never read. For \<^verbatim>\<open>loss_reminding_L1_all\<close> and
  \<^verbatim>\<open>loss_reminding_perceptual_all\<close>, which the composition of the generator
  loss may find missing, \<open>None\<close> stands for missing.
\<close>

definition names_no_retention :: "string list \<times> string list" where
  "names_no_retention =
     ([''G_GAN_all'', ''G_L1_all'', ''G_perceptual_all'', ''D_real_all'', ''D_fake_all''],
      [''real_A_cur1'', ''fake_B_cur1'', ''real_B_cur1'', ''real_A_cur2'', ''fake_B_cur2'', ''real_B_cur2''])"

definition names_retention :: "string list \<times> string list" where
  "names_retention =
     ([''G_GAN_all'', ''G_L1_all'', ''G_perceptual_all'', ''D_real_all'', ''D_fake_all'',
       ''reminding_L1_all'', ''reminding_perceptual_all''],
      [''real_A_prev1'', ''real_B_prev1'', ''fake_B_cur_prev1'', ''fake_B_prev1'',
       ''real_A_cur1'', ''fake_B_cur1'', ''real_B_cur1'',
       ''real_A_prev2'', ''real_B_prev2'', ''fake_B_cur_prev2'', ''fake_B_prev2'',
       ''real_A_cur2'', ''fake_B_cur2'', ''real_B_cur2''])"

definition blank :: "options \<Rightarrow> bool \<Rightarrow> model" where
  \<comment> \<open>the object after \<^verbatim>\<open>BaseModel.__init__\<close> and the network definitions\<close>
  "blank opts vgg_rg =
     (let names = (if task_num opts = 1 \<or> no_lifelong_training opts
                   then names_no_retention else names_retention)
      in \<lparr> opt = opts, isTrain = isTrain_opt opts,
           loss_names = fst names, visual_names = snd names,
           model_names = (if isTrain_opt opts then [''G'', ''D''] else [''G'']),
           weights = Fresh,
           requires_grad = (\<lambda>n. case n of Vgg \<Rightarrow> vgg_rg | _ \<Rightarrow> True),
           grad = (\<lambda>n. []),
           netD = (if isTrain_opt opts then Some (map (\<lambda>i. NetD (nat i)) (range_py 0 2)) else None),
           optimizer_G = None, optimizer_D = None, optimizers = [],
           real_A = [], real_B = [], image_paths = [], created = {}, visuals = Map.empty,
           fake_B = [], fake_B_curG = [], fake_B_prevG = [],
           loss_D_fake = [], loss_D_real = [],
           loss_D_fake_all = None, loss_D_real_all = None, loss_D = None,
           loss_G_GAN = [], loss_G_L1 = [], loss_G_perceptual = [],
           loss_G_GAN_all = None, loss_G_L1_all = None, loss_G_perceptual_all = None,
           loss_reminding_L1 = [], loss_reminding_perceptual = [],
           loss_reminding_L1_all = None, loss_reminding_perceptual_all = None,
           loss_G = None, aliased = 0, log = [] \<rparr>)"

definition make_optimizers :: "model \<Rightarrow> error + model" where
  "make_optimizers st =
     bind_err (attr ''netD'' (netD st)) (\<lambda>nd.
       Inr (st\<lparr>optimizer_G := Some [NetG],
               optimizer_D := Some (map (\<lambda>n. [n]) nd),
               optimizers := optimizers st @ map (\<lambda>n. [n]) nd @ [[NetG]]\<rparr>))"

definition init :: "files \<Rightarrow> bool \<Rightarrow> options \<Rightarrow> error + model" where
  "init fs vgg_rg opts =
     bind_err
       (if isTrain (blank opts vgg_rg) \<and> prev_model_path opts \<noteq> ''''
        then load_prev_model fs (blank opts vgg_rg) else Inr (blank opts vgg_rg))
       (\<lambda>st. if isTrain st then make_optimizers st else Inr st)"

subsection \<open>Unpacking a batch\<close>

definition item :: "batch \<Rightarrow> string \<Rightarrow> error + entry" where
  "item input key = (case input key of None \<Rightarrow> Inl (KeyError key) | Some e \<Rightarrow> Inr e)"

definition to_device :: "entry \<Rightarrow> error + image" where
  \<comment> \<open>\<^verbatim>\<open>.to(self.device)\<close>, which only a tensor has\<close>
  "to_device e = (case e of Tensor a \<Rightarrow> Inr a | Paths ps \<Rightarrow> Inl (AttributeError ''to''))"

definition set_input_body :: "batch \<Rightarrow> model \<Rightarrow> int \<Rightarrow> error + model" where
  "set_input_body input s i =
     bind_err (item input (''A_'' @ str_int i)) (\<lambda>ea.
     bind_err (to_device ea) (\<lambda>a.
     bind_err (item input (''B_'' @ str_int i)) (\<lambda>eb.
     bind_err (to_device eb) (\<lambda>b.
     bind_err (item input (''A_paths_'' @ str_int i)) (\<lambda>ps.
     Inr (s\<lparr>real_A := real_A s @ [a], real_B := real_B s @ [b],
             image_paths := image_paths s @ [ps]\<rparr>))))))"

definition set_input :: "batch \<Rightarrow> model \<Rightarrow> error + model" where
  "set_input input st =
     (let t = task_num (opt st) in
      bind_err (for_loop (set_input_body input) (range_py 0 (t * 2))
                  (st\<lparr>real_A := [], real_B := [], image_paths := [],
                      created := created st \<union> {''real_A'', ''real_B''}\<rparr>)) (\<lambda>s1.
      bind_err (py_nth (real_A s1) (2 * t - 2)) (\<lambda>a1.
      bind_err (py_nth (real_A s1) (2 * t - 1)) (\<lambda>a2.
      bind_err (py_nth (real_B s1) (2 * t - 2)) (\<lambda>b1.
      bind_err (py_nth (real_B s1) (2 * t - 1)) (\<lambda>b2.
      let s2 = set_visual ''real_B_cur2'' (Data b2) (set_visual ''real_B_cur1'' (Data b1)
                 (set_visual ''real_A_cur2'' (Data a2) (set_visual ''real_A_cur1'' (Data a1) s1)))
      in if retention s2
         then bind_err (py_nth (real_A s2) 0) (\<lambda>pa1.
              bind_err (py_nth (real_A s2) 1) (\<lambda>pa2.
              bind_err (py_nth (real_B s2) 0) (\<lambda>pb1.
              bind_err (py_nth (real_B s2) 1) (\<lambda>pb2.
              Inr (set_visual ''real_B_prev2'' (Data pb2) (set_visual ''real_B_prev1'' (Data pb1)
                    (set_visual ''real_A_prev2'' (Data pa2) (set_visual ''real_A_prev1'' (Data pa1) s2))))))))
         else Inr s2))))))"

subsection \<open>The forward pass\<close>

definition forward_cur_body :: "model \<Rightarrow> int \<Rightarrow> error + model" where
  \<comment> \<open>\<^verbatim>\<open>self.fake_B.append(self.netG(self.real_A[i]))\<close>\<close>
  "forward_cur_body s i =
     bind_err (element s ''real_A'' (real_A s) i) (\<lambda>a.
     Inr (logged [Forward NetG (Data a)] (s\<lparr>fake_B := fake_B s @ [call s NetG (Data a)]\<rparr>)))"

definition forward_prev_body :: "model \<Rightarrow> int \<Rightarrow> error + model" where
  \<comment> \<open>\<^verbatim>\<open>self.fake_B_curG.append(self.netG(self.real_A[i]))\<close>, then
      \<^verbatim>\<open>self.fake_B_prevG.append(self.netG_prev(self.real_A[i]))\<close>\<close>
  "forward_prev_body s i =
     bind_err (element s ''real_A'' (real_A s) i) (\<lambda>a.
     Inr (logged [Forward NetG (Data a), Forward NetG_prev (Data a)]
           (s\<lparr>fake_B_curG := fake_B_curG s @ [call s NetG (Data a)],
              fake_B_prevG := fake_B_prevG s @ [call s NetG_prev (Data a)]\<rparr>)))"

definition forward :: "model \<Rightarrow> error + model" where
  "forward st =
     (let t = task_num (opt st) in
      bind_err (for_loop forward_cur_body (range_py (2 * t - 2) (2 * t))
                  (st\<lparr>fake_B := [], created := insert ''fake_B'' (created st)\<rparr>)) (\<lambda>s1.
      bind_err (py_nth (fake_B s1) 0) (\<lambda>f1.
      bind_err (py_nth (fake_B s1) 1) (\<lambda>f2.
      let s2 = set_visual ''fake_B_cur2'' f2 (set_visual ''fake_B_cur1'' f1 s1)
      in if retention s2
         then bind_err (for_loop forward_prev_body (range_py 0 (2 * t - 2))
                          (s2\<lparr>fake_B_curG := [], fake_B_prevG := [],
                              created := created s2 \<union> {''fake_B_curG'', ''fake_B_prevG''}\<rparr>)) (\<lambda>s3.
              bind_err (py_nth (fake_B_curG s3) 0) (\<lambda>c1.
              bind_err (py_nth (fake_B_curG s3) 1) (\<lambda>c2.
              bind_err (py_nth (fake_B_prevG s3) 0) (\<lambda>p1.
              bind_err (py_nth (fake_B_prevG s3) 1) (\<lambda>p2.
              Inr (set_visual ''fake_B_prev2'' p2 (set_visual ''fake_B_prev1'' p1
                    (set_visual ''fake_B_cur_prev2'' c2 (set_visual ''fake_B_cur_prev1'' c1 s3)))))))))
         else Inr s2))))"

subsection \<open>Autograd and the optimisers\<close>

text \<open>
  \<^verbatim>\<open>loss.backward()\<close> adds the gradient of the loss to the gradient buffer of
  every parameter the graph reaches, and raises when it reaches none. A gradient buffer is
  the list of losses back-propagated into it since it was last cleared.
  \<^verbatim>\<open>zero_grad\<close> clears the buffers of the parameters the optimiser holds, and
  \<^verbatim>\<open>step\<close> changes exactly those parameters.
\<close>

definition backward :: "graph \<Rightarrow> model \<Rightarrow> error + model" where
  "backward loss st =
     (if leaves loss = {} then Inl (RuntimeError ''does not require grad'')
      else Inr (logged [Backward loss]
                 (st\<lparr>grad := (\<lambda>n. if n \<in> leaves loss then grad st n @ [loss] else grad st n)\<rparr>)))"

definition zero_grad :: "net list \<Rightarrow> model \<Rightarrow> model" where
  "zero_grad held st =
     logged [ZeroGrad held] (st\<lparr>grad := (\<lambda>n. if n \<in> set held then [] else grad st n)\<rparr>)"

definition step :: "net list \<Rightarrow> model \<Rightarrow> model" where
  "step held st =
     logged [Step held]
       (st\<lparr>weights := (\<lambda>n. if n \<in> set held then Adam (weights st n) (grad st n) else weights st n)\<rparr>)"

text \<open>
  Modelled from the spec: \<^verbatim>\<open>BaseModel.set_requires_grad\<close> lives in
  \<^verbatim>\<open>models/base_model.py\<close>, which is not among the sources. The spec's
  orchestrator "enables" and "disables discriminator gradients" with it: the flag
  \<^verbatim>\<open>requires_grad\<close> of every parameter of the given networks is set to the
  given value.
\<close>

definition set_requires_grad :: "net list \<Rightarrow> bool \<Rightarrow> model \<Rightarrow> model" where
  "set_requires_grad nets flag st =
     logged [SetRequiresGrad nets flag]
       (st\<lparr>requires_grad := (\<lambda>n. if n \<in> set nets then flag else requires_grad st n)\<rparr>)"

text \<open>Arithmetic on attributes that may be \<^verbatim>\<open>None\<close>.\<close>

definition plus_eq :: "graph option \<Rightarrow> graph \<Rightarrow> error + graph" where
  \<comment> \<open>the value of the tensor \<^verbatim>\<open>acc\<close> after \<^verbatim>\<open>acc += x\<close>\<close>
  "plus_eq acc x = (case acc of None \<Rightarrow> Inl TypeError | Some a \<Rightarrow> Inr (Add a x))"

definition operand :: "graph option \<Rightarrow> error + graph" where
  \<comment> \<open>an operand of \<^verbatim>\<open>+\<close> or \<^verbatim>\<open>*\<close>, which \<^verbatim>\<open>None\<close> cannot be\<close>
  "operand x = (case x of None \<Rightarrow> Inl TypeError | Some a \<Rightarrow> Inr a)"

subsection \<open>The discriminator loss\<close>

definition backward_D_body :: "model \<Rightarrow> int \<Rightarrow> error + model" where
  "backward_D_body s i =
     bind_err (element s ''real_A'' (real_A s) i) (\<lambda>a.
     bind_err (element s ''fake_B'' (fake_B s) (i mod 2)) (\<lambda>f.
     let fake_AB = Cat (Data a) f in
     bind_err (attr ''netD'' (netD s)) (\<lambda>nd.
     bind_err (py_nth nd (i mod 2)) (\<lambda>d.
     let pred_fake = call s d (Detach fake_AB);
         s1 = logged [Forward d (Detach fake_AB)]
                (s\<lparr>loss_D_fake := loss_D_fake s @ [GANLoss pred_fake False]\<rparr>) in
     bind_err (element s1 ''real_B'' (real_B s1) i) (\<lambda>b.
     let real_AB = Cat (Data a) (Data b);
         pred_real = call s1 d real_AB in
     Inr (logged [Forward d real_AB]
           (s1\<lparr>loss_D_real := loss_D_real s1 @ [GANLoss pred_real True]\<rparr>)))))))"

text \<open>
  The accumulation loops start from \<^verbatim>\<open>None\<close>. Their first round binds each
  accumulator to an element of its list: the attribute and the list element are then one
  tensor object, and \<open>aliased\<close> remembers where it sits (\<open>i\<close> comes from
  \<^verbatim>\<open>range(len(...))\<close> and is not negative). Every later round adds with
  \<^verbatim>\<open>+=\<close>, which on a tensor adds in place: the object changes, so the new
  sum is what the accumulator holds and also what that element of the list holds.
\<close>

definition sum_D_body :: "model \<Rightarrow> int \<Rightarrow> error + model" where
  "sum_D_body s i =
     (if loss_D_fake_all s = None
      then bind_err (py_nth (loss_D_fake s) i) (\<lambda>f.
           bind_err (py_nth (loss_D_real s) i) (\<lambda>r.
           Inr (s\<lparr>loss_D_fake_all := Some f, loss_D_real_all := Some r, aliased := nat i\<rparr>)))
      else bind_err (py_nth (loss_D_fake s) i) (\<lambda>f.
           bind_err (plus_eq (loss_D_fake_all s) f) (\<lambda>fa.
           bind_err (py_nth (loss_D_real s) i) (\<lambda>r.
           bind_err (plus_eq (loss_D_real_all s) r) (\<lambda>ra.
           Inr (s\<lparr>loss_D_fake_all := Some fa, loss_D_fake := (loss_D_fake s)[aliased s := fa],
                   loss_D_real_all := Some ra, loss_D_real := (loss_D_real s)[aliased s := ra]\<rparr>))))))"

definition backward_D :: "model \<Rightarrow> error + model" where
  "backward_D st =
     (let t = task_num (opt st) in
      bind_err (for_loop backward_D_body (range_py (2 * t - 2) (2 * t))
                  (st\<lparr>loss_D_fake := [], loss_D_real := []\<rparr>)) (\<lambda>s1.
      bind_err (for_loop sum_D_body (range_py 0 (int (length (loss_D_fake s1))))
                  (s1\<lparr>loss_D_fake_all := None, loss_D_real_all := None\<rparr>)) (\<lambda>s2.
      bind_err (operand (loss_D_fake_all s2)) (\<lambda>fa.
      bind_err (operand (loss_D_real_all s2)) (\<lambda>ra.
      let l = Scale (Add fa ra) (lambda_D (opt s2)) in
      backward l (s2\<lparr>loss_D := Some l\<rparr>))))))"

subsection \<open>The generator loss\<close>

definition backward_G_body :: "model \<Rightarrow> int \<Rightarrow> error + model" where
  "backward_G_body s i =
     bind_err (element s ''real_A'' (real_A s) i) (\<lambda>a.
     bind_err (element s ''fake_B'' (fake_B s) (i mod 2)) (\<lambda>f.
     let fake_AB = Cat (Data a) f in
     bind_err (attr ''netD'' (netD s)) (\<lambda>nd.
     bind_err (py_nth nd (i mod 2)) (\<lambda>d.
     let pred_fake = call s d fake_AB;
         s1 = logged [Forward d fake_AB]
                (s\<lparr>loss_G_GAN := loss_G_GAN s @ [GANLoss pred_fake True]\<rparr>) in
     bind_err (element s1 ''real_B'' (real_B s1) i) (\<lambda>b.
     let s2 = s1\<lparr>loss_G_L1 := loss_G_L1 s1 @ [L1Loss f (Data b)]\<rparr>;
         pred_feat = call s2 Vgg f;
         target_feat = call s2 Vgg (Data b) in
     Inr (logged [Forward Vgg f, Forward Vgg (Data b)]
           (s2\<lparr>loss_G_perceptual := loss_G_perceptual s2 @ [Perceptual pred_feat target_feat]\<rparr>)))))))"

definition sum_G_body :: "model \<Rightarrow> int \<Rightarrow> error + model" where
  "sum_G_body s i =
     (if loss_G_GAN_all s = None
      then bind_err (py_nth (loss_G_GAN s) i) (\<lambda>g.
           bind_err (py_nth (loss_G_L1 s) i) (\<lambda>l.
           bind_err (py_nth (loss_G_perceptual s) i) (\<lambda>p.
           Inr (s\<lparr>loss_G_GAN_all := Some g, loss_G_L1_all := Some l,
                   loss_G_perceptual_all := Some p, aliased := nat i\<rparr>))))
      else bind_err (py_nth (loss_G_GAN s) i) (\<lambda>g.
           bind_err (plus_eq (loss_G_GAN_all s) g) (\<lambda>ga.
           bind_err (py_nth (loss_G_L1 s) i) (\<lambda>l.
           bind_err (plus_eq (loss_G_L1_all s) l) (\<lambda>la.
           bind_err (py_nth (loss_G_perceptual s) i) (\<lambda>p.
           bind_err (plus_eq (loss_G_perceptual_all s) p) (\<lambda>pa.
           Inr (s\<lparr>loss_G_GAN_all := Some ga, loss_G_GAN := (loss_G_GAN s)[aliased s := ga],
                   loss_G_L1_all := Some la, loss_G_L1 := (loss_G_L1 s)[aliased s := la],
                   loss_G_perceptual_all := Some pa,
                   loss_G_perceptual := (loss_G_perceptual s)[aliased s := pa]\<rparr>))))))))"

definition reminding_body :: "model \<Rightarrow> int \<Rightarrow> error + model" where
  "reminding_body s i =
     bind_err (element s ''fake_B_curG'' (fake_B_curG s) i) (\<lambda>c.
     bind_err (element s ''fake_B_prevG'' (fake_B_prevG s) i) (\<lambda>p.
     let s1 = s\<lparr>loss_reminding_L1 := loss_reminding_L1 s @ [L1Loss c p]\<rparr>;
         pred_feat_G = call s1 Vgg c;
         pred_feat_G_prev = call s1 Vgg p in
     Inr (logged [Forward Vgg c, Forward Vgg p]
           (s1\<lparr>loss_reminding_perceptual :=
                  loss_reminding_perceptual s1 @ [Perceptual pred_feat_G pred_feat_G_prev]\<rparr>))))"

definition sum_reminding_body :: "model \<Rightarrow> int \<Rightarrow> error + model" where
  "sum_reminding_body s i =
     (if loss_reminding_L1_all s = None
      then bind_err (py_nth (loss_reminding_L1 s) i) (\<lambda>l.
           bind_err (py_nth (loss_reminding_perceptual s) i) (\<lambda>p.
           Inr (s\<lparr>loss_reminding_L1_all := Some l, loss_reminding_perceptual_all := Some p,
                   aliased := nat i\<rparr>)))
      else bind_err (py_nth (loss_reminding_L1 s) i) (\<lambda>l.
           bind_err (plus_eq (loss_reminding_L1_all s) l) (\<lambda>la.
           bind_err (py_nth (loss_reminding_perceptual s) i) (\<lambda>p.
           bind_err (plus_eq (loss_reminding_perceptual_all s) p) (\<lambda>pa.
           Inr (s\<lparr>loss_reminding_L1_all := Some la,
                   loss_reminding_L1 := (loss_reminding_L1 s)[aliased s := la],
                   loss_reminding_perceptual_all := Some pa,
                   loss_reminding_perceptual := (loss_reminding_perceptual s)[aliased s := pa]\<rparr>))))))"

definition reminding :: "model \<Rightarrow> error + model" where
  \<comment> \<open>the block \<^verbatim>\<open># for previous tasks\<close> of \<^verbatim>\<open>backward_G\<close>\<close>
  "reminding st =
     (if retention st
      then bind_err (for_loop reminding_body (range_py 0 (2 * task_num (opt st) - 2))
                       (st\<lparr>loss_reminding_L1 := [], loss_reminding_perceptual := []\<rparr>)) (\<lambda>s1.
           for_loop sum_reminding_body (range_py 0 (int (length (loss_reminding_L1 s1))))
             (s1\<lparr>loss_reminding_L1_all := None, loss_reminding_perceptual_all := None\<rparr>))
      else Inr st)"

definition compose_G :: "model \<Rightarrow> error + graph" where
  \<comment> \<open>the two assignments to \<^verbatim>\<open>self.loss_G\<close>\<close>
  "compose_G s =
     bind_err (operand (loss_G_GAN_all s)) (\<lambda>g.
     bind_err (operand (loss_G_L1_all s)) (\<lambda>l.
     bind_err (operand (loss_G_perceptual_all s)) (\<lambda>p.
     let digesting = Add (Add g (Scale l (lambda_digesting_L1 (opt s))))
                         (Scale p (lambda_digesting_perceptual (opt s)))
     in if task_num (opt s) = 1 \<or> no_lifelong_training (opt s)
        then Inr (Scale digesting (lambda_G (opt s)))
        else bind_err (attr ''loss_reminding_L1_all'' (loss_reminding_L1_all s)) (\<lambda>rl.
             bind_err (attr ''loss_reminding_perceptual_all'' (loss_reminding_perceptual_all s)) (\<lambda>rp.
             Inr (Scale (Add (Add digesting (Scale rl (lambda_reminding_L1 (opt s))))
                             (Scale rp (lambda_reminding_perceptual (opt s))))
                        (lambda_G (opt s))))))))"

definition backward_G :: "model \<Rightarrow> error + model" where
  "backward_G st =
     (let t = task_num (opt st) in
      bind_err (for_loop backward_G_body (range_py (2 * t - 2) (2 * t))
                  (st\<lparr>loss_G_GAN := [], loss_G_L1 := [], loss_G_perceptual := []\<rparr>)) (\<lambda>s1.
      bind_err (for_loop sum_G_body (range_py 0 (int (length (loss_G_GAN s1))))
                  (s1\<lparr>loss_G_GAN_all := None, loss_G_L1_all := None,
                      loss_G_perceptual_all := None\<rparr>)) (\<lambda>s2.
      bind_err (reminding s2) (\<lambda>s3.
      bind_err (compose_G s3) (\<lambda>l.
      backward l (s3\<lparr>loss_G := Some l\<rparr>))))))"

subsection \<open>One optimisation cycle\<close>

definition update_D :: "model \<Rightarrow> error + model" where
  \<comment> \<open>the block \<^verbatim>\<open># update D\<close> of \<^verbatim>\<open>optimize_parameters\<close>\<close>
  "update_D s1 =
     bind_err (attr ''netD'' (netD s1)) (\<lambda>nd.
     let s2 = set_requires_grad nd True s1 in
     bind_err (attr ''optimizer_D'' (optimizer_D s2)) (\<lambda>ods.
     let s3 = fold zero_grad ods s2 in
     bind_err (backward_D s3) (\<lambda>s4.
     bind_err (attr ''optimizer_D'' (optimizer_D s4)) (\<lambda>ods.
     Inr (fold step ods s4)))))"

definition update_G :: "model \<Rightarrow> error + model" where
  \<comment> \<open>the last four lines of \<^verbatim>\<open>optimize_parameters\<close>\<close>
  "update_G s5 =
     bind_err (attr ''netD'' (netD s5)) (\<lambda>nd.
     let s6 = set_requires_grad nd False s5 in
     bind_err (attr ''optimizer_G'' (optimizer_G s6)) (\<lambda>og.
     let s7 = zero_grad og s6 in
     bind_err (backward_G s7) (\<lambda>s8.
     bind_err (attr ''optimizer_G'' (optimizer_G s8)) (\<lambda>og.
     Inr (step og s8)))))"

definition optimize_parameters :: "model \<Rightarrow> error + model" where
  "optimize_parameters st = bind_err (forward st) (\<lambda>s1. bind_err (update_D s1) update_G)"

fun repeat_optimize :: "nat \<Rightarrow> model \<Rightarrow> error + model" where
  \<comment> \<open>\<open>n\<close> calls of \<^verbatim>\<open>optimize_parameters\<close> in a row\<close>
  "repeat_optimize 0 st = Inr st"
| "repeat_optimize (Suc n) st = bind_err (optimize_parameters st) (repeat_optimize n)"

text \<open>The training script's loop body: \<^verbatim>\<open>set_input\<close>, then
  \<^verbatim>\<open>optimize_parameters\<close>, once per batch.\<close>

definition train_step :: "model \<Rightarrow> batch \<Rightarrow> error + model" where
  "train_step st input = bind_err (set_input input st) optimize_parameters"

subsection \<open>Example inputs\<close>

definition opts_example :: "int \<Rightarrow> bool \<Rightarrow> string \<Rightarrow> options" where
  \<comment> \<open>training options with the defaults of \<^verbatim>\<open>modify_commandline_options\<close>\<close>
  "opts_example t nl p =
     \<lparr> isTrain_opt = True, task_num = t, no_lifelong_training = nl,
       prev_model_path = p, prev_model_epoch = 400,
       lambda_digesting_L1 = 100, lambda_digesting_perceptual = 1,
       lambda_reminding_L1 = 10, lambda_reminding_perceptual = 1,
       lambda_G = 1 / 10, lambda_D = 1 / 20 \<rparr>"

definition files_example :: files where
  "files_example = [''ckpt/400_net_G.pth'' \<mapsto> True]"

definition batch_example :: batch where
  \<comment> \<open>a batch of four streams, as the data loader gives for task index 2\<close>
  "batch_example = map_of
     [(''A_0'', Tensor 0), (''B_0'', Tensor 10), (''A_paths_0'', Paths [''a0.png'']),
      (''A_1'', Tensor 1), (''B_1'', Tensor 11), (''A_paths_1'', Paths [''a1.png'']),
      (''A_2'', Tensor 2), (''B_2'', Tensor 12), (''A_paths_2'', Paths [''a2.png'']),
      (''A_3'', Tensor 3), (''B_3'', Tensor 13), (''A_paths_3'', Paths [''a3.png''])]"

definition model_example :: "int \<Rightarrow> bool \<Rightarrow> model" where
  \<comment> \<open>the model after \<^verbatim>\<open>__init__\<close> without a previous-model path and
      \<^verbatim>\<open>set_input\<close> on the example batch\<close>
  "model_example t nl =
     projr (bind_err (init Map.empty False (opts_example t nl '''')) (set_input batch_example))"

definition forwarded_example :: "int \<Rightarrow> bool \<Rightarrow> model" where
  \<comment> \<open>the example model after \<^verbatim>\<open>forward\<close>\<close>
  "forwarded_example t nl = projr (forward (model_example t nl))"

subsection \<open>States of a training session, and the terms of the losses\<close>

text \<open>
  \<open>ready\<close> describes the model when \<^verbatim>\<open>optimize_parameters\<close> is called in a
  training session: built by \<^verbatim>\<open>__init__\<close> in training mode and given a batch
  of \<open>2t\<close> streams by \<^verbatim>\<open>set_input\<close>. \<open>forwarded\<close> adds what the forward
  pass leaves behind: two generated images, and one output of each generator per
  previous-task stream when retention is active, each with a gradient path to the
  generator that produced it and to nothing else.
\<close>

definition ready :: "model \<Rightarrow> bool" where
  "ready st \<longleftrightarrow>
     1 \<le> task_num (opt st)
     \<and> ''real_A'' \<in> created st \<and> int (length (real_A st)) = 2 * task_num (opt st)
     \<and> ''real_B'' \<in> created st \<and> int (length (real_B st)) = 2 * task_num (opt st)
     \<and> netD st = Some [NetD 0, NetD 1]
     \<and> optimizer_G st = Some [NetG]
     \<and> optimizer_D st = Some [[NetD 0], [NetD 1]]
     \<and> requires_grad st NetG \<and> requires_grad st NetG_prev"

definition forwarded :: "model \<Rightarrow> bool" where
  "forwarded st \<longleftrightarrow>
     ready st \<and> ''fake_B'' \<in> created st \<and> length (fake_B st) = 2
     \<and> list_all (\<lambda>x. leaves x = {NetG}) (fake_B st)
     \<and> (retention st \<longrightarrow>
          ''fake_B_curG'' \<in> created st \<and> ''fake_B_prevG'' \<in> created st
        \<and> int (length (fake_B_curG st)) = 2 * task_num (opt st) - 2
        \<and> int (length (fake_B_prevG st)) = 2 * task_num (opt st) - 2
        \<and> list_all (\<lambda>x. leaves x = {NetG}) (fake_B_curG st)
        \<and> list_all (\<lambda>x. leaves x = {NetG_prev}) (fake_B_prevG st))"

definition core ::
  "model \<Rightarrow> options \<times> image list \<times> image list \<times> net list option \<times> net list option \<times> net list list option" where
  \<comment> \<open>what no method called by \<^verbatim>\<open>optimize_parameters\<close> assigns\<close>
  "core s = (opt s, real_A s, real_B s, netD s, optimizer_G s, optimizer_D s)"

text \<open>The terms of the losses in the words of the specification: per stream \<open>i\<close>, with
  parity \<open>i mod 2\<close> selecting the discriminator and the generated image.\<close>

definition source :: "model \<Rightarrow> int \<Rightarrow> graph" where
  "source st i = Data (real_A st ! nat i)"

definition target :: "model \<Rightarrow> int \<Rightarrow> graph" where
  "target st i = Data (real_B st ! nat i)"

definition parity :: "int \<Rightarrow> nat" where
  "parity i = nat (i mod 2)"

definition generated :: "model \<Rightarrow> int \<Rightarrow> graph" where
  "generated st i = fake_B st ! parity i"

definition D_fake_term :: "model \<Rightarrow> int \<Rightarrow> graph" where
  \<comment> \<open>discriminator \<open>p\<close> on the detached (source, generated) pair, label FAKE\<close>
  "D_fake_term st i =
     GANLoss (call st (NetD (parity i)) (Detach (Cat (source st i) (generated st i)))) False"

definition D_real_term :: "model \<Rightarrow> int \<Rightarrow> graph" where
  \<comment> \<open>discriminator \<open>p\<close> on the (source, real target) pair, label REAL\<close>
  "D_real_term st i =
     GANLoss (call st (NetD (parity i)) (Cat (source st i) (target st i))) True"

definition G_adv_term :: "model \<Rightarrow> int \<Rightarrow> graph" where
  \<comment> \<open>discriminator \<open>p\<close> on the (source, generated) pair, not detached, label REAL\<close>
  "G_adv_term st i =
     GANLoss (call st (NetD (parity i)) (Cat (source st i) (generated st i))) True"

definition G_L1_term :: "model \<Rightarrow> int \<Rightarrow> graph" where
  "G_L1_term st i = L1Loss (generated st i) (target st i)"

definition G_perceptual_term :: "model \<Rightarrow> int \<Rightarrow> graph" where
  "G_perceptual_term st i =
     Perceptual (call st Vgg (generated st i)) (call st Vgg (target st i))"

definition remind_L1_term :: "model \<Rightarrow> int \<Rightarrow> graph" where
  \<comment> \<open>trainable against previous-task generator on previous-task stream \<open>i\<close>\<close>
  "remind_L1_term st i = L1Loss (fake_B_curG st ! nat i) (fake_B_prevG st ! nat i)"

definition remind_perceptual_term :: "model \<Rightarrow> int \<Rightarrow> graph" where
  "remind_perceptual_term st i =
     Perceptual (call st Vgg (fake_B_curG st ! nat i)) (call st Vgg (fake_B_prevG st ! nat i))"

definition sum_over :: "(int \<Rightarrow> graph) \<Rightarrow> int \<Rightarrow> graph" where
  \<comment> \<open>\<open>f 0 + f 1 + ... + f n\<close>, added from the left\<close>
  "sum_over f n = foldl Add (f 0) (map f [1..n])"

definition total_D :: "model \<Rightarrow> graph" where
  \<comment> \<open>\<open>(sum_fake + sum_real) \<times> weight_D\<close> over the two current-task streams\<close>
  "total_D st =
     (let c1 = 2 * task_num (opt st) - 2; c2 = 2 * task_num (opt st) - 1
      in Scale (Add (Add (D_fake_term st c1) (D_fake_term st c2))
                    (Add (D_real_term st c1) (D_real_term st c2)))
               (lambda_D (opt st)))"

definition D_events :: "model \<Rightarrow> event list" where
  \<comment> \<open>the discriminator calls of \<^verbatim>\<open>backward_D\<close>, in order\<close>
  "D_events st =
     concat (map (\<lambda>i. [Forward (NetD (parity i)) (Detach (Cat (source st i) (generated st i))),
                        Forward (NetD (parity i)) (Cat (source st i) (target st i))])
               [2 * task_num (opt st) - 2, 2 * task_num (opt st) - 1])"

definition digesting :: "model \<Rightarrow> graph" where
  \<comment> \<open>\<open>adv + L1 \<times> \<lambda>_digest_L1 + perceptual \<times> \<lambda>_digest_perc\<close>, each a sum over the two
      current-task streams\<close>
  "digesting st =
     (let c1 = 2 * task_num (opt st) - 2; c2 = 2 * task_num (opt st) - 1
      in Add (Add (Add (G_adv_term st c1) (G_adv_term st c2))
                  (Scale (Add (G_L1_term st c1) (G_L1_term st c2)) (lambda_digesting_L1 (opt st))))
             (Scale (Add (G_perceptual_term st c1) (G_perceptual_term st c2))
                    (lambda_digesting_perceptual (opt st))))"

definition total_G :: "model \<Rightarrow> graph" where
  \<comment> \<open>the composition of the generator loss, without and with retention\<close>
  "total_G st =
     (if retention st
      then Scale (Add (Add (digesting st)
                           (Scale (sum_over (remind_L1_term st) (2 * task_num (opt st) - 3))
                                  (lambda_reminding_L1 (opt st))))
                      (Scale (sum_over (remind_perceptual_term st) (2 * task_num (opt st) - 3))
                             (lambda_reminding_perceptual (opt st))))
                 (lambda_G (opt st))
      else Scale (digesting st) (lambda_G (opt st)))"

definition G_events :: "model \<Rightarrow> event list" where
  \<comment> \<open>the network calls of \<^verbatim>\<open>backward_G\<close> for the current task, in order\<close>
  "G_events st =
     concat (map (\<lambda>i. [Forward (NetD (parity i)) (Cat (source st i) (generated st i)),
                        Forward Vgg (generated st i), Forward Vgg (target st i)])
               [2 * task_num (opt st) - 2, 2 * task_num (opt st) - 1])"

definition remind_events :: "model \<Rightarrow> event list" where
  \<comment> \<open>the network calls of \<^verbatim>\<open>backward_G\<close> for the previous tasks, in order\<close>
  "remind_events st =
     concat (map (\<lambda>i. [Forward Vgg (fake_B_curG st ! nat i), Forward Vgg (fake_B_prevG st ! nat i)])
               [0..2 * task_num (opt st) - 3])"

definition vgg_leaf :: "model \<Rightarrow> net set" where
  \<comment> \<open>the feature extractor, when its parameters require gradients\<close>
  "vgg_leaf st = (if requires_grad st Vgg then {Vgg} else {})"

text \<open>Reading the log: the inputs of the forward calls of one network, and the optimiser
  steps, each in the order they were made.\<close>

fun forwards_of :: "net \<Rightarrow> event list \<Rightarrow> graph list" where
  "forwards_of n [] = []"
| "forwards_of n (Forward m x # es) = (if m = n then x # forwards_of n es else forwards_of n es)"
| "forwards_of n (e # es) = forwards_of n es"

fun steps_of :: "event list \<Rightarrow> net list list" where
  "steps_of [] = []"
| "steps_of (Step held # es) = held # steps_of es"
| "steps_of (e # es) = steps_of es"

section \<open>Properties\<close>

subsection \<open>Basic facts\<close>

lemma bind_err_simps [simp]:
  "bind_err (Inr x) f = f x" "bind_err (Inl e) f = Inl e"
  by (simp_all add: bind_err_def)

lemma range_py_two [simp]: "range_py a (a + 2) = [a, a + 1]"
  by (simp add: range_py_def upto_rec1)

lemma range_py_0_2 [simp]: "range_py 0 2 = [0, 1]"
  using range_py_two [of 0] by simp

lemma py_nth_ok: "0 \<le> i \<Longrightarrow> i < int (length xs) \<Longrightarrow> py_nth xs i = Inr (xs ! nat i)"
  by (simp add: py_nth_def)

lemma element_ok:
  "name \<in> created s \<Longrightarrow> 0 \<le> i \<Longrightarrow> i < int (length xs) \<Longrightarrow>
   element s name xs i = Inr (xs ! nat i)"
  by (simp add: element_def py_nth_def)

lemma element_created: "name \<in> created s \<Longrightarrow> element s name xs i = py_nth xs i"
  by (simp add: element_def)

lemma py_nth_pair [simp]: "py_nth [x, y] 0 = Inr x" "py_nth [x, y] 1 = Inr y"
  by (simp_all add: py_nth_def)

lemma checkpoint_path_example:
  "checkpoint_path (opts_example t nl ''ckpt'') = ''ckpt/400_net_G.pth''"
  by (simp add: checkpoint_path_def opts_example_def str_int_def str_nat.simps digit_char_def)

subsection \<open>Initialisation\<close>

lemma load_prev_model_eq:
  "load_prev_model fs st =
     (case fs (checkpoint_path (opt st)) of
        None \<Rightarrow> Inl (FileNotFoundError (checkpoint_path (opt st)))
      | Some fits \<Rightarrow>
          if fits
          then Inr (st\<lparr>weights := (weights st)(NetG_prev := Checkpoint (checkpoint_path (opt st)),
                                              NetG := Checkpoint (checkpoint_path (opt st))),
                       log := log st @ [LoadStateDict NetG_prev (checkpoint_path (opt st)),
                                        LoadStateDict NetG (checkpoint_path (opt st))]\<rparr>)
          else Inl (RuntimeError ''load_state_dict''))"
  by (simp add: load_prev_model_def load_state_def logged_def split: option.splits)

text \<open>
  C10. With a previous-model path configured (and the checkpoint loadable), initialisation
  reads the one file \<^verbatim>\<open>{prev_model_path}/{prev_model_epoch}_net_G.pth\<close> twice:
  first into the previous-task generator, then into the trainable generator. Both hold
  the checkpoint's weights afterwards, so the trainable generator does not start from its
  fresh initialisation.
\<close>

theorem init_loads_checkpoint_into_both:
  assumes "isTrain_opt opts" and "prev_model_path opts \<noteq> ''''"
    and "fs (checkpoint_path opts) = Some True"
  shows "\<exists>st. init fs vgg_rg opts = Inr st
           \<and> weights st NetG_prev =
               Checkpoint (prev_model_path opts @ ''/'' @ str_int (prev_model_epoch opts) @ ''_net_G.pth'')
           \<and> weights st NetG = weights st NetG_prev
           \<and> weights st NetG \<noteq> Fresh NetG
           \<and> log st = [LoadStateDict NetG_prev (checkpoint_path opts),
                       LoadStateDict NetG (checkpoint_path opts)]"
  using assms
  by (simp add: init_def load_prev_model_eq blank_def Let_def make_optimizers_def attr_def
        checkpoint_path_def)

theorem init_loads_checkpoint_into_both_witness:
  "isTrain_opt (opts_example 2 False ''ckpt'')
   \<and> prev_model_path (opts_example 2 False ''ckpt'') \<noteq> ''''
   \<and> files_example (checkpoint_path (opts_example 2 False ''ckpt'')) = Some True
   \<and> (\<exists>st. init files_example False (opts_example 2 False ''ckpt'') = Inr st
          \<and> weights st NetG_prev = Checkpoint ''ckpt/400_net_G.pth''
          \<and> weights st NetG = Checkpoint ''ckpt/400_net_G.pth'')"
proof -
  have p: "checkpoint_path (opts_example 2 False ''ckpt'') = ''ckpt/400_net_G.pth''"
    by (rule checkpoint_path_example)
  have a: "isTrain_opt (opts_example 2 False ''ckpt'')"
    and b: "prev_model_path (opts_example 2 False ''ckpt'') \<noteq> ''''"
    by (simp_all add: opts_example_def)
  have c: "files_example (checkpoint_path (opts_example 2 False ''ckpt'')) = Some True"
    by (simp add: p files_example_def)
  from init_loads_checkpoint_into_both
         [where opts = "opts_example 2 False ''ckpt''" and fs = files_example and vgg_rg = False, OF a b c]
  obtain st where
    "init files_example False (opts_example 2 False ''ckpt'') = Inr st"
    "weights st NetG_prev =
       Checkpoint (prev_model_path (opts_example 2 False ''ckpt'') @ ''/'' @
                   str_int (prev_model_epoch (opts_example 2 False ''ckpt'')) @ ''_net_G.pth'')"
    "weights st NetG = weights st NetG_prev"
    by blast
  then show ?thesis using a b c p by (auto simp: checkpoint_path_def)
qed

text \<open>
  C2 as stated fails: with task index 2, lifelong training enabled and the default empty
  previous-model path, \<^verbatim>\<open>__init__\<close> skips \<^verbatim>\<open>load_prev_model\<close> and
  returns a model whose previous-task generator is as freshly constructed.
\<close>

theorem init_without_path_counterexample:
  "lifelong (opts_example 2 False '''')
   \<and> \<not> isl (init Map.empty False (opts_example 2 False ''''))
   \<and> weights (projr (init Map.empty False (opts_example 2 False ''''))) NetG_prev = Fresh NetG_prev"
  by (simp add: lifelong_def opts_example_def init_def blank_def Let_def make_optimizers_def attr_def)

text \<open>
  C2, amended. Initialisation fails exactly when training with a non-empty previous-model
  path whose checkpoint cannot be loaded (missing file, or keys that do not fit); the
  task index plays no part. With an empty path the load is skipped and initialisation
  succeeds with the previous-task generator left at its fresh initialisation.
\<close>

theorem init_fails_iff:
  "(isl (init fs vgg_rg opts) \<longleftrightarrow>
      isTrain_opt opts \<and> prev_model_path opts \<noteq> '''' \<and> fs (checkpoint_path opts) \<noteq> Some True)
   \<and> (prev_model_path opts = '''' \<longrightarrow>
        \<not> isl (init fs vgg_rg opts)
        \<and> weights (projr (init fs vgg_rg opts)) NetG_prev = Fresh NetG_prev)"
  by (auto simp add: init_def load_prev_model_eq blank_def Let_def make_optimizers_def attr_def
        split: option.splits)

theorem init_fails_iff_witness:
  "prev_model_path (opts_example 3 False '''') = ''''
   \<and> \<not> isl (init files_example True (opts_example 3 False ''''))
   \<and> weights (projr (init files_example True (opts_example 3 False ''''))) NetG_prev = Fresh NetG_prev
   \<and> isl (init Map.empty True (opts_example 3 False ''ckpt''))"
proof -
  have e: "prev_model_path (opts_example 3 False '''') = ''''"
    by (simp add: opts_example_def)
  have "isTrain_opt (opts_example 3 False ''ckpt'') \<and> prev_model_path (opts_example 3 False ''ckpt'') \<noteq> ''''"
    by (simp add: opts_example_def)
  then show ?thesis
    using e init_fails_iff [of files_example True "opts_example 3 False ''''"]
      init_fails_iff [of Map.empty True "opts_example 3 False ''ckpt''"]
    by simp
qed

subsection \<open>Index arithmetic\<close>

lemma range_py_cur: "range_py (2 * t - 2) (2 * t) = [2 * t - 2, 2 * t - 1]"
  using range_py_two [of "2 * t - 2"] by simp

lemma cur_mod [simp]: "(2 * t - 2) mod 2 = (0::int)" "(2 * t - 1) mod 2 = (1::int)"
  by presburger+

lemma nth_map_upto0: "0 \<le> i \<Longrightarrow> i \<le> n \<Longrightarrow> map f [0..n] ! nat i = f i"
  by (simp add: nth_upto)

lemma py_nth_map_upto0: "0 \<le> i \<Longrightarrow> i \<le> n \<Longrightarrow> py_nth (map f [0..n]) i = Inr (f i)"
  by (simp add: py_nth_ok nth_upto)

subsection \<open>The forward pass\<close>

lemma forward_prev_loop:
  "''real_A'' \<in> created s \<Longrightarrow> \<forall>i\<in>set js. 0 \<le> i \<and> i < int (length (real_A s)) \<Longrightarrow>
   for_loop forward_prev_body js s =
     Inr (s\<lparr>fake_B_curG := fake_B_curG s @ map (\<lambda>i. call s NetG (source s i)) js,
            fake_B_prevG := fake_B_prevG s @ map (\<lambda>i. call s NetG_prev (source s i)) js,
            log := log s @ concat (map (\<lambda>i. [Forward NetG (source s i), Forward NetG_prev (source s i)]) js)\<rparr>)"
proof (induction js arbitrary: s)
  case Nil
  then show ?case by simp
next
  case (Cons j js)
  then show ?case
    by (simp add: forward_prev_body_def element_ok logged_def call_def source_def)
qed

lemma forward_prev_range:
  assumes "int (length (real_A s)) = 2 * t" and "''real_A'' \<in> created s"
  shows "for_loop forward_prev_body (range_py 0 (2 * t - 2)) s =
     Inr (s\<lparr>fake_B_curG := fake_B_curG s @ map (\<lambda>i. call s NetG (source s i)) [0..2 * t - 3],
            fake_B_prevG := fake_B_prevG s @ map (\<lambda>i. call s NetG_prev (source s i)) [0..2 * t - 3],
            log := log s @ concat (map (\<lambda>i. [Forward NetG (source s i), Forward NetG_prev (source s i)]) [0..2 * t - 3])\<rparr>)"
proof -
  have "range_py 0 (2 * t - 2) = [0..2 * t - 3]" by (simp add: range_py_def)
  moreover have "\<forall>i\<in>set [0..2 * t - 3]. 0 \<le> i \<and> i < int (length (real_A s))"
    using assms by simp
  ultimately show ?thesis using forward_prev_loop [OF assms(2)] by simp
qed

lemma forward_cur_loop:
  assumes "ready st"
  shows "for_loop forward_cur_body (range_py (2 * task_num (opt st) - 2) (2 * task_num (opt st)))
           (st\<lparr>fake_B := [], created := insert ''fake_B'' (created st)\<rparr>) =
     Inr (st\<lparr>fake_B := map (\<lambda>i. call st NetG (source st i)) [2 * task_num (opt st) - 2, 2 * task_num (opt st) - 1],
             created := insert ''fake_B'' (created st),
             log := log st @ map (\<lambda>i. Forward NetG (source st i)) [2 * task_num (opt st) - 2, 2 * task_num (opt st) - 1]\<rparr>)"
  using assms
  by (simp add: range_py_cur forward_cur_body_def element_ok ready_def logged_def call_def source_def)

lemma forward_post:
  assumes "ready st"
  shows "\<exists>s. forward st = Inr s \<and> forwarded s \<and> core s = core st
           \<and> weights s = weights st \<and> requires_grad s = requires_grad st \<and> grad s = grad st
           \<and> fake_B s = map (\<lambda>i. call st NetG (source st i)) [2 * task_num (opt st) - 2, 2 * task_num (opt st) - 1]
           \<and> (retention st \<longrightarrow>
                fake_B_curG s = map (\<lambda>i. call st NetG (source st i)) [0..2 * task_num (opt st) - 3]
              \<and> fake_B_prevG s = map (\<lambda>i. call st NetG_prev (source st i)) [0..2 * task_num (opt st) - 3])
           \<and> loss_reminding_L1 s = loss_reminding_L1 st
           \<and> loss_reminding_perceptual s = loss_reminding_perceptual st
           \<and> loss_reminding_L1_all s = loss_reminding_L1_all st
           \<and> loss_reminding_perceptual_all s = loss_reminding_perceptual_all st
           \<and> log s = log st @ map (\<lambda>i. Forward NetG (source st i)) [2 * task_num (opt st) - 2, 2 * task_num (opt st) - 1]
                 @ (if retention st
                    then concat (map (\<lambda>i. [Forward NetG (source st i), Forward NetG_prev (source st i)])
                                   [0..2 * task_num (opt st) - 3])
                    else [])"
proof (cases "retention st")
  case False
  with assms show ?thesis
    by (simp add: forward_def Let_def forward_cur_loop set_visual_def retention_def
          forwarded_def ready_def core_def call_def source_def)
next
  case True
  let ?t = "task_num (opt st)"
  have t: "1 < ?t" using True by (simp add: retention_def lifelong_def)
  have len: "int (length (real_A st)) = 2 * ?t" using assms by (simp add: ready_def)
  show ?thesis using assms True t
    by (simp add: forward_def Let_def forward_cur_loop set_visual_def retention_def
          forward_prev_range py_nth_map_upto0 list_all_iff
          forwarded_def ready_def core_def call_def source_def)
qed

text \<open>Called out of order, the methods fail on the attribute that does not exist yet.\<close>

lemma forward_before_set_input:
  assumes "''real_A'' \<notin> created st"
  shows "forward st = Inl (AttributeError ''real_A'')"
  using assms
  by (simp add: forward_def Let_def range_py_cur forward_cur_body_def element_def)

lemma backward_D_before_forward:
  assumes "ready st" and "''fake_B'' \<notin> created st"
  shows "backward_D st = Inl (AttributeError ''fake_B'')"
  using assms
  by (simp add: backward_D_def Let_def range_py_cur backward_D_body_def element_def py_nth_ok
        ready_def)

lemma backward_G_before_forward:
  assumes "ready st" and "''fake_B'' \<notin> created st"
  shows "backward_G st = Inl (AttributeError ''fake_B'')"
  using assms
  by (simp add: backward_G_def Let_def range_py_cur backward_G_body_def element_def py_nth_ok
        ready_def)

subsection \<open>The discriminator step\<close>

lemma backward_D_loop:
  assumes "ready st" and "length (fake_B st) = 2" and "''fake_B'' \<in> created st"
  shows "for_loop backward_D_body (range_py (2 * task_num (opt st) - 2) (2 * task_num (opt st)))
           (st\<lparr>loss_D_fake := [], loss_D_real := []\<rparr>) =
     Inr (st\<lparr>loss_D_fake := map (D_fake_term st) [2 * task_num (opt st) - 2, 2 * task_num (opt st) - 1],
             loss_D_real := map (D_real_term st) [2 * task_num (opt st) - 2, 2 * task_num (opt st) - 1],
             log := log st @ D_events st\<rparr>)"
proof -
  obtain f0 f1 where f: "fake_B st = [f0, f1]"
    using assms(2) by (cases "fake_B st"; cases "tl (fake_B st)") auto
  show ?thesis using assms(1,3)
    by (simp add: range_py_cur backward_D_body_def element_ok ready_def logged_def call_def
          source_def target_def generated_def parity_def D_fake_term_def D_real_term_def
          attr_def Let_def f D_events_def)
qed

lemma parity_cur [simp]: "parity (2 * t - 2) = 0" "parity (2 * t - 1) = 1"
  by (simp_all add: parity_def)

text \<open>After the accumulation loop the first element of each list is the accumulator:
  it holds the sum, the second element its own term.\<close>

lemma backward_D_compose:
  assumes "ready st" and "length (fake_B st) = 2" and "''fake_B'' \<in> created st"
  shows "\<exists>x. backward_D st = backward (total_D st) x \<and> core x = core st
           \<and> weights x = weights st \<and> requires_grad x = requires_grad st \<and> grad x = grad st
           \<and> fake_B x = fake_B st \<and> fake_B_curG x = fake_B_curG st \<and> fake_B_prevG x = fake_B_prevG st
           \<and> loss_reminding_L1 x = loss_reminding_L1 st
           \<and> loss_reminding_perceptual x = loss_reminding_perceptual st
           \<and> loss_reminding_L1_all x = loss_reminding_L1_all st
           \<and> loss_reminding_perceptual_all x = loss_reminding_perceptual_all st
           \<and> loss_D_fake_all x = Some (Add (D_fake_term st (2 * task_num (opt st) - 2))
                                           (D_fake_term st (2 * task_num (opt st) - 1)))
           \<and> loss_D_real_all x = Some (Add (D_real_term st (2 * task_num (opt st) - 2))
                                           (D_real_term st (2 * task_num (opt st) - 1)))
           \<and> loss_D_fake x = [Add (D_fake_term st (2 * task_num (opt st) - 2))
                                   (D_fake_term st (2 * task_num (opt st) - 1)),
                               D_fake_term st (2 * task_num (opt st) - 1)]
           \<and> loss_D_real x = [Add (D_real_term st (2 * task_num (opt st) - 2))
                                   (D_real_term st (2 * task_num (opt st) - 1)),
                               D_real_term st (2 * task_num (opt st) - 1)]
           \<and> loss_D x = Some (total_D st)
           \<and> log x = log st @ D_events st
           \<and> created x = created st"
  apply (simp add: backward_D_def Let_def backward_D_loop [OF assms] sum_D_body_def plus_eq_def
      operand_def total_D_def)
  apply (rule exI)
  apply (rule conjI)
   apply (rule refl)
  apply (simp add: core_def)
  done

lemma leaves_total_D:
  assumes "requires_grad st (NetD 0)" and "requires_grad st (NetD 1)"
  shows "leaves (total_D st) = {NetD 0, NetD 1}"
  using assms
  by (auto simp add: total_D_def Let_def D_fake_term_def D_real_term_def call_def source_def target_def)

lemma backward_D_post:
  assumes "ready st" and "length (fake_B st) = 2"
    and "requires_grad st (NetD 0)" and "requires_grad st (NetD 1)"
    and "''fake_B'' \<in> created st"
  shows "\<exists>s. backward_D st = Inr s \<and> core s = core st
           \<and> weights s = weights st \<and> requires_grad s = requires_grad st
           \<and> fake_B s = fake_B st \<and> fake_B_curG s = fake_B_curG st \<and> fake_B_prevG s = fake_B_prevG st
           \<and> loss_reminding_L1 s = loss_reminding_L1 st
           \<and> loss_reminding_perceptual s = loss_reminding_perceptual st
           \<and> loss_reminding_L1_all s = loss_reminding_L1_all st
           \<and> loss_reminding_perceptual_all s = loss_reminding_perceptual_all st
           \<and> loss_D_fake_all s = Some (Add (D_fake_term st (2 * task_num (opt st) - 2))
                                           (D_fake_term st (2 * task_num (opt st) - 1)))
           \<and> loss_D_real_all s = Some (Add (D_real_term st (2 * task_num (opt st) - 2))
                                           (D_real_term st (2 * task_num (opt st) - 1)))
           \<and> loss_D_fake s = [Add (D_fake_term st (2 * task_num (opt st) - 2))
                                   (D_fake_term st (2 * task_num (opt st) - 1)),
                               D_fake_term st (2 * task_num (opt st) - 1)]
           \<and> loss_D_real s = [Add (D_real_term st (2 * task_num (opt st) - 2))
                                   (D_real_term st (2 * task_num (opt st) - 1)),
                               D_real_term st (2 * task_num (opt st) - 1)]
           \<and> loss_D s = Some (total_D st)
           \<and> grad s = (\<lambda>n. if n \<in> {NetD 0, NetD 1} then grad st n @ [total_D st] else grad st n)
           \<and> log s = log st @ D_events st @ [Backward (total_D st)]
           \<and> created s = created st"
proof -
  from backward_D_compose [OF assms(1,2,5)] obtain x where
    x: "backward_D st = backward (total_D st) x" "core x = core st"
      "weights x = weights st" "requires_grad x = requires_grad st" "grad x = grad st"
      "fake_B x = fake_B st" "fake_B_curG x = fake_B_curG st" "fake_B_prevG x = fake_B_prevG st"
      "loss_reminding_L1 x = loss_reminding_L1 st"
      "loss_reminding_perceptual x = loss_reminding_perceptual st"
      "loss_reminding_L1_all x = loss_reminding_L1_all st"
      "loss_reminding_perceptual_all x = loss_reminding_perceptual_all st"
      "loss_D_fake_all x = Some (Add (D_fake_term st (2 * task_num (opt st) - 2))
                                           (D_fake_term st (2 * task_num (opt st) - 1)))"
      "loss_D_real_all x = Some (Add (D_real_term st (2 * task_num (opt st) - 2))
                                           (D_real_term st (2 * task_num (opt st) - 1)))"
      "loss_D_fake x = [Add (D_fake_term st (2 * task_num (opt st) - 2))
                                   (D_fake_term st (2 * task_num (opt st) - 1)),
                               D_fake_term st (2 * task_num (opt st) - 1)]"
      "loss_D_real x = [Add (D_real_term st (2 * task_num (opt st) - 2))
                                   (D_real_term st (2 * task_num (opt st) - 1)),
                               D_real_term st (2 * task_num (opt st) - 1)]"
      "loss_D x = Some (total_D st)"
      "log x = log st @ D_events st"
      "created x = created st"
    by blast
  show ?thesis
    unfolding x(1) backward_def leaves_total_D [OF assms(3,4)]
    using x(2-) by (simp add: logged_def core_def cong del: if_weak_cong)
qed

subsection \<open>The generator step\<close>

lemma backward_G_loop:
  assumes "ready st" and "length (fake_B st) = 2" and "''fake_B'' \<in> created st"
  shows "for_loop backward_G_body (range_py (2 * task_num (opt st) - 2) (2 * task_num (opt st)))
           (st\<lparr>loss_G_GAN := [], loss_G_L1 := [], loss_G_perceptual := []\<rparr>) =
     Inr (st\<lparr>loss_G_GAN := map (G_adv_term st) [2 * task_num (opt st) - 2, 2 * task_num (opt st) - 1],
             loss_G_L1 := map (G_L1_term st) [2 * task_num (opt st) - 2, 2 * task_num (opt st) - 1],
             loss_G_perceptual := map (G_perceptual_term st) [2 * task_num (opt st) - 2, 2 * task_num (opt st) - 1],
             log := log st @ G_events st\<rparr>)"
proof -
  obtain f0 f1 where f: "fake_B st = [f0, f1]"
    using assms(2) by (cases "fake_B st"; cases "tl (fake_B st)") auto
  show ?thesis using assms(1,3)
    by (simp add: range_py_cur backward_G_body_def element_ok ready_def logged_def call_def
          source_def target_def generated_def G_adv_term_def G_L1_term_def G_perceptual_term_def
          attr_def Let_def f G_events_def)
qed

lemma reminding_loop:
  "''fake_B_curG'' \<in> created s \<Longrightarrow> ''fake_B_prevG'' \<in> created s \<Longrightarrow>
   \<forall>i\<in>set js. 0 \<le> i \<and> i < int (length (fake_B_curG s)) \<and> i < int (length (fake_B_prevG s)) \<Longrightarrow>
   for_loop reminding_body js s =
     Inr (s\<lparr>loss_reminding_L1 := loss_reminding_L1 s @ map (remind_L1_term s) js,
            loss_reminding_perceptual := loss_reminding_perceptual s @ map (remind_perceptual_term s) js,
            log := log s @ concat (map (\<lambda>i. [Forward Vgg (fake_B_curG s ! nat i),
                                               Forward Vgg (fake_B_prevG s ! nat i)]) js)\<rparr>)"
proof (induction js arbitrary: s)
  case Nil
  then show ?case by simp
next
  case (Cons j js)
  then show ?case
    by (simp add: reminding_body_def element_ok logged_def call_def Let_def
          remind_L1_term_def remind_perceptual_term_def)
qed

lemma sum_reminding_loop:
  assumes "js \<noteq> []"
    and "loss_reminding_L1_all s = Some a" and "loss_reminding_perceptual_all s = Some b"
    and "\<forall>i\<in>set js. 0 \<le> i \<and> i < int (length (loss_reminding_L1 s))
                    \<and> i < int (length (loss_reminding_perceptual s)) \<and> aliased s \<noteq> nat i"
  shows "for_loop sum_reminding_body js s =
     Inr (s\<lparr>loss_reminding_L1_all :=
              Some (foldl Add a (map (\<lambda>i. loss_reminding_L1 s ! nat i) js)),
            loss_reminding_L1 :=
              (loss_reminding_L1 s)
                [aliased s := foldl Add a (map (\<lambda>i. loss_reminding_L1 s ! nat i) js)],
            loss_reminding_perceptual_all :=
              Some (foldl Add b (map (\<lambda>i. loss_reminding_perceptual s ! nat i) js)),
            loss_reminding_perceptual :=
              (loss_reminding_perceptual s)
                [aliased s := foldl Add b (map (\<lambda>i. loss_reminding_perceptual s ! nat i) js)]\<rparr>)"
  using assms
proof (induction js arbitrary: s a b rule: list_nonempty_induct)
  case (single j)
  then show ?case
    by (simp add: sum_reminding_body_def py_nth_ok plus_eq_def)
next
  case (cons j js)
  let ?s1 = "s\<lparr>loss_reminding_L1_all := Some (Add a (loss_reminding_L1 s ! nat j)),
               loss_reminding_L1 := (loss_reminding_L1 s)[aliased s := Add a (loss_reminding_L1 s ! nat j)],
               loss_reminding_perceptual_all := Some (Add b (loss_reminding_perceptual s ! nat j)),
               loss_reminding_perceptual :=
                 (loss_reminding_perceptual s)[aliased s := Add b (loss_reminding_perceptual s ! nat j)]\<rparr>"
  have body: "sum_reminding_body s j = Inr ?s1"
    using cons.prems by (simp add: sum_reminding_body_def py_nth_ok plus_eq_def)
  have rd: "map (\<lambda>i. loss_reminding_L1 ?s1 ! nat i) js = map (\<lambda>i. loss_reminding_L1 s ! nat i) js"
    "map (\<lambda>i. loss_reminding_perceptual ?s1 ! nat i) js = map (\<lambda>i. loss_reminding_perceptual s ! nat i) js"
    using cons.prems(3) by (auto intro!: map_cong)
  have "for_loop sum_reminding_body js ?s1 =
     Inr (?s1\<lparr>loss_reminding_L1_all :=
              Some (foldl Add (Add a (loss_reminding_L1 s ! nat j))
                      (map (\<lambda>i. loss_reminding_L1 ?s1 ! nat i) js)),
            loss_reminding_L1 :=
              (loss_reminding_L1 ?s1)
                [aliased ?s1 := foldl Add (Add a (loss_reminding_L1 s ! nat j))
                                  (map (\<lambda>i. loss_reminding_L1 ?s1 ! nat i) js)],
            loss_reminding_perceptual_all :=
              Some (foldl Add (Add b (loss_reminding_perceptual s ! nat j))
                      (map (\<lambda>i. loss_reminding_perceptual ?s1 ! nat i) js)),
            loss_reminding_perceptual :=
              (loss_reminding_perceptual ?s1)
                [aliased ?s1 := foldl Add (Add b (loss_reminding_perceptual s ! nat j))
                                  (map (\<lambda>i. loss_reminding_perceptual ?s1 ! nat i) js)]\<rparr>)"
    using cons.prems(3) by (intro cons.IH) simp_all
  then show ?case
    unfolding rd by (simp add: body)
qed

lemma upto_from_0: "0 \<le> n \<Longrightarrow> [0..n] = 0 # [1..n]"
  by (simp add: upto_rec1)

lemma map_nth_map_upto: "map (\<lambda>i. map f [0..n] ! nat i) [1..n] = map f [1..n]"
  by (rule map_cong) (auto simp: nth_map_upto0)

text \<open>The retention block. The first element of each list ends as the accumulator, so it
  holds the sum over all previous-task streams.\<close>

lemma reminding_retention:
  assumes "forwarded st" and "retention st"
  shows "\<exists>s. reminding st = Inr s \<and> core s = core st
           \<and> weights s = weights st \<and> requires_grad s = requires_grad st \<and> grad s = grad st
           \<and> fake_B s = fake_B st \<and> fake_B_curG s = fake_B_curG st \<and> fake_B_prevG s = fake_B_prevG st
           \<and> loss_D s = loss_D st \<and> loss_G s = loss_G st
           \<and> loss_G_GAN_all s = loss_G_GAN_all st \<and> loss_G_L1_all s = loss_G_L1_all st
           \<and> loss_G_perceptual_all s = loss_G_perceptual_all st
           \<and> loss_reminding_L1 s =
               (map (remind_L1_term st) [0..2 * task_num (opt st) - 3])
                 [0 := sum_over (remind_L1_term st) (2 * task_num (opt st) - 3)]
           \<and> loss_reminding_perceptual s =
               (map (remind_perceptual_term st) [0..2 * task_num (opt st) - 3])
                 [0 := sum_over (remind_perceptual_term st) (2 * task_num (opt st) - 3)]
           \<and> loss_reminding_L1_all s = Some (sum_over (remind_L1_term st) (2 * task_num (opt st) - 3))
           \<and> loss_reminding_perceptual_all s =
               Some (sum_over (remind_perceptual_term st) (2 * task_num (opt st) - 3))
           \<and> log s = log st @ remind_events st
           \<and> created s = created st"
proof -
  let ?t = "task_num (opt st)"
  let ?s0 = "st\<lparr>loss_reminding_L1 := [], loss_reminding_perceptual := []\<rparr>"
  let ?s1 = "st\<lparr>loss_reminding_L1 := map (remind_L1_term st) [0..2 * ?t - 3],
                loss_reminding_perceptual := map (remind_perceptual_term st) [0..2 * ?t - 3],
                log := log st @ remind_events st\<rparr>"
  have t: "1 < ?t" using assms(2) by (simp add: retention_def lifelong_def)
  have len: "int (length (fake_B_curG st)) = 2 * ?t - 2" "int (length (fake_B_prevG st)) = 2 * ?t - 2"
    and cr: "''fake_B_curG'' \<in> created ?s0" "''fake_B_prevG'' \<in> created ?s0"
    using assms by (simp_all add: forwarded_def)
  have r: "range_py 0 (2 * ?t - 2) = [0..2 * ?t - 3]" by (simp add: range_py_def)
  have "\<forall>i\<in>set [0..2 * ?t - 3]. 0 \<le> i \<and> i < int (length (fake_B_curG ?s0))
           \<and> i < int (length (fake_B_prevG ?s0))"
    using len by simp
  from reminding_loop [OF cr this]
  have loop1: "for_loop reminding_body (range_py 0 (2 * ?t - 2)) ?s0 = Inr ?s1"
    by (simp add: r remind_L1_term_def remind_perceptual_term_def call_def remind_events_def)
  have r2: "range_py 0 (int (length (loss_reminding_L1 ?s1))) = 0 # [1..2 * ?t - 3]"
    using t by (simp add: range_py_def upto_from_0)
  let ?s2 = "?s1\<lparr>loss_reminding_L1_all := Some (remind_L1_term st 0),
                  loss_reminding_perceptual_all := Some (remind_perceptual_term st 0),
                  aliased := 0\<rparr>"
  have first: "sum_reminding_body (?s1\<lparr>loss_reminding_L1_all := None, loss_reminding_perceptual_all := None\<rparr>) 0
                 = Inr ?s2"
    using t by (simp add: sum_reminding_body_def py_nth_map_upto0)
  have ne: "[1..2 * ?t - 3] \<noteq> []" using t by simp
  have "\<forall>i\<in>set [1..2 * ?t - 3]. 0 \<le> i \<and> i < int (length (loss_reminding_L1 ?s2))
           \<and> i < int (length (loss_reminding_perceptual ?s2)) \<and> aliased ?s2 \<noteq> nat i"
    by auto
  from sum_reminding_loop [OF ne _ _ this, of "remind_L1_term st 0" "remind_perceptual_term st 0"]
  have rest: "for_loop sum_reminding_body [1..2 * ?t - 3] ?s2 =
      Inr (?s2\<lparr>loss_reminding_L1_all := Some (sum_over (remind_L1_term st) (2 * ?t - 3)),
               loss_reminding_L1 :=
                 (map (remind_L1_term st) [0..2 * ?t - 3])
                   [0 := sum_over (remind_L1_term st) (2 * ?t - 3)],
               loss_reminding_perceptual_all := Some (sum_over (remind_perceptual_term st) (2 * ?t - 3)),
               loss_reminding_perceptual :=
                 (map (remind_perceptual_term st) [0..2 * ?t - 3])
                   [0 := sum_over (remind_perceptual_term st) (2 * ?t - 3)]\<rparr>)"
    by (simp add: map_nth_map_upto sum_over_def)
  have "reminding st =
      bind_err (for_loop reminding_body (range_py 0 (2 * ?t - 2)) ?s0) (\<lambda>s1.
        for_loop sum_reminding_body (range_py 0 (int (length (loss_reminding_L1 s1))))
          (s1\<lparr>loss_reminding_L1_all := None, loss_reminding_perceptual_all := None\<rparr>))"
    unfolding reminding_def using assms(2) by simp
  also have "\<dots> = for_loop sum_reminding_body (range_py 0 (int (length (loss_reminding_L1 ?s1))))
          (?s1\<lparr>loss_reminding_L1_all := None, loss_reminding_perceptual_all := None\<rparr>)"
    by (simp only: loop1 bind_err_simps)
  also have "\<dots> = for_loop sum_reminding_body [1..2 * ?t - 3] ?s2"
    by (simp only: r2 for_loop.simps first bind_err_simps)
  also note rest
  finally show ?thesis by (simp add: core_def)
qed

lemma NetG_in_leaves_total_G:
  assumes "forwarded st"
  shows "NetG \<in> leaves (total_G st)"
proof -
  obtain f0 f1 where f: "fake_B st = [f0, f1]"
    using assms by (cases "fake_B st"; cases "tl (fake_B st)") (auto simp: forwarded_def)
  show ?thesis using assms
    by (simp add: total_G_def digesting_def Let_def G_L1_term_def generated_def forwarded_def f)
qed

lemma compose_condition:
  assumes "ready st"
  shows "(task_num (opt st) = 1 \<or> no_lifelong_training (opt st)) \<longleftrightarrow> \<not> retention st"
  using assms by (auto simp add: ready_def retention_def lifelong_def)

lemma backward_G_current:
  assumes "ready st" and "length (fake_B st) = 2" and "''fake_B'' \<in> created st"
  shows "\<exists>x. backward_G st =
               bind_err (reminding x) (\<lambda>s3. bind_err (compose_G s3) (\<lambda>l. backward l (s3\<lparr>loss_G := Some l\<rparr>)))
           \<and> core x = core st
           \<and> weights x = weights st \<and> requires_grad x = requires_grad st \<and> grad x = grad st
           \<and> fake_B x = fake_B st \<and> fake_B_curG x = fake_B_curG st \<and> fake_B_prevG x = fake_B_prevG st
           \<and> loss_D x = loss_D st
           \<and> loss_G_GAN_all x = Some (Add (G_adv_term st (2 * task_num (opt st) - 2))
                                          (G_adv_term st (2 * task_num (opt st) - 1)))
           \<and> loss_G_L1_all x = Some (Add (G_L1_term st (2 * task_num (opt st) - 2))
                                         (G_L1_term st (2 * task_num (opt st) - 1)))
           \<and> loss_G_perceptual_all x = Some (Add (G_perceptual_term st (2 * task_num (opt st) - 2))
                                                 (G_perceptual_term st (2 * task_num (opt st) - 1)))
           \<and> loss_reminding_L1 x = loss_reminding_L1 st
           \<and> loss_reminding_perceptual x = loss_reminding_perceptual st
           \<and> loss_reminding_L1_all x = loss_reminding_L1_all st
           \<and> loss_reminding_perceptual_all x = loss_reminding_perceptual_all st
           \<and> log x = log st @ G_events st
           \<and> created x = created st"
  apply (simp add: backward_G_def Let_def backward_G_loop [OF assms] sum_G_body_def plus_eq_def)
  apply (rule exI)
  apply (rule conjI)
   apply (rule refl)
  apply (simp add: core_def)
  done

lemma forwarded_frame:
  assumes "forwarded st" and "core x = core st" and "requires_grad x = requires_grad st"
    and "fake_B x = fake_B st" and "fake_B_curG x = fake_B_curG st" and "fake_B_prevG x = fake_B_prevG st"
    and "created x = created st"
  shows "forwarded x"
  using assms by (simp add: forwarded_def ready_def core_def retention_def)

lemma remind_terms_frame:
  assumes "core x = core st" and "weights x = weights st" and "requires_grad x = requires_grad st"
    and "fake_B_curG x = fake_B_curG st" and "fake_B_prevG x = fake_B_prevG st"
  shows "remind_L1_term x = remind_L1_term st"
    and "remind_perceptual_term x = remind_perceptual_term st"
    and "remind_events x = remind_events st"
  using assms
  by (simp_all add: remind_L1_term_def remind_perceptual_term_def remind_events_def call_def
        fun_eq_iff core_def)

lemma backward_G_post:
  assumes "forwarded st"
  shows "\<exists>s. backward_G st = Inr s \<and> core s = core st
           \<and> weights s = weights st \<and> requires_grad s = requires_grad st
           \<and> fake_B s = fake_B st \<and> fake_B_curG s = fake_B_curG st \<and> fake_B_prevG s = fake_B_prevG st
           \<and> loss_D s = loss_D st
           \<and> loss_G_GAN_all s = Some (Add (G_adv_term st (2 * task_num (opt st) - 2))
                                          (G_adv_term st (2 * task_num (opt st) - 1)))
           \<and> loss_G_L1_all s = Some (Add (G_L1_term st (2 * task_num (opt st) - 2))
                                         (G_L1_term st (2 * task_num (opt st) - 1)))
           \<and> loss_G_perceptual_all s = Some (Add (G_perceptual_term st (2 * task_num (opt st) - 2))
                                                 (G_perceptual_term st (2 * task_num (opt st) - 1)))
           \<and> loss_G s = Some (total_G st)
           \<and> (retention st \<longrightarrow>
                loss_reminding_L1 s =
                  (map (remind_L1_term st) [0..2 * task_num (opt st) - 3])
                    [0 := sum_over (remind_L1_term st) (2 * task_num (opt st) - 3)]
              \<and> loss_reminding_perceptual s =
                  (map (remind_perceptual_term st) [0..2 * task_num (opt st) - 3])
                    [0 := sum_over (remind_perceptual_term st) (2 * task_num (opt st) - 3)]
              \<and> loss_reminding_L1_all s = Some (sum_over (remind_L1_term st) (2 * task_num (opt st) - 3))
              \<and> loss_reminding_perceptual_all s =
                  Some (sum_over (remind_perceptual_term st) (2 * task_num (opt st) - 3)))
           \<and> (\<not> retention st \<longrightarrow>
                loss_reminding_L1 s = loss_reminding_L1 st
              \<and> loss_reminding_perceptual s = loss_reminding_perceptual st
              \<and> loss_reminding_L1_all s = loss_reminding_L1_all st
              \<and> loss_reminding_perceptual_all s = loss_reminding_perceptual_all st)
           \<and> grad s = (\<lambda>n. if n \<in> leaves (total_G st) then grad st n @ [total_G st] else grad st n)
           \<and> log s = log st @ G_events st @ (if retention st then remind_events st else [])
                       @ [Backward (total_G st)]
           \<and> created s = created st"
proof -
  let ?t = "task_num (opt st)"
  have rd: "ready st" and len: "length (fake_B st) = 2" and cr: "''fake_B'' \<in> created st"
    using assms by (simp_all add: forwarded_def)
  have ne: "leaves (total_G st) \<noteq> {}"
    using NetG_in_leaves_total_G [OF assms] by auto
  from backward_G_current [OF rd len cr] obtain x where
    start: "backward_G st =
              bind_err (reminding x) (\<lambda>s3. bind_err (compose_G s3) (\<lambda>l. backward l (s3\<lparr>loss_G := Some l\<rparr>)))"
    and x: "core x = core st" "weights x = weights st" "requires_grad x = requires_grad st"
      "grad x = grad st" "fake_B x = fake_B st" "fake_B_curG x = fake_B_curG st"
      "fake_B_prevG x = fake_B_prevG st" "loss_D x = loss_D st"
      "loss_G_GAN_all x = Some (Add (G_adv_term st (2 * ?t - 2)) (G_adv_term st (2 * ?t - 1)))"
      "loss_G_L1_all x = Some (Add (G_L1_term st (2 * ?t - 2)) (G_L1_term st (2 * ?t - 1)))"
      "loss_G_perceptual_all x = Some (Add (G_perceptual_term st (2 * ?t - 2))
                                           (G_perceptual_term st (2 * ?t - 1)))"
      "loss_reminding_L1 x = loss_reminding_L1 st"
      "loss_reminding_perceptual x = loss_reminding_perceptual st"
      "loss_reminding_L1_all x = loss_reminding_L1_all st"
      "loss_reminding_perceptual_all x = loss_reminding_perceptual_all st"
      "log x = log st @ G_events st"
      "created x = created st"
    by blast
  have ox: "opt x = opt st" using x(1) by (simp add: core_def)
  show ?thesis
  proof (cases "retention st")
    case False
    then have "reminding x = Inr x"
      by (simp add: reminding_def retention_def ox)
    moreover have "compose_G x = Inr (total_G st)"
      using False compose_condition [OF rd]
      by (simp add: compose_G_def operand_def Let_def total_G_def digesting_def ox x)
    ultimately have "backward_G st = backward (total_G st) (x\<lparr>loss_G := Some (total_G st)\<rparr>)"
      by (simp add: start)
    then show ?thesis using False x
      by (simp add: backward_def ne logged_def core_def cong del: if_weak_cong)
  next
    case True
    have fw: "forwarded x"
      using forwarded_frame [OF assms x(1,3,5,6,7,17)] .
    have rt: "retention x" using True by (simp add: retention_def ox)
    note terms = remind_terms_frame [OF x(1,2,3,6,7)]
    from reminding_retention [OF fw rt, unfolded terms ox] obtain y where
      rem: "reminding x = Inr y"
      and y: "core y = core x" "weights y = weights x" "requires_grad y = requires_grad x"
        "grad y = grad x" "fake_B y = fake_B x" "fake_B_curG y = fake_B_curG x"
        "fake_B_prevG y = fake_B_prevG x" "loss_D y = loss_D x" "loss_G y = loss_G x"
        "loss_G_GAN_all y = loss_G_GAN_all x" "loss_G_L1_all y = loss_G_L1_all x"
        "loss_G_perceptual_all y = loss_G_perceptual_all x"
        "loss_reminding_L1 y =
           (map (remind_L1_term st) [0..2 * ?t - 3])[0 := sum_over (remind_L1_term st) (2 * ?t - 3)]"
        "loss_reminding_perceptual y =
           (map (remind_perceptual_term st) [0..2 * ?t - 3])
             [0 := sum_over (remind_perceptual_term st) (2 * ?t - 3)]"
        "loss_reminding_L1_all y = Some (sum_over (remind_L1_term st) (2 * ?t - 3))"
        "loss_reminding_perceptual_all y = Some (sum_over (remind_perceptual_term st) (2 * ?t - 3))"
        "log y = log x @ remind_events st"
        "created y = created x"
      by blast
    have oy: "opt y = opt st" using y(1) x(1) by (simp add: core_def)
    have cg: "compose_G y = Inr (total_G st)"
      using True compose_condition [OF rd]
      by (simp add: compose_G_def operand_def attr_def Let_def total_G_def digesting_def oy y x)
    have "backward_G st = backward (total_G st) (y\<lparr>loss_G := Some (total_G st)\<rparr>)"
      by (simp only: start rem bind_err_simps cg)
    then show ?thesis using True x y
      by (simp add: backward_def ne logged_def core_def cong del: if_weak_cong)
  qed
qed

lemma leaves_foldl_Add: "leaves (foldl Add a xs) = leaves a \<union> (\<Union>x\<in>set xs. leaves x)"
  by (induction xs arbitrary: a) auto

lemma leaves_sum_over:
  assumes "0 \<le> n" and "\<forall>i\<in>{0..n}. leaves (f i) = L"
  shows "leaves (sum_over f n) = L"
  using assms by (auto simp add: sum_over_def leaves_foldl_Add)

lemma list_all_nth_int:
  "list_all P xs \<Longrightarrow> 0 \<le> i \<Longrightarrow> i < int (length xs) \<Longrightarrow> P (xs ! nat i)"
  by (simp add: list_all_length)

lemma leaves_terms:
  "leaves (G_adv_term st i) =
     (if requires_grad st (NetD (parity i)) then {NetD (parity i)} else {}) \<union> leaves (generated st i)"
  "leaves (G_L1_term st i) = leaves (generated st i)"
  "leaves (G_perceptual_term st i) = vgg_leaf st \<union> leaves (generated st i)"
  "leaves (remind_L1_term st i) = leaves (fake_B_curG st ! nat i) \<union> leaves (fake_B_prevG st ! nat i)"
  "leaves (remind_perceptual_term st i) =
     vgg_leaf st \<union> (leaves (fake_B_curG st ! nat i) \<union> leaves (fake_B_prevG st ! nat i))"
  by (auto simp add: G_adv_term_def G_L1_term_def G_perceptual_term_def remind_L1_term_def
        remind_perceptual_term_def call_def source_def target_def vgg_leaf_def)

lemma leaves_digesting:
  assumes "forwarded st" and "\<not> requires_grad st (NetD 0)" and "\<not> requires_grad st (NetD 1)"
  shows "leaves (digesting st) = {NetG} \<union> vgg_leaf st"
proof -
  obtain f0 f1 where f: "fake_B st = [f0, f1]"
    using assms(1) by (cases "fake_B st"; cases "tl (fake_B st)") (auto simp: forwarded_def)
  have lf: "leaves f0 = {NetG}" "leaves f1 = {NetG}"
    using assms(1) by (simp_all add: forwarded_def f)
  have g: "leaves (generated st (2 * task_num (opt st) - 2)) = {NetG}"
    "leaves (generated st (2 * task_num (opt st) - 1)) = {NetG}"
    by (simp_all add: generated_def f lf)
  show ?thesis
    using assms(2,3) by (simp add: digesting_def Let_def leaves_terms g)
qed

lemma leaves_total_G:
  assumes "forwarded st" and "\<not> requires_grad st (NetD 0)" and "\<not> requires_grad st (NetD 1)"
  shows "leaves (total_G st) =
           {NetG} \<union> vgg_leaf st \<union> (if retention st then {NetG_prev} else {})"
proof (cases "retention st")
  case False
  then show ?thesis by (simp add: total_G_def leaves_digesting [OF assms])
next
  case True
  let ?t = "task_num (opt st)"
  from True have t: "1 < ?t" by (simp add: retention_def lifelong_def)
  have len: "int (length (fake_B_curG st)) = 2 * ?t - 2" "int (length (fake_B_prevG st)) = 2 * ?t - 2"
    and all: "list_all (\<lambda>x. leaves x = {NetG}) (fake_B_curG st)"
      "list_all (\<lambda>x. leaves x = {NetG_prev}) (fake_B_prevG st)"
    using assms(1) True by (simp_all add: forwarded_def)
  have el: "\<forall>i\<in>{0..2 * ?t - 3}. leaves (fake_B_curG st ! nat i) = {NetG}
              \<and> leaves (fake_B_prevG st ! nat i) = {NetG_prev}"
    using list_all_nth_int [OF all(1)] list_all_nth_int [OF all(2)] len by simp
  have "\<forall>i\<in>{0..2 * ?t - 3}. leaves (remind_L1_term st i) = {NetG, NetG_prev}"
    using el by (simp add: leaves_terms insert_commute)
  then have l1: "leaves (sum_over (remind_L1_term st) (2 * ?t - 3)) = {NetG, NetG_prev}"
    using t by (intro leaves_sum_over) simp_all
  have "\<forall>i\<in>{0..2 * ?t - 3}. leaves (remind_perceptual_term st i) = vgg_leaf st \<union> {NetG, NetG_prev}"
    using el by (simp add: leaves_terms insert_commute)
  then have l2: "leaves (sum_over (remind_perceptual_term st) (2 * ?t - 3)) = vgg_leaf st \<union> {NetG, NetG_prev}"
    using t by (intro leaves_sum_over) simp_all
  show ?thesis
    using True by (auto simp add: total_G_def leaves_digesting [OF assms] l1 l2)
qed

lemma update_D_post:
  assumes "forwarded st"
  shows "\<exists>s. update_D st = Inr s \<and> forwarded s \<and> core s = core st
           \<and> fake_B s = fake_B st \<and> fake_B_curG s = fake_B_curG st \<and> fake_B_prevG s = fake_B_prevG st
           \<and> loss_reminding_L1 s = loss_reminding_L1 st
           \<and> loss_reminding_perceptual s = loss_reminding_perceptual st
           \<and> loss_reminding_L1_all s = loss_reminding_L1_all st
           \<and> loss_reminding_perceptual_all s = loss_reminding_perceptual_all st
           \<and> requires_grad s = requires_grad (set_requires_grad [NetD 0, NetD 1] True st)
           \<and> loss_D_fake_all s = Some (Add (D_fake_term (set_requires_grad [NetD 0, NetD 1] True st) (2 * task_num (opt st) - 2))
                 (D_fake_term (set_requires_grad [NetD 0, NetD 1] True st) (2 * task_num (opt st) - 1)))
           \<and> loss_D_real_all s = Some (Add (D_real_term (set_requires_grad [NetD 0, NetD 1] True st) (2 * task_num (opt st) - 2))
                 (D_real_term (set_requires_grad [NetD 0, NetD 1] True st) (2 * task_num (opt st) - 1)))
           \<and> loss_D_fake s = [Add (D_fake_term (set_requires_grad [NetD 0, NetD 1] True st) (2 * task_num (opt st) - 2))
                 (D_fake_term (set_requires_grad [NetD 0, NetD 1] True st) (2 * task_num (opt st) - 1)),
                 D_fake_term (set_requires_grad [NetD 0, NetD 1] True st) (2 * task_num (opt st) - 1)]
           \<and> loss_D_real s = [Add (D_real_term (set_requires_grad [NetD 0, NetD 1] True st) (2 * task_num (opt st) - 2))
                 (D_real_term (set_requires_grad [NetD 0, NetD 1] True st) (2 * task_num (opt st) - 1)),
                 D_real_term (set_requires_grad [NetD 0, NetD 1] True st) (2 * task_num (opt st) - 1)]
           \<and> loss_D s = Some (total_D (set_requires_grad [NetD 0, NetD 1] True st))
           \<and> leaves (total_D (set_requires_grad [NetD 0, NetD 1] True st)) = {NetD 0, NetD 1}
           \<and> grad s = (\<lambda>n. if n \<in> {NetD 0, NetD 1}
                            then [total_D (set_requires_grad [NetD 0, NetD 1] True st)] else grad st n)
           \<and> weights s = (\<lambda>n. if n \<in> {NetD 0, NetD 1}
                               then Adam (weights st n) [total_D (set_requires_grad [NetD 0, NetD 1] True st)]
                               else weights st n)
           \<and> log s = log st @ [SetRequiresGrad [NetD 0, NetD 1] True, ZeroGrad [NetD 0], ZeroGrad [NetD 1]]
                       @ D_events st
                       @ [Backward (total_D (set_requires_grad [NetD 0, NetD 1] True st)),
                          Step [NetD 0], Step [NetD 1]]"
proof -
  let ?E = "set_requires_grad [NetD 0, NetD 1] True st"
  let ?Z = "fold zero_grad [[NetD 0], [NetD 1]] ?E"
  have rd: "ready st" using assms by (simp add: forwarded_def)
  have rZ: "ready ?Z" "length (fake_B ?Z) = 2" "requires_grad ?Z (NetD 0)" "requires_grad ?Z (NetD 1)"
    "''fake_B'' \<in> created ?Z"
    using assms
    by (simp_all add: forwarded_def ready_def set_requires_grad_def zero_grad_def logged_def)
  have same: "D_fake_term ?Z = D_fake_term ?E" "D_real_term ?Z = D_real_term ?E"
    "total_D ?Z = total_D ?E" "D_events ?Z = D_events st" "task_num (opt ?Z) = task_num (opt st)"
    by (simp_all add: D_fake_term_def D_real_term_def total_D_def D_events_def call_def source_def
          target_def generated_def set_requires_grad_def zero_grad_def logged_def fun_eq_iff)
  have lv: "leaves (total_D ?E) = {NetD 0, NetD 1}"
    using leaves_total_D [OF rZ(3,4)] by (simp only: same)
  from backward_D_post [OF rZ, unfolded same] obtain s4 where s4:
    "backward_D ?Z = Inr s4" "core s4 = core ?Z" "weights s4 = weights ?Z"
    "requires_grad s4 = requires_grad ?Z"
    "fake_B s4 = fake_B ?Z" "fake_B_curG s4 = fake_B_curG ?Z" "fake_B_prevG s4 = fake_B_prevG ?Z"
    "loss_reminding_L1 s4 = loss_reminding_L1 ?Z"
    "loss_reminding_perceptual s4 = loss_reminding_perceptual ?Z"
    "loss_reminding_L1_all s4 = loss_reminding_L1_all ?Z"
    "loss_reminding_perceptual_all s4 = loss_reminding_perceptual_all ?Z"
    "loss_D_fake_all s4 = Some (Add (D_fake_term ?E (2 * task_num (opt st) - 2))
         (D_fake_term ?E (2 * task_num (opt st) - 1)))"
    "loss_D_real_all s4 = Some (Add (D_real_term ?E (2 * task_num (opt st) - 2))
         (D_real_term ?E (2 * task_num (opt st) - 1)))"
    "loss_D_fake s4 = [Add (D_fake_term ?E (2 * task_num (opt st) - 2))
         (D_fake_term ?E (2 * task_num (opt st) - 1)),
         D_fake_term ?E (2 * task_num (opt st) - 1)]"
    "loss_D_real s4 = [Add (D_real_term ?E (2 * task_num (opt st) - 2))
         (D_real_term ?E (2 * task_num (opt st) - 1)),
         D_real_term ?E (2 * task_num (opt st) - 1)]"
    "loss_D s4 = Some (total_D ?E)"
    "grad s4 = (\<lambda>n. if n \<in> {NetD 0, NetD 1} then grad ?Z n @ [total_D ?E] else grad ?Z n)"
    "log s4 = log ?Z @ D_events st @ [Backward (total_D ?E)]"
    "created s4 = created ?Z"
    by blast
  have od: "optimizer_D s4 = Some [[NetD 0], [NetD 1]]"
    using s4(2) rd by (simp add: core_def ready_def set_requires_grad_def zero_grad_def logged_def)
  have upd: "update_D st = Inr (fold step [[NetD 0], [NetD 1]] s4)"
    using rd s4(1) od
    by (simp add: update_D_def Let_def ready_def attr_def set_requires_grad_def logged_def)
  let ?s = "fold step [[NetD 0], [NetD 1]] s4"
  have fields: "core ?s = core st" "fake_B ?s = fake_B st" "fake_B_curG ?s = fake_B_curG st"
    "fake_B_prevG ?s = fake_B_prevG st"
    "loss_reminding_L1 ?s = loss_reminding_L1 st"
    "loss_reminding_perceptual ?s = loss_reminding_perceptual st"
    "loss_reminding_L1_all ?s = loss_reminding_L1_all st"
    "loss_reminding_perceptual_all ?s = loss_reminding_perceptual_all st"
    "requires_grad ?s = requires_grad ?E"
    "loss_D_fake_all ?s = Some (Add (D_fake_term ?E (2 * task_num (opt st) - 2))
         (D_fake_term ?E (2 * task_num (opt st) - 1)))"
    "loss_D_real_all ?s = Some (Add (D_real_term ?E (2 * task_num (opt st) - 2))
         (D_real_term ?E (2 * task_num (opt st) - 1)))"
    "loss_D_fake ?s = [Add (D_fake_term ?E (2 * task_num (opt st) - 2))
         (D_fake_term ?E (2 * task_num (opt st) - 1)),
         D_fake_term ?E (2 * task_num (opt st) - 1)]"
    "loss_D_real ?s = [Add (D_real_term ?E (2 * task_num (opt st) - 2))
         (D_real_term ?E (2 * task_num (opt st) - 1)),
         D_real_term ?E (2 * task_num (opt st) - 1)]"
    "loss_D ?s = Some (total_D ?E)"
    using s4(2-16)
    by (simp_all add: step_def logged_def core_def set_requires_grad_def zero_grad_def)
  have g: "grad ?s = (\<lambda>n. if n \<in> {NetD 0, NetD 1} then [total_D ?E] else grad st n)"
    using s4(17)
    by (auto simp add: step_def logged_def set_requires_grad_def zero_grad_def fun_eq_iff)
  have w: "weights ?s = (\<lambda>n. if n \<in> {NetD 0, NetD 1} then Adam (weights st n) [total_D ?E] else weights st n)"
    using s4(3,17)
    by (auto simp add: step_def logged_def set_requires_grad_def zero_grad_def fun_eq_iff)
  have l: "log ?s = log st @ [SetRequiresGrad [NetD 0, NetD 1] True, ZeroGrad [NetD 0], ZeroGrad [NetD 1]]
                       @ D_events st @ [Backward (total_D ?E), Step [NetD 0], Step [NetD 1]]"
    using s4(18)
    by (simp add: step_def logged_def set_requires_grad_def zero_grad_def)
  have cr: "created ?s = created st"
    using s4(19) by (simp add: step_def logged_def set_requires_grad_def zero_grad_def)
  have fw: "forwarded ?s"
    using assms fields(1-4,9) cr
    by (simp add: forwarded_def ready_def core_def retention_def set_requires_grad_def logged_def)
  show ?thesis
    using upd fw fields g w l lv by simp
qed

lemma update_G_post:
  assumes "forwarded st"
  shows "\<exists>s. update_G st = Inr s \<and> ready s \<and> core s = core st
           \<and> fake_B s = fake_B st \<and> fake_B_curG s = fake_B_curG st \<and> fake_B_prevG s = fake_B_prevG st
           \<and> loss_D s = loss_D st
           \<and> requires_grad s = requires_grad (set_requires_grad [NetD 0, NetD 1] False st)
           \<and> loss_G s = Some (total_G (set_requires_grad [NetD 0, NetD 1] False st))
           \<and> loss_G_GAN_all s =
               Some (Add (G_adv_term (set_requires_grad [NetD 0, NetD 1] False st) (2 * task_num (opt st) - 2))
                         (G_adv_term (set_requires_grad [NetD 0, NetD 1] False st) (2 * task_num (opt st) - 1)))
           \<and> loss_G_L1_all s =
               Some (Add (G_L1_term st (2 * task_num (opt st) - 2)) (G_L1_term st (2 * task_num (opt st) - 1)))
           \<and> loss_G_perceptual_all s =
               Some (Add (G_perceptual_term st (2 * task_num (opt st) - 2))
                         (G_perceptual_term st (2 * task_num (opt st) - 1)))
           \<and> leaves (total_G (set_requires_grad [NetD 0, NetD 1] False st)) =
                {NetG} \<union> vgg_leaf st \<union> (if retention st then {NetG_prev} else {})
           \<and> (retention st \<longrightarrow>
                loss_reminding_L1 s =
         (map (remind_L1_term st) [0..2 * task_num (opt st) - 3])
           [0 := sum_over (remind_L1_term st) (2 * task_num (opt st) - 3)]
              \<and> loss_reminding_perceptual s =
         (map (remind_perceptual_term st) [0..2 * task_num (opt st) - 3])
           [0 := sum_over (remind_perceptual_term st) (2 * task_num (opt st) - 3)]
              \<and> loss_reminding_L1_all s = Some (sum_over (remind_L1_term st) (2 * task_num (opt st) - 3))
              \<and> loss_reminding_perceptual_all s =
                  Some (sum_over (remind_perceptual_term st) (2 * task_num (opt st) - 3)))
           \<and> (\<not> retention st \<longrightarrow>
                loss_reminding_L1 s = loss_reminding_L1 st
              \<and> loss_reminding_perceptual s = loss_reminding_perceptual st
              \<and> loss_reminding_L1_all s = loss_reminding_L1_all st
              \<and> loss_reminding_perceptual_all s = loss_reminding_perceptual_all st)
           \<and> grad s = (\<lambda>n. if n = NetG then [total_G (set_requires_grad [NetD 0, NetD 1] False st)]
                            else if n \<in> leaves (total_G (set_requires_grad [NetD 0, NetD 1] False st))
                            then grad st n @ [total_G (set_requires_grad [NetD 0, NetD 1] False st)]
                            else grad st n)
           \<and> weights s = (\<lambda>n. if n = NetG
                               then Adam (weights st NetG) [total_G (set_requires_grad [NetD 0, NetD 1] False st)]
                               else weights st n)
           \<and> log s = log st @ [SetRequiresGrad [NetD 0, NetD 1] False, ZeroGrad [NetG]]
                       @ G_events st @ (if retention st then remind_events st else [])
                       @ [Backward (total_G (set_requires_grad [NetD 0, NetD 1] False st)), Step [NetG]]"
proof -
  let ?F = "set_requires_grad [NetD 0, NetD 1] False st"
  let ?Z = "zero_grad [NetG] ?F"
  have rd: "ready st" using assms by (simp add: forwarded_def)
  have fF: "forwarded ?F" "\<not> requires_grad ?F (NetD 0)" "\<not> requires_grad ?F (NetD 1)"
    using assms
    by (simp_all add: forwarded_def ready_def retention_def set_requires_grad_def logged_def)
  have fZ: "forwarded ?Z"
    using assms
    by (simp add: forwarded_def ready_def retention_def set_requires_grad_def zero_grad_def logged_def)
  have parts: "remind_L1_term ?Z = remind_L1_term st" "remind_perceptual_term ?Z = remind_perceptual_term st"
    "remind_L1_term ?F = remind_L1_term st" "remind_perceptual_term ?F = remind_perceptual_term st"
    "digesting ?Z = digesting ?F" "retention ?Z = retention st" "retention ?F = retention st"
    "opt ?Z = opt st" "opt ?F = opt st"
    "G_adv_term ?Z = G_adv_term ?F" "G_L1_term ?Z = G_L1_term st"
    "G_perceptual_term ?Z = G_perceptual_term st"
    by (simp_all add: digesting_def G_adv_term_def G_L1_term_def G_perceptual_term_def
          remind_L1_term_def remind_perceptual_term_def retention_def
          call_def source_def target_def generated_def set_requires_grad_def zero_grad_def logged_def
          fun_eq_iff)
  have same: "total_G ?Z = total_G ?F" "G_events ?Z = G_events st" "remind_events ?Z = remind_events st"
    "remind_L1_term ?Z = remind_L1_term st" "remind_perceptual_term ?Z = remind_perceptual_term st"
    "retention ?Z = retention st" "task_num (opt ?Z) = task_num (opt st)"
    "G_adv_term ?Z = G_adv_term ?F" "G_L1_term ?Z = G_L1_term st"
    "G_perceptual_term ?Z = G_perceptual_term st"
    by (simp_all only: total_G_def parts)
       (simp_all add: G_events_def remind_events_def source_def target_def generated_def
          set_requires_grad_def zero_grad_def logged_def)
  have lv: "leaves (total_G ?F) = {NetG} \<union> vgg_leaf st \<union> (if retention st then {NetG_prev} else {})"
    using leaves_total_G [OF fF]
    by (simp add: vgg_leaf_def retention_def set_requires_grad_def logged_def)
  from backward_G_post [OF fZ, unfolded same] obtain s8 where s8:
    "backward_G ?Z = Inr s8" "core s8 = core ?Z" "weights s8 = weights ?Z"
    "requires_grad s8 = requires_grad ?Z"
    "fake_B s8 = fake_B ?Z" "fake_B_curG s8 = fake_B_curG ?Z" "fake_B_prevG s8 = fake_B_prevG ?Z"
    "loss_D s8 = loss_D ?Z"
    "loss_G s8 = Some (total_G ?F)"
    "loss_G_GAN_all s8 = Some (Add (G_adv_term ?F (2 * task_num (opt st) - 2))
                                   (G_adv_term ?F (2 * task_num (opt st) - 1)))"
    "loss_G_L1_all s8 = Some (Add (G_L1_term st (2 * task_num (opt st) - 2))
                                  (G_L1_term st (2 * task_num (opt st) - 1)))"
    "loss_G_perceptual_all s8 = Some (Add (G_perceptual_term st (2 * task_num (opt st) - 2))
                                          (G_perceptual_term st (2 * task_num (opt st) - 1)))"
    "retention st \<longrightarrow>
       loss_reminding_L1 s8 =
         (map (remind_L1_term st) [0..2 * task_num (opt st) - 3])
           [0 := sum_over (remind_L1_term st) (2 * task_num (opt st) - 3)]
     \<and> loss_reminding_perceptual s8 =
         (map (remind_perceptual_term st) [0..2 * task_num (opt st) - 3])
           [0 := sum_over (remind_perceptual_term st) (2 * task_num (opt st) - 3)]
     \<and> loss_reminding_L1_all s8 = Some (sum_over (remind_L1_term st) (2 * task_num (opt st) - 3))
     \<and> loss_reminding_perceptual_all s8 =
         Some (sum_over (remind_perceptual_term st) (2 * task_num (opt st) - 3))"
    "\<not> retention st \<longrightarrow>
       loss_reminding_L1 s8 = loss_reminding_L1 ?Z
     \<and> loss_reminding_perceptual s8 = loss_reminding_perceptual ?Z
     \<and> loss_reminding_L1_all s8 = loss_reminding_L1_all ?Z
     \<and> loss_reminding_perceptual_all s8 = loss_reminding_perceptual_all ?Z"
    "grad s8 = (\<lambda>n. if n \<in> leaves (total_G ?F) then grad ?Z n @ [total_G ?F] else grad ?Z n)"
    "log s8 = log ?Z @ G_events st @ (if retention st then remind_events st else [])
                @ [Backward (total_G ?F)]"
    "created s8 = created ?Z"
    by blast
  have og: "optimizer_G s8 = Some [NetG]"
    using s8(2) rd by (simp add: core_def ready_def set_requires_grad_def zero_grad_def logged_def)
  have upd: "update_G st = Inr (step [NetG] s8)"
    using rd s8(1) og
    by (simp add: update_G_def Let_def ready_def attr_def set_requires_grad_def logged_def)
  let ?s = "step [NetG] s8"
  have fields: "core ?s = core st" "fake_B ?s = fake_B st" "fake_B_curG ?s = fake_B_curG st"
    "fake_B_prevG ?s = fake_B_prevG st" "loss_D ?s = loss_D st"
    "requires_grad ?s = requires_grad ?F"
    "loss_G ?s = Some (total_G ?F)"
    "loss_G_GAN_all ?s = Some (Add (G_adv_term ?F (2 * task_num (opt st) - 2))
                                   (G_adv_term ?F (2 * task_num (opt st) - 1)))"
    "loss_G_L1_all ?s = Some (Add (G_L1_term st (2 * task_num (opt st) - 2))
                                  (G_L1_term st (2 * task_num (opt st) - 1)))"
    "loss_G_perceptual_all ?s = Some (Add (G_perceptual_term st (2 * task_num (opt st) - 2))
                                          (G_perceptual_term st (2 * task_num (opt st) - 1)))"
    using s8(2-12)
    by (simp_all add: step_def logged_def core_def set_requires_grad_def zero_grad_def)
  have rem: "retention st \<longrightarrow>
       loss_reminding_L1 ?s =
         (map (remind_L1_term st) [0..2 * task_num (opt st) - 3])
           [0 := sum_over (remind_L1_term st) (2 * task_num (opt st) - 3)]
     \<and> loss_reminding_perceptual ?s =
         (map (remind_perceptual_term st) [0..2 * task_num (opt st) - 3])
           [0 := sum_over (remind_perceptual_term st) (2 * task_num (opt st) - 3)]
     \<and> loss_reminding_L1_all ?s = Some (sum_over (remind_L1_term st) (2 * task_num (opt st) - 3))
     \<and> loss_reminding_perceptual_all ?s =
         Some (sum_over (remind_perceptual_term st) (2 * task_num (opt st) - 3))"
    using s8(13) by (simp add: step_def logged_def)
  have norem: "\<not> retention st \<longrightarrow>
       loss_reminding_L1 ?s = loss_reminding_L1 st
     \<and> loss_reminding_perceptual ?s = loss_reminding_perceptual st
     \<and> loss_reminding_L1_all ?s = loss_reminding_L1_all st
     \<and> loss_reminding_perceptual_all ?s = loss_reminding_perceptual_all st"
    using s8(14) by (simp add: step_def logged_def set_requires_grad_def zero_grad_def)
  have NG: "NetG \<in> leaves (total_G ?F)" unfolding lv by simp
  have g: "grad ?s = (\<lambda>n. if n = NetG then [total_G ?F]
                          else if n \<in> leaves (total_G ?F) then grad st n @ [total_G ?F]
                          else grad st n)"
    using s8(15) NG
    by (auto simp add: step_def logged_def set_requires_grad_def zero_grad_def fun_eq_iff)
  have w: "weights ?s = (\<lambda>n. if n = NetG then Adam (weights st NetG) [total_G ?F] else weights st n)"
    using s8(3,15) NG
    by (auto simp add: step_def logged_def set_requires_grad_def zero_grad_def fun_eq_iff)
  have l: "log ?s = log st @ [SetRequiresGrad [NetD 0, NetD 1] False, ZeroGrad [NetG]]
                       @ G_events st @ (if retention st then remind_events st else [])
                       @ [Backward (total_G ?F), Step [NetG]]"
    using s8(16)
    by (simp add: step_def logged_def set_requires_grad_def zero_grad_def)
  have r: "ready ?s"
    using rd fields(1,6) s8(17)
    by (simp add: ready_def core_def set_requires_grad_def zero_grad_def step_def logged_def)
  show ?thesis
    using upd r fields rem norem g w l lv by simp
qed

subsection \<open>The example model\<close>

lemma str_int_small: "str_int 0 = ''0''" "str_int 1 = ''1''" "str_int 2 = ''2''" "str_int 3 = ''3''"
  by (simp_all add: str_int_def str_nat.simps digit_char_def)

lemma range_py_0_4: "range_py 0 4 = [0, 1, 2, 3]"
  by (simp add: range_py_def upto_rec1)

lemma model_example_2:
  "ready (model_example 2 False)" "retention (model_example 2 False)"
  "opt (model_example 2 False) = opts_example 2 False ''''"
  "real_A (model_example 2 False) = [0, 1, 2, 3]"
  "real_B (model_example 2 False) = [10, 11, 12, 13]"
  "weights (model_example 2 False) = Fresh"
  "requires_grad (model_example 2 False) = (\<lambda>n. n \<noteq> Vgg)"
  "grad (model_example 2 False) = (\<lambda>n. [])"
  "log (model_example 2 False) = []"
  by (simp_all add: model_example_def init_def make_optimizers_def blank_def Let_def attr_def
        opts_example_def set_input_def set_input_body_def range_py_0_4 str_int_small
        item_def to_device_def batch_example_def py_nth_def set_visual_def
        retention_def lifelong_def ready_def fun_eq_iff split: net.splits)

lemma model_example_1:
  "ready (model_example 1 False)" "\<not> retention (model_example 1 False)"
  "opt (model_example 1 False) = opts_example 1 False ''''"
  "real_A (model_example 1 False) = [0, 1]"
  "real_B (model_example 1 False) = [10, 11]"
  "weights (model_example 1 False) = Fresh"
  "requires_grad (model_example 1 False) = (\<lambda>n. n \<noteq> Vgg)"
  "grad (model_example 1 False) = (\<lambda>n. [])"
  "log (model_example 1 False) = []"
  by (simp_all add: model_example_def init_def make_optimizers_def blank_def Let_def attr_def
        opts_example_def set_input_def set_input_body_def str_int_small
        item_def to_device_def batch_example_def py_nth_def set_visual_def
        retention_def lifelong_def ready_def fun_eq_iff split: net.splits)

lemma upto_0_1: "[0..1] = [0, 1::int]"
  by (simp add: upto_rec1)

lemma forwarded_example_2:
  "forwarded (forwarded_example 2 False)" "retention (forwarded_example 2 False)"
  "opt (forwarded_example 2 False) = opts_example 2 False ''''"
  "real_A (forwarded_example 2 False) = [0, 1, 2, 3]"
  "real_B (forwarded_example 2 False) = [10, 11, 12, 13]"
  "weights (forwarded_example 2 False) = Fresh"
  "requires_grad (forwarded_example 2 False) = (\<lambda>n. n \<noteq> Vgg)"
  "grad (forwarded_example 2 False) = (\<lambda>n. [])"
  "fake_B (forwarded_example 2 False) =
     [Apply NetG (Fresh NetG) True (Data 2), Apply NetG (Fresh NetG) True (Data 3)]"
  "fake_B_curG (forwarded_example 2 False) =
     [Apply NetG (Fresh NetG) True (Data 0), Apply NetG (Fresh NetG) True (Data 1)]"
  "fake_B_prevG (forwarded_example 2 False) =
     [Apply NetG_prev (Fresh NetG_prev) True (Data 0), Apply NetG_prev (Fresh NetG_prev) True (Data 1)]"
proof -
  from forward_post [OF model_example_2(1)] obtain s where
    s: "forward (model_example 2 False) = Inr s" "forwarded s" "core s = core (model_example 2 False)"
    "weights s = weights (model_example 2 False)"
    "requires_grad s = requires_grad (model_example 2 False)"
    "grad s = grad (model_example 2 False)"
    "fake_B s = map (\<lambda>i. call (model_example 2 False) NetG (source (model_example 2 False) i))
                  [2 * task_num (opt (model_example 2 False)) - 2, 2 * task_num (opt (model_example 2 False)) - 1]"
    "retention (model_example 2 False) \<longrightarrow>
       fake_B_curG s = map (\<lambda>i. call (model_example 2 False) NetG (source (model_example 2 False) i))
                         [0..2 * task_num (opt (model_example 2 False)) - 3]
     \<and> fake_B_prevG s = map (\<lambda>i. call (model_example 2 False) NetG_prev (source (model_example 2 False) i))
                         [0..2 * task_num (opt (model_example 2 False)) - 3]"
    by blast
  have e: "forwarded_example 2 False = s"
    by (simp add: forwarded_example_def s(1))
  show "forwarded (forwarded_example 2 False)" by (simp add: e s(2))
  show "retention (forwarded_example 2 False)"
    using s(3) model_example_2(2) by (simp add: e core_def retention_def)
  show "opt (forwarded_example 2 False) = opts_example 2 False ''''"
    "real_A (forwarded_example 2 False) = [0, 1, 2, 3]"
    "real_B (forwarded_example 2 False) = [10, 11, 12, 13]"
    using s(3) model_example_2 by (simp_all add: e core_def)
  show "weights (forwarded_example 2 False) = Fresh"
    "requires_grad (forwarded_example 2 False) = (\<lambda>n. n \<noteq> Vgg)"
    "grad (forwarded_example 2 False) = (\<lambda>n. [])"
    using s(4-6) model_example_2 by (simp_all add: e)
  show "fake_B (forwarded_example 2 False) =
     [Apply NetG (Fresh NetG) True (Data 2), Apply NetG (Fresh NetG) True (Data 3)]"
    using s(7) by (simp add: e model_example_2 call_def source_def opts_example_def)
  show "fake_B_curG (forwarded_example 2 False) =
     [Apply NetG (Fresh NetG) True (Data 0), Apply NetG (Fresh NetG) True (Data 1)]"
    "fake_B_prevG (forwarded_example 2 False) =
     [Apply NetG_prev (Fresh NetG_prev) True (Data 0), Apply NetG_prev (Fresh NetG_prev) True (Data 1)]"
    using s(8) model_example_2(2)
    by (simp_all add: e model_example_2(3-) call_def source_def opts_example_def upto_0_1)
qed

lemma forwarded_example_1:
  "forwarded (forwarded_example 1 False)" "\<not> retention (forwarded_example 1 False)"
  "opt (forwarded_example 1 False) = opts_example 1 False ''''"
  "real_A (forwarded_example 1 False) = [0, 1]"
  "real_B (forwarded_example 1 False) = [10, 11]"
  "weights (forwarded_example 1 False) = Fresh"
  "requires_grad (forwarded_example 1 False) = (\<lambda>n. n \<noteq> Vgg)"
  "grad (forwarded_example 1 False) = (\<lambda>n. [])"
  "fake_B (forwarded_example 1 False) =
     [Apply NetG (Fresh NetG) True (Data 0), Apply NetG (Fresh NetG) True (Data 1)]"
proof -
  from forward_post [OF model_example_1(1)] obtain s where
    s: "forward (model_example 1 False) = Inr s" "forwarded s" "core s = core (model_example 1 False)"
    "weights s = weights (model_example 1 False)"
    "requires_grad s = requires_grad (model_example 1 False)"
    "grad s = grad (model_example 1 False)"
    "fake_B s = map (\<lambda>i. call (model_example 1 False) NetG (source (model_example 1 False) i))
                  [2 * task_num (opt (model_example 1 False)) - 2, 2 * task_num (opt (model_example 1 False)) - 1]"
    by blast
  have e: "forwarded_example 1 False = s"
    by (simp add: forwarded_example_def s(1))
  show "forwarded (forwarded_example 1 False)" by (simp add: e s(2))
  show "\<not> retention (forwarded_example 1 False)"
    using s(3) model_example_1(2) by (simp add: e core_def retention_def)
  show "opt (forwarded_example 1 False) = opts_example 1 False ''''"
    "real_A (forwarded_example 1 False) = [0, 1]"
    "real_B (forwarded_example 1 False) = [10, 11]"
    using s(3) model_example_1 by (simp_all add: e core_def)
  show "weights (forwarded_example 1 False) = Fresh"
    "requires_grad (forwarded_example 1 False) = (\<lambda>n. n \<noteq> Vgg)"
    "grad (forwarded_example 1 False) = (\<lambda>n. [])"
    using s(4-6) model_example_1 by (simp_all add: e)
  show "fake_B (forwarded_example 1 False) =
     [Apply NetG (Fresh NetG) True (Data 0), Apply NetG (Fresh NetG) True (Data 1)]"
    using s(7) by (simp add: e model_example_1 call_def source_def opts_example_def)
qed

lemma sum_over_1: "sum_over f 1 = Add (f 0) (f 1)"
  by (simp add: sum_over_def upto_rec1)

subsection \<open>Reading the log\<close>

lemma forwards_of_append: "forwards_of n (xs @ ys) = forwards_of n xs @ forwards_of n ys"
  by (induction n xs rule: forwards_of.induct) simp_all

lemma steps_of_append: "steps_of (xs @ ys) = steps_of xs @ steps_of ys"
  by (induction xs rule: steps_of.induct) simp_all

lemma forwards_of_first:
  "b \<noteq> a \<Longrightarrow> forwards_of a (concat (map (\<lambda>i. [Forward a (f i), Forward b (g i)]) js)) = map f js"
  by (induction js) simp_all

lemma forwards_of_second:
  "a \<noteq> b \<Longrightarrow> forwards_of b (concat (map (\<lambda>i. [Forward a (f i), Forward b (g i)]) js)) = map g js"
  by (induction js) simp_all

lemma forwards_of_others:
  "a \<noteq> n \<Longrightarrow> b \<noteq> n \<Longrightarrow>
   forwards_of n (concat (map (\<lambda>i. [Forward a (f i), Forward b (g i)]) js)) = []"
  by (induction js) simp_all

lemma steps_of_forwards:
  "steps_of (concat (map (\<lambda>i. [Forward a (f i), Forward b (g i)]) js)) = []"
  by (induction js) simp_all

lemma events_D:
  "steps_of (D_events s) = []" "forwards_of NetG (D_events s) = []"
  "forwards_of NetG_prev (D_events s) = []"
  by (simp_all add: D_events_def)

lemma events_G:
  "steps_of (G_events s) = []" "forwards_of NetG (G_events s) = []"
  "forwards_of NetG_prev (G_events s) = []"
  "forwards_of (NetD 0) (G_events s) =
     [Cat (source s (2 * task_num (opt s) - 2)) (generated s (2 * task_num (opt s) - 2))]"
  "forwards_of (NetD 1) (G_events s) =
     [Cat (source s (2 * task_num (opt s) - 1)) (generated s (2 * task_num (opt s) - 1))]"
  by (simp_all add: G_events_def)

lemma events_remind:
  "steps_of (remind_events s) = []" "forwards_of NetG (remind_events s) = []"
  "forwards_of NetG_prev (remind_events s) = []"
  "forwards_of (NetD k) (remind_events s) = []"
  by (simp_all add: remind_events_def steps_of_forwards forwards_of_others)

subsection \<open>The discriminator loss\<close>

text \<open>
  C8. The discriminator loss is \<open>(sum_fake + sum_real) \<times> lambda_D\<close>; each sum is the
  accumulator of its loop and has one term for each of the two current-task streams
  \<open>2t-2\<close> and \<open>2t-1\<close>; the fake term of stream \<open>i\<close> is discriminator \<open>i mod 2\<close> on
  the detached (source, generated) pair with label FAKE, the real term the same
  discriminator on the (source, real target) pair with label REAL. The discriminators are
  called four times, once for each term.
\<close>

theorem backward_D_total_loss:
  assumes "ready st" and "length (fake_B st) = 2"
    and "requires_grad st (NetD 0)" and "requires_grad st (NetD 1)"
    and "''fake_B'' \<in> created st"
  shows "\<exists>s. backward_D st = Inr s
           \<and> loss_D_fake_all s = Some (Add (D_fake_term st (2 * task_num (opt st) - 2))
                                           (D_fake_term st (2 * task_num (opt st) - 1)))
           \<and> loss_D_real_all s = Some (Add (D_real_term st (2 * task_num (opt st) - 2))
                                           (D_real_term st (2 * task_num (opt st) - 1)))
           \<and> loss_D s =
               Some (Scale (Add (Add (D_fake_term st (2 * task_num (opt st) - 2))
                                     (D_fake_term st (2 * task_num (opt st) - 1)))
                                (Add (D_real_term st (2 * task_num (opt st) - 2))
                                     (D_real_term st (2 * task_num (opt st) - 1))))
                           (lambda_D (opt st)))
           \<and> (\<forall>i\<in>{2 * task_num (opt st) - 2, 2 * task_num (opt st) - 1}.
                 D_fake_term st i =
                   GANLoss (Apply (NetD (nat (i mod 2))) (weights st (NetD (nat (i mod 2)))) True
                              (Detach (Cat (Data (real_A st ! nat i))
                                           (fake_B st ! nat (i - (2 * task_num (opt st) - 2))))))
                           False
               \<and> D_real_term st i =
                   GANLoss (Apply (NetD (nat (i mod 2))) (weights st (NetD (nat (i mod 2)))) True
                              (Cat (Data (real_A st ! nat i)) (Data (real_B st ! nat i))))
                           True)
           \<and> forwards_of (NetD 0) (drop (length (log st)) (log s)) =
               [Detach (Cat (Data (real_A st ! nat (2 * task_num (opt st) - 2))) (fake_B st ! 0)),
                Cat (Data (real_A st ! nat (2 * task_num (opt st) - 2)))
                    (Data (real_B st ! nat (2 * task_num (opt st) - 2)))]
           \<and> forwards_of (NetD 1) (drop (length (log st)) (log s)) =
               [Detach (Cat (Data (real_A st ! nat (2 * task_num (opt st) - 1))) (fake_B st ! 1)),
                Cat (Data (real_A st ! nat (2 * task_num (opt st) - 1)))
                    (Data (real_B st ! nat (2 * task_num (opt st) - 1)))]"
proof -
  from backward_D_post [OF assms] obtain s where
    "backward_D st = Inr s"
    "loss_D_fake_all s = Some (Add (D_fake_term st (2 * task_num (opt st) - 2))
                                   (D_fake_term st (2 * task_num (opt st) - 1)))"
    "loss_D_real_all s = Some (Add (D_real_term st (2 * task_num (opt st) - 2))
                                   (D_real_term st (2 * task_num (opt st) - 1)))"
    "loss_D s = Some (total_D st)"
    "log s = log st @ D_events st @ [Backward (total_D st)]"
    by blast
  moreover have "forwards_of (NetD 0) (D_events st @ [Backward (total_D st)]) =
               [Detach (Cat (Data (real_A st ! nat (2 * task_num (opt st) - 2))) (fake_B st ! 0)),
                Cat (Data (real_A st ! nat (2 * task_num (opt st) - 2)))
                    (Data (real_B st ! nat (2 * task_num (opt st) - 2)))]"
    "forwards_of (NetD 1) (D_events st @ [Backward (total_D st)]) =
               [Detach (Cat (Data (real_A st ! nat (2 * task_num (opt st) - 1))) (fake_B st ! 1)),
                Cat (Data (real_A st ! nat (2 * task_num (opt st) - 1)))
                    (Data (real_B st ! nat (2 * task_num (opt st) - 1)))]"
    by (simp_all add: D_events_def source_def target_def generated_def)
  moreover have "\<forall>i\<in>{2 * task_num (opt st) - 2, 2 * task_num (opt st) - 1}.
                 D_fake_term st i =
                   GANLoss (Apply (NetD (nat (i mod 2))) (weights st (NetD (nat (i mod 2)))) True
                              (Detach (Cat (Data (real_A st ! nat i))
                                           (fake_B st ! nat (i - (2 * task_num (opt st) - 2))))))
                           False
               \<and> D_real_term st i =
                   GANLoss (Apply (NetD (nat (i mod 2))) (weights st (NetD (nat (i mod 2)))) True
                              (Cat (Data (real_A st ! nat i)) (Data (real_B st ! nat i))))
                           True"
    using assms(3,4)
    by (simp add: D_fake_term_def D_real_term_def call_def parity_def source_def target_def
          generated_def)
  ultimately show ?thesis
    by (simp add: total_D_def Let_def)
qed

theorem backward_D_total_loss_witness:
  "ready (forwarded_example 2 False) \<and> length (fake_B (forwarded_example 2 False)) = 2
   \<and> requires_grad (forwarded_example 2 False) (NetD 0)
   \<and> requires_grad (forwarded_example 2 False) (NetD 1)
   \<and> ''fake_B'' \<in> created (forwarded_example 2 False)
   \<and> (\<exists>s. backward_D (forwarded_example 2 False) = Inr s
         \<and> loss_D s =
             Some (Scale (Add (Add (GANLoss (Apply (NetD 0) (Fresh (NetD 0)) True
                                               (Detach (Cat (Data 2) (Apply NetG (Fresh NetG) True (Data 2)))))
                                            False)
                                   (GANLoss (Apply (NetD 1) (Fresh (NetD 1)) True
                                               (Detach (Cat (Data 3) (Apply NetG (Fresh NetG) True (Data 3)))))
                                            False))
                              (Add (GANLoss (Apply (NetD 0) (Fresh (NetD 0)) True (Cat (Data 2) (Data 12))) True)
                                   (GANLoss (Apply (NetD 1) (Fresh (NetD 1)) True (Cat (Data 3) (Data 13))) True)))
                         (1 / 20)))"
proof -
  have h: "ready (forwarded_example 2 False)" "length (fake_B (forwarded_example 2 False)) = 2"
    "requires_grad (forwarded_example 2 False) (NetD 0)"
    "requires_grad (forwarded_example 2 False) (NetD 1)"
    "''fake_B'' \<in> created (forwarded_example 2 False)"
    using forwarded_example_2(1) by (simp_all add: forwarded_def forwarded_example_2(7))
  from backward_D_total_loss [OF h] show ?thesis
    using h by (auto simp add: forwarded_example_2(3-) opts_example_def)
qed

subsection \<open>The generator loss\<close>

text \<open>
  C3. The generator loss is the documented weighted sum. Without retention (task index 1,
  or lifelong training disabled) it is
  \<open>(adv + L1 \<times> lambda_digesting_L1 + perceptual \<times> lambda_digesting_perceptual) \<times> lambda_G\<close>;
  with retention the two terms \<open>retention_L1 \<times> lambda_reminding_L1\<close> and
  \<open>retention_perceptual \<times> lambda_reminding_perceptual\<close> are added inside the
  parentheses. Each of \<open>adv\<close>, \<open>L1\<close>, \<open>perceptual\<close> is the sum of one term per
  current-task stream, each retention sum has one term per previous-task stream; no term
  is left out and none occurs twice.
\<close>

theorem backward_G_weighted_sum:
  assumes "forwarded st"
  shows "\<exists>s adv l1 perc.
           backward_G st = Inr s
           \<and> loss_G_GAN_all s = Some adv
           \<and> adv = Add (G_adv_term st (2 * task_num (opt st) - 2)) (G_adv_term st (2 * task_num (opt st) - 1))
           \<and> loss_G_L1_all s = Some l1
           \<and> l1 = Add (G_L1_term st (2 * task_num (opt st) - 2)) (G_L1_term st (2 * task_num (opt st) - 1))
           \<and> loss_G_perceptual_all s = Some perc
           \<and> perc = Add (G_perceptual_term st (2 * task_num (opt st) - 2))
                        (G_perceptual_term st (2 * task_num (opt st) - 1))
           \<and> (task_num (opt st) = 1 \<or> no_lifelong_training (opt st) \<longrightarrow>
                loss_G s =
                  Some (Scale (Add (Add adv (Scale l1 (lambda_digesting_L1 (opt st))))
                                   (Scale perc (lambda_digesting_perceptual (opt st))))
                              (lambda_G (opt st))))
           \<and> (1 < task_num (opt st) \<and> \<not> no_lifelong_training (opt st) \<longrightarrow>
                (\<exists>rl rp.
                   loss_reminding_L1_all s = Some rl
                 \<and> rl = sum_over (remind_L1_term st) (2 * task_num (opt st) - 3)
                 \<and> loss_reminding_perceptual_all s = Some rp
                 \<and> rp = sum_over (remind_perceptual_term st) (2 * task_num (opt st) - 3)
                 \<and> loss_G s =
                     Some (Scale (Add (Add (Add (Add adv (Scale l1 (lambda_digesting_L1 (opt st))))
                                                (Scale perc (lambda_digesting_perceptual (opt st))))
                                           (Scale rl (lambda_reminding_L1 (opt st))))
                                      (Scale rp (lambda_reminding_perceptual (opt st))))
                                 (lambda_G (opt st)))))"
proof -
  from backward_G_post [OF assms] obtain s where s:
    "backward_G st = Inr s"
    "loss_G_GAN_all s = Some (Add (G_adv_term st (2 * task_num (opt st) - 2))
                                  (G_adv_term st (2 * task_num (opt st) - 1)))"
    "loss_G_L1_all s = Some (Add (G_L1_term st (2 * task_num (opt st) - 2))
                                 (G_L1_term st (2 * task_num (opt st) - 1)))"
    "loss_G_perceptual_all s = Some (Add (G_perceptual_term st (2 * task_num (opt st) - 2))
                                         (G_perceptual_term st (2 * task_num (opt st) - 1)))"
    "loss_G s = Some (total_G st)"
    "retention st \<longrightarrow>
       loss_reminding_L1_all s = Some (sum_over (remind_L1_term st) (2 * task_num (opt st) - 3))
     \<and> loss_reminding_perceptual_all s =
         Some (sum_over (remind_perceptual_term st) (2 * task_num (opt st) - 3))"
    by blast
  have off: "task_num (opt st) = 1 \<or> no_lifelong_training (opt st) \<Longrightarrow> \<not> retention st"
    and on: "1 < task_num (opt st) \<and> \<not> no_lifelong_training (opt st) \<Longrightarrow> retention st"
    by (auto simp add: retention_def lifelong_def)
  show ?thesis
    using s off on by (auto simp add: total_G_def digesting_def Let_def)
qed

theorem backward_G_weighted_sum_witness:
  "forwarded (forwarded_example 1 False)
   \<and> task_num (opt (forwarded_example 1 False)) = 1
   \<and> (\<exists>s adv l1 perc.
         backward_G (forwarded_example 1 False) = Inr s
       \<and> loss_G_GAN_all s = Some adv \<and> loss_G_L1_all s = Some l1 \<and> loss_G_perceptual_all s = Some perc
       \<and> l1 = Add (L1Loss (Apply NetG (Fresh NetG) True (Data 0)) (Data 10))
                  (L1Loss (Apply NetG (Fresh NetG) True (Data 1)) (Data 11))
       \<and> loss_G s = Some (Scale (Add (Add adv (Scale l1 100)) (Scale perc 1)) (1 / 10)))
   \<and> forwarded (forwarded_example 2 False)
   \<and> 1 < task_num (opt (forwarded_example 2 False))
   \<and> \<not> no_lifelong_training (opt (forwarded_example 2 False))
   \<and> (\<exists>s adv l1 perc rl rp.
         backward_G (forwarded_example 2 False) = Inr s
       \<and> loss_G_GAN_all s = Some adv \<and> loss_G_L1_all s = Some l1 \<and> loss_G_perceptual_all s = Some perc
       \<and> loss_reminding_L1_all s = Some rl \<and> loss_reminding_perceptual_all s = Some rp
       \<and> rl = Add (L1Loss (Apply NetG (Fresh NetG) True (Data 0))
                          (Apply NetG_prev (Fresh NetG_prev) True (Data 0)))
                  (L1Loss (Apply NetG (Fresh NetG) True (Data 1))
                          (Apply NetG_prev (Fresh NetG_prev) True (Data 1)))
       \<and> loss_G s = Some (Scale (Add (Add (Add (Add adv (Scale l1 100)) (Scale perc 1))
                                           (Scale rl 10)) (Scale rp 1)) (1 / 10)))"
proof -
  have o1: "task_num (opt (forwarded_example 1 False)) = 1"
    "lambda_digesting_L1 (opt (forwarded_example 1 False)) = 100"
    "lambda_digesting_perceptual (opt (forwarded_example 1 False)) = 1"
    "lambda_G (opt (forwarded_example 1 False)) = 1 / 10"
    by (simp_all add: forwarded_example_1(3) opts_example_def)
  have o2: "task_num (opt (forwarded_example 2 False)) = 2"
    "\<not> no_lifelong_training (opt (forwarded_example 2 False))"
    "lambda_digesting_L1 (opt (forwarded_example 2 False)) = 100"
    "lambda_digesting_perceptual (opt (forwarded_example 2 False)) = 1"
    "lambda_reminding_L1 (opt (forwarded_example 2 False)) = 10"
    "lambda_reminding_perceptual (opt (forwarded_example 2 False)) = 1"
    "lambda_G (opt (forwarded_example 2 False)) = 1 / 10"
    by (simp_all add: forwarded_example_2(3) opts_example_def)
  have t1: "Add (G_L1_term (forwarded_example 1 False) 0) (G_L1_term (forwarded_example 1 False) 1) =
      Add (L1Loss (Apply NetG (Fresh NetG) True (Data 0)) (Data 10))
          (L1Loss (Apply NetG (Fresh NetG) True (Data 1)) (Data 11))"
    by (simp add: G_L1_term_def generated_def target_def parity_def forwarded_example_1(4-))
  have t2: "sum_over (remind_L1_term (forwarded_example 2 False)) 1 =
      Add (L1Loss (Apply NetG (Fresh NetG) True (Data 0))
                  (Apply NetG_prev (Fresh NetG_prev) True (Data 0)))
          (L1Loss (Apply NetG (Fresh NetG) True (Data 1))
                  (Apply NetG_prev (Fresh NetG_prev) True (Data 1)))"
    by (simp add: sum_over_1 remind_L1_term_def forwarded_example_2(4-))
  have a: "\<exists>s adv l1 perc.
         backward_G (forwarded_example 1 False) = Inr s
       \<and> loss_G_GAN_all s = Some adv \<and> loss_G_L1_all s = Some l1 \<and> loss_G_perceptual_all s = Some perc
       \<and> l1 = Add (L1Loss (Apply NetG (Fresh NetG) True (Data 0)) (Data 10))
                  (L1Loss (Apply NetG (Fresh NetG) True (Data 1)) (Data 11))
       \<and> loss_G s = Some (Scale (Add (Add adv (Scale l1 100)) (Scale perc 1)) (1 / 10))"
    using backward_G_weighted_sum [OF forwarded_example_1(1)]
    by (auto simp add: o1 t1)
  have b: "\<exists>s adv l1 perc rl rp.
         backward_G (forwarded_example 2 False) = Inr s
       \<and> loss_G_GAN_all s = Some adv \<and> loss_G_L1_all s = Some l1 \<and> loss_G_perceptual_all s = Some perc
       \<and> loss_reminding_L1_all s = Some rl \<and> loss_reminding_perceptual_all s = Some rp
       \<and> rl = Add (L1Loss (Apply NetG (Fresh NetG) True (Data 0))
                          (Apply NetG_prev (Fresh NetG_prev) True (Data 0)))
                  (L1Loss (Apply NetG (Fresh NetG) True (Data 1))
                          (Apply NetG_prev (Fresh NetG_prev) True (Data 1)))
       \<and> loss_G s = Some (Scale (Add (Add (Add (Add adv (Scale l1 100)) (Scale perc 1))
                                           (Scale rl 10)) (Scale rp 1)) (1 / 10))"
    using backward_G_weighted_sum [OF forwarded_example_2(1)]
    by (auto simp add: o2 t2)
  show ?thesis
    using a b forwarded_example_1(1) forwarded_example_2(1) o1(1) o2(1,2) by simp
qed

subsection \<open>The two steps of a cycle\<close>

lemma optimize_parameters_chain:
  "forward st = Inr s1 \<Longrightarrow> update_D s1 = Inr s2 \<Longrightarrow> optimize_parameters st = update_G s2"
  by (simp add: optimize_parameters_def)

text \<open>
  C6. In the discriminator step of a cycle the generated images, which do carry a gradient
  path to the generator, are detached before the discriminator sees them: what each
  discriminator is called on in this step is \<open>Detach\<close> of the (source, generated) pair
  of its stream, then the (source, real target) pair, and the sum of the fake terms is
  built on the detached pairs. The discriminator loss reaches the parameters of the two
  discriminators only, and its backward pass and the discriminator optimisers leave the
  generator's gradient buffer and parameters as they were.
\<close>

theorem discriminator_step_detached:
  assumes "ready st"
  shows "\<exists>s1 s2 l.
           forward st = Inr s1 \<and> update_D s1 = Inr s2 \<and> optimize_parameters st = update_G s2
           \<and> list_all (\<lambda>x. NetG \<in> leaves x) (fake_B s1)
           \<and> forwards_of (NetD 0) (drop (length (log s1)) (log s2)) =
               [Detach (Cat (Data (real_A st ! nat (2 * task_num (opt st) - 2))) (fake_B s1 ! 0)),
                Cat (Data (real_A st ! nat (2 * task_num (opt st) - 2)))
                    (Data (real_B st ! nat (2 * task_num (opt st) - 2)))]
           \<and> forwards_of (NetD 1) (drop (length (log s1)) (log s2)) =
               [Detach (Cat (Data (real_A st ! nat (2 * task_num (opt st) - 1))) (fake_B s1 ! 1)),
                Cat (Data (real_A st ! nat (2 * task_num (opt st) - 1)))
                    (Data (real_B st ! nat (2 * task_num (opt st) - 1)))]
           \<and> loss_D_fake_all s2 =
               Some (Add (GANLoss (Apply (NetD 0) (weights st (NetD 0)) True
                                     (Detach (Cat (Data (real_A st ! nat (2 * task_num (opt st) - 2)))
                                                  (fake_B s1 ! 0))))
                                  False)
                         (GANLoss (Apply (NetD 1) (weights st (NetD 1)) True
                                     (Detach (Cat (Data (real_A st ! nat (2 * task_num (opt st) - 1)))
                                                  (fake_B s1 ! 1))))
                                  False))
           \<and> loss_D s2 = Some l \<and> NetG \<notin> leaves l \<and> leaves l = {NetD 0, NetD 1}
           \<and> grad s2 NetG = grad st NetG \<and> weights s2 NetG = weights st NetG"
proof -
  let ?t = "task_num (opt st)"
  from forward_post [OF assms] obtain s1 where s1:
    "forward st = Inr s1" "forwarded s1" "core s1 = core st" "weights s1 = weights st"
    "grad s1 = grad st"
    by blast
  let ?E = "set_requires_grad [NetD 0, NetD 1] True s1"
  from update_D_post [OF s1(2)] obtain s2 where s2:
    "update_D s1 = Inr s2"
    "loss_D_fake_all s2 = Some (Add (D_fake_term ?E (2 * task_num (opt s1) - 2))
                                    (D_fake_term ?E (2 * task_num (opt s1) - 1)))"
    "loss_D s2 = Some (total_D ?E)"
    "leaves (total_D ?E) = {NetD 0, NetD 1}"
    "grad s2 = (\<lambda>n. if n \<in> {NetD 0, NetD 1} then [total_D ?E] else grad s1 n)"
    "weights s2 = (\<lambda>n. if n \<in> {NetD 0, NetD 1} then Adam (weights s1 n) [total_D ?E] else weights s1 n)"
    "log s2 = log s1 @ [SetRequiresGrad [NetD 0, NetD 1] True, ZeroGrad [NetD 0], ZeroGrad [NetD 1]]
                @ D_events s1 @ [Backward (total_D ?E), Step [NetD 0], Step [NetD 1]]"
    by blast
  have o: "opt s1 = opt st" "real_A s1 = real_A st" "real_B s1 = real_B st"
    using s1(3) by (simp_all add: core_def)
  have fk: "list_all (\<lambda>x. NetG \<in> leaves x) (fake_B s1)"
    using s1(2) by (simp add: forwarded_def list_all_iff)
  have terms:
    "D_fake_term ?E (2 * ?t - 2) =
       GANLoss (Apply (NetD 0) (weights st (NetD 0)) True
                  (Detach (Cat (Data (real_A st ! nat (2 * ?t - 2))) (fake_B s1 ! 0)))) False"
    "D_fake_term ?E (2 * ?t - 1) =
       GANLoss (Apply (NetD 1) (weights st (NetD 1)) True
                  (Detach (Cat (Data (real_A st ! nat (2 * ?t - 1))) (fake_B s1 ! 1)))) False"
    by (simp_all add: D_fake_term_def call_def source_def generated_def
          set_requires_grad_def logged_def s1(4) o)
  have calls:
    "forwards_of (NetD 0) (drop (length (log s1)) (log s2)) =
       [Detach (Cat (Data (real_A st ! nat (2 * ?t - 2))) (fake_B s1 ! 0)),
        Cat (Data (real_A st ! nat (2 * ?t - 2))) (Data (real_B st ! nat (2 * ?t - 2)))]"
    "forwards_of (NetD 1) (drop (length (log s1)) (log s2)) =
       [Detach (Cat (Data (real_A st ! nat (2 * ?t - 1))) (fake_B s1 ! 1)),
        Cat (Data (real_A st ! nat (2 * ?t - 1))) (Data (real_B st ! nat (2 * ?t - 1)))]"
    by (simp_all add: s2(7) D_events_def source_def target_def generated_def o)
  show ?thesis
    using s1(1) s2(1) optimize_parameters_chain [OF s1(1) s2(1)] fk calls
      s2(2) [unfolded o terms] s2(3,4) s2(5,6) s1(4,5)
    by auto
qed

theorem discriminator_step_detached_witness:
  "ready (model_example 2 False)
   \<and> (\<exists>s1 s2 l.
         forward (model_example 2 False) = Inr s1 \<and> update_D s1 = Inr s2
       \<and> fake_B s1 = [Apply NetG (Fresh NetG) True (Data 2), Apply NetG (Fresh NetG) True (Data 3)]
       \<and> forwards_of (NetD 0) (drop (length (log s1)) (log s2)) =
           [Detach (Cat (Data 2) (Apply NetG (Fresh NetG) True (Data 2))), Cat (Data 2) (Data 12)]
       \<and> forwards_of (NetD 1) (drop (length (log s1)) (log s2)) =
           [Detach (Cat (Data 3) (Apply NetG (Fresh NetG) True (Data 3))), Cat (Data 3) (Data 13)]
       \<and> loss_D_fake_all s2 =
           Some (Add (GANLoss (Apply (NetD 0) (Fresh (NetD 0)) True
                                 (Detach (Cat (Data 2) (Apply NetG (Fresh NetG) True (Data 2))))) False)
                     (GANLoss (Apply (NetD 1) (Fresh (NetD 1)) True
                                 (Detach (Cat (Data 3) (Apply NetG (Fresh NetG) True (Data 3))))) False))
       \<and> loss_D s2 = Some l \<and> NetG \<notin> leaves l
       \<and> grad s2 NetG = [] \<and> weights s2 NetG = Fresh NetG)"
proof -
  let ?m = "model_example 2 False"
  from discriminator_step_detached [OF model_example_2(1)] obtain s1 s2 l where h:
    "forward ?m = Inr s1" "update_D s1 = Inr s2"
    "forwards_of (NetD 0) (drop (length (log s1)) (log s2)) =
       [Detach (Cat (Data (real_A ?m ! nat (2 * task_num (opt ?m) - 2))) (fake_B s1 ! 0)),
        Cat (Data (real_A ?m ! nat (2 * task_num (opt ?m) - 2)))
            (Data (real_B ?m ! nat (2 * task_num (opt ?m) - 2)))]"
    "forwards_of (NetD 1) (drop (length (log s1)) (log s2)) =
       [Detach (Cat (Data (real_A ?m ! nat (2 * task_num (opt ?m) - 1))) (fake_B s1 ! 1)),
        Cat (Data (real_A ?m ! nat (2 * task_num (opt ?m) - 1)))
            (Data (real_B ?m ! nat (2 * task_num (opt ?m) - 1)))]"
    "loss_D_fake_all s2 =
       Some (Add (GANLoss (Apply (NetD 0) (weights ?m (NetD 0)) True
                             (Detach (Cat (Data (real_A ?m ! nat (2 * task_num (opt ?m) - 2)))
                                          (fake_B s1 ! 0))))
                          False)
                 (GANLoss (Apply (NetD 1) (weights ?m (NetD 1)) True
                             (Detach (Cat (Data (real_A ?m ! nat (2 * task_num (opt ?m) - 1)))
                                          (fake_B s1 ! 1))))
                          False))"
    "loss_D s2 = Some l" "NetG \<notin> leaves l"
    "grad s2 NetG = grad ?m NetG"
    "weights s2 NetG = weights ?m NetG"
    by blast
  have e: "s1 = forwarded_example 2 False"
    by (simp add: forwarded_example_def h(1))
  have f: "fake_B s1 = [Apply NetG (Fresh NetG) True (Data 2), Apply NetG (Fresh NetG) True (Data 3)]"
    by (simp add: e forwarded_example_2)
  have c: "forwards_of (NetD 0) (drop (length (log s1)) (log s2)) =
           [Detach (Cat (Data 2) (Apply NetG (Fresh NetG) True (Data 2))), Cat (Data 2) (Data 12)]"
    "forwards_of (NetD 1) (drop (length (log s1)) (log s2)) =
           [Detach (Cat (Data 3) (Apply NetG (Fresh NetG) True (Data 3))), Cat (Data 3) (Data 13)]"
    "loss_D_fake_all s2 =
           Some (Add (GANLoss (Apply (NetD 0) (Fresh (NetD 0)) True
                                 (Detach (Cat (Data 2) (Apply NetG (Fresh NetG) True (Data 2))))) False)
                     (GANLoss (Apply (NetD 1) (Fresh (NetD 1)) True
                                 (Detach (Cat (Data 3) (Apply NetG (Fresh NetG) True (Data 3))))) False))"
    using h(3,4,5) by (simp_all add: f model_example_2(3-) opts_example_def)
  show ?thesis
    using h(1,2,6,7,8,9) f c model_example_2(1) by (auto simp add: model_example_2(3-))
qed

text \<open>
  C7. In the generator step of a cycle the discriminators' parameters have
  \<^verbatim>\<open>requires_grad\<close> switched off: the generator loss does not reach them, their
  gradient buffers and their values after the step are those before it, and the only
  parameters the step changes are the generator's.
\<close>

theorem generator_step_freezes_discriminators:
  assumes "ready st"
  shows "\<exists>s1 s2 s3 l.
           forward st = Inr s1 \<and> update_D s1 = Inr s2 \<and> update_G s2 = Inr s3
           \<and> optimize_parameters st = Inr s3 \<and> loss_G s3 = Some l
           \<and> \<not> requires_grad s3 (NetD 0) \<and> \<not> requires_grad s3 (NetD 1)
           \<and> NetD 0 \<notin> leaves l \<and> NetD 1 \<notin> leaves l
           \<and> grad s3 (NetD 0) = grad s2 (NetD 0) \<and> grad s3 (NetD 1) = grad s2 (NetD 1)
           \<and> weights s3 (NetD 0) = weights s2 (NetD 0) \<and> weights s3 (NetD 1) = weights s2 (NetD 1)
           \<and> (\<forall>n. n \<noteq> NetG \<longrightarrow> weights s3 n = weights s2 n)
           \<and> weights s3 NetG = Adam (weights s2 NetG) [l]"
proof -
  from forward_post [OF assms] obtain s1 where s1: "forward st = Inr s1" "forwarded s1"
    by blast
  from update_D_post [OF s1(2)] obtain s2 where s2: "update_D s1 = Inr s2" "forwarded s2"
    by blast
  let ?F = "set_requires_grad [NetD 0, NetD 1] False s2"
  from update_G_post [OF s2(2)] obtain s3 where s3:
    "update_G s2 = Inr s3"
    "requires_grad s3 = requires_grad ?F"
    "loss_G s3 = Some (total_G ?F)"
    "leaves (total_G ?F) = {NetG} \<union> vgg_leaf s2 \<union> (if retention s2 then {NetG_prev} else {})"
    "grad s3 = (\<lambda>n. if n = NetG then [total_G ?F]
                     else if n \<in> leaves (total_G ?F) then grad s2 n @ [total_G ?F]
                     else grad s2 n)"
    "weights s3 = (\<lambda>n. if n = NetG then Adam (weights s2 NetG) [total_G ?F] else weights s2 n)"
    by blast
  have nl: "NetD 0 \<notin> leaves (total_G ?F)" "NetD 1 \<notin> leaves (total_G ?F)"
    unfolding s3(4) by (simp_all add: vgg_leaf_def)
  have rg: "\<not> requires_grad s3 (NetD 0)" "\<not> requires_grad s3 (NetD 1)"
    by (simp_all add: s3(2) set_requires_grad_def logged_def)
  have g: "grad s3 (NetD 0) = grad s2 (NetD 0)" "grad s3 (NetD 1) = grad s2 (NetD 1)"
    using nl by (simp_all add: s3(5))
  have w: "\<forall>n. n \<noteq> NetG \<longrightarrow> weights s3 n = weights s2 n"
    "weights s3 NetG = Adam (weights s2 NetG) [total_G ?F]"
    by (simp_all add: s3(6))
  have "optimize_parameters st = Inr s3"
    using optimize_parameters_chain [OF s1(1) s2(1)] s3(1) by simp
  then show ?thesis
    using s1(1) s2(1) s3(1,3) nl rg g w by auto
qed

theorem generator_step_freezes_discriminators_witness:
  "ready (model_example 2 False)
   \<and> (\<exists>s1 s2 s3 l.
         forward (model_example 2 False) = Inr s1 \<and> update_D s1 = Inr s2 \<and> update_G s2 = Inr s3
       \<and> optimize_parameters (model_example 2 False) = Inr s3 \<and> loss_G s3 = Some l
       \<and> \<not> requires_grad s3 (NetD 0) \<and> \<not> requires_grad s3 (NetD 1)
       \<and> NetD 0 \<notin> leaves l \<and> NetD 1 \<notin> leaves l
       \<and> weights s3 (NetD 0) = weights s2 (NetD 0) \<and> weights s3 (NetD 1) = weights s2 (NetD 1)
       \<and> weights s3 NetG_prev = weights s2 NetG_prev
       \<and> weights s3 NetG = Adam (weights s2 NetG) [l])"
proof -
  from generator_step_freezes_discriminators [OF model_example_2(1)] obtain s1 s2 s3 l where
    "forward (model_example 2 False) = Inr s1" "update_D s1 = Inr s2" "update_G s2 = Inr s3"
    "optimize_parameters (model_example 2 False) = Inr s3" "loss_G s3 = Some l"
    "\<not> requires_grad s3 (NetD 0)" "\<not> requires_grad s3 (NetD 1)"
    "NetD 0 \<notin> leaves l" "NetD 1 \<notin> leaves l"
    "weights s3 (NetD 0) = weights s2 (NetD 0)" "weights s3 (NetD 1) = weights s2 (NetD 1)"
    "\<forall>n. n \<noteq> NetG \<longrightarrow> weights s3 n = weights s2 n"
    "weights s3 NetG = Adam (weights s2 NetG) [l]"
    by blast
  moreover from this have "weights s3 NetG_prev = weights s2 NetG_prev" by simp
  ultimately show ?thesis using model_example_2(1) by blast
qed

subsection \<open>The previous-task generator\<close>

lemma optimize_parameters_prev:
  assumes "ready st"
  shows "\<exists>s l. optimize_parameters st = Inr s \<and> ready s \<and> core s = core st \<and> loss_G s = Some l
           \<and> weights s NetG_prev = weights st NetG_prev
           \<and> (retention st \<longrightarrow>
                fake_B_prevG s = map (\<lambda>i. Apply NetG_prev (weights st NetG_prev) True
                                           (Data (real_A st ! nat i)))
                                   [0..2 * task_num (opt st) - 3]
              \<and> loss_reminding_L1_all s =
                  Some (sum_over (\<lambda>i. L1Loss (fake_B_curG s ! nat i) (fake_B_prevG s ! nat i))
                          (2 * task_num (opt st) - 3))
              \<and> NetG_prev \<in> leaves l \<and> grad s NetG_prev = grad st NetG_prev @ [l])
           \<and> (\<not> retention st \<longrightarrow> NetG_prev \<notin> leaves l \<and> grad s NetG_prev = grad st NetG_prev)"
proof -
  let ?t = "task_num (opt st)"
  from forward_post [OF assms] obtain s1 where s1:
    "forward st = Inr s1" "forwarded s1" "core s1 = core st" "weights s1 = weights st"
    "grad s1 = grad st"
    "retention st \<longrightarrow>
       fake_B_prevG s1 = map (\<lambda>i. call st NetG_prev (source st i)) [0..2 * ?t - 3]"
    by blast
  from update_D_post [OF s1(2)] obtain s2 where s2:
    "update_D s1 = Inr s2" "forwarded s2" "core s2 = core s1"
    "fake_B_prevG s2 = fake_B_prevG s1"
    "grad s2 = (\<lambda>n. if n \<in> {NetD 0, NetD 1}
                     then [total_D (set_requires_grad [NetD 0, NetD 1] True s1)] else grad s1 n)"
    "weights s2 = (\<lambda>n. if n \<in> {NetD 0, NetD 1}
                        then Adam (weights s1 n) [total_D (set_requires_grad [NetD 0, NetD 1] True s1)]
                        else weights s1 n)"
    by blast
  let ?F = "set_requires_grad [NetD 0, NetD 1] False s2"
  from update_G_post [OF s2(2)] obtain s3 where s3:
    "update_G s2 = Inr s3" "ready s3" "core s3 = core s2"
    "fake_B_curG s3 = fake_B_curG s2" "fake_B_prevG s3 = fake_B_prevG s2"
    "loss_G s3 = Some (total_G ?F)"
    "leaves (total_G ?F) = {NetG} \<union> vgg_leaf s2 \<union> (if retention s2 then {NetG_prev} else {})"
    "retention s2 \<longrightarrow>
       loss_reminding_L1_all s3 = Some (sum_over (remind_L1_term s2) (2 * task_num (opt s2) - 3))"
    "grad s3 = (\<lambda>n. if n = NetG then [total_G ?F]
                     else if n \<in> leaves (total_G ?F) then grad s2 n @ [total_G ?F]
                     else grad s2 n)"
    "weights s3 = (\<lambda>n. if n = NetG then Adam (weights s2 NetG) [total_G ?F] else weights s2 n)"
    by blast
  have o: "opt s2 = opt st" "real_A s2 = real_A st" "retention s2 = retention st"
    using s1(3) s2(3) by (simp_all add: core_def retention_def)
  have rgp: "requires_grad st NetG_prev" using assms by (simp add: ready_def)
  have opt: "optimize_parameters st = Inr s3"
    using optimize_parameters_chain [OF s1(1) s2(1)] s3(1) by simp
  have c: "core s3 = core st" using s3(3) s2(3) s1(3) by simp
  have w: "weights s3 NetG_prev = weights st NetG_prev"
    by (simp add: s3(10) s2(6) s1(4))
  have lp: "NetG_prev \<in> leaves (total_G ?F) \<longleftrightarrow> retention st"
    unfolding s3(7) o by (simp add: vgg_leaf_def)
  have g: "grad s2 NetG_prev = grad st NetG_prev"
    by (simp add: s2(5) s1(5))
  have on: "retention st \<longrightarrow>
      fake_B_prevG s3 = map (\<lambda>i. Apply NetG_prev (weights st NetG_prev) True (Data (real_A st ! nat i)))
                          [0..2 * ?t - 3]
    \<and> loss_reminding_L1_all s3 =
        Some (sum_over (\<lambda>i. L1Loss (fake_B_curG s3 ! nat i) (fake_B_prevG s3 ! nat i)) (2 * ?t - 3))
    \<and> NetG_prev \<in> leaves (total_G ?F) \<and> grad s3 NetG_prev = grad st NetG_prev @ [total_G ?F]"
    using s1(6) s3(8) lp g rgp
    by (simp add: s3(4,5,9) s2(4) o call_def source_def remind_L1_term_def [abs_def])
  have off: "\<not> retention st \<longrightarrow>
      NetG_prev \<notin> leaves (total_G ?F) \<and> grad s3 NetG_prev = grad st NetG_prev"
    using lp g by (simp add: s3(9))
  show ?thesis
    using opt s3(2,6) c w on off by blast
qed

subsection \<open>From initialisation to a ready model\<close>

lemma bind_err_Inr_iff: "bind_err m f = Inr y \<longleftrightarrow> (\<exists>x. m = Inr x \<and> f x = Inr y)"
  by (cases m) simp_all

lemma set_input_body_Inr:
  assumes "set_input_body input s i = Inr s'"
  shows "\<exists>a b ps. s' = s\<lparr>real_A := real_A s @ [a], real_B := real_B s @ [b],
                          image_paths := image_paths s @ [ps]\<rparr>"
  using assms by (auto simp add: set_input_body_def bind_err_Inr_iff)

lemma set_input_loop_frame:
  "for_loop (set_input_body input) js s = Inr s' \<Longrightarrow>
     length (real_A s') = length (real_A s) + length js
   \<and> length (real_B s') = length (real_B s) + length js
   \<and> opt s' = opt s \<and> netD s' = netD s \<and> optimizer_G s' = optimizer_G s
   \<and> optimizer_D s' = optimizer_D s \<and> requires_grad s' = requires_grad s
   \<and> weights s' = weights s \<and> grad s' = grad s \<and> log s' = log s
   \<and> created s' = created s"
proof (induction js arbitrary: s)
  case Nil
  then show ?case by simp
next
  case (Cons j js)
  from Cons.prems obtain s1 where s1: "set_input_body input s j = Inr s1"
    "for_loop (set_input_body input) js s1 = Inr s'"
    by (auto simp add: bind_err_Inr_iff)
  from set_input_body_Inr [OF s1(1)] obtain a b ps where
    "s1 = s\<lparr>real_A := real_A s @ [a], real_B := real_B s @ [b], image_paths := image_paths s @ [ps]\<rparr>"
    by blast
  with Cons.IH [OF s1(2)] show ?case by simp
qed

lemma py_nth_Inr_bounds:
  assumes "py_nth xs i = Inr x"
  shows "- int (length xs) \<le> i \<and> i < int (length xs)"
  using assms by (auto simp add: py_nth_def split: if_splits)

lemma set_input_ready:
  assumes "set_input input s0 = Inr st"
    and "netD s0 = Some [NetD 0, NetD 1]" and "optimizer_G s0 = Some [NetG]"
    and "optimizer_D s0 = Some [[NetD 0], [NetD 1]]"
    and "requires_grad s0 NetG" and "requires_grad s0 NetG_prev"
  shows "ready st \<and> opt st = opt s0 \<and> weights st = weights s0 \<and> grad st = grad s0 \<and> log st = log s0"
proof -
  let ?t = "task_num (opt s0)"
  let ?s = "s0\<lparr>real_A := [], real_B := [], image_paths := [],
               created := created s0 \<union> {''real_A'', ''real_B''}\<rparr>"
  from assms(1) obtain s1 a1 where s1:
    "for_loop (set_input_body input) (range_py 0 (?t * 2)) ?s = Inr s1"
    "py_nth (real_A s1) (2 * ?t - 2) = Inr a1"
    by (auto simp add: set_input_def Let_def bind_err_Inr_iff)
  note fr = set_input_loop_frame [OF s1(1)]
  have lr: "length (range_py 0 (?t * 2)) = nat (2 * ?t)"
    by (simp add: range_py_def mult.commute)
  have len: "length (real_A s1) = nat (2 * ?t)" "length (real_B s1) = nat (2 * ?t)"
    using fr by (simp_all add: lr)
  from py_nth_Inr_bounds [OF s1(2)] have t: "1 \<le> ?t"
    using len(1) by (cases "0 \<le> ?t") auto
  have rest: "opt s1 = opt s0" "netD s1 = netD s0" "optimizer_G s1 = optimizer_G s0"
    "optimizer_D s1 = optimizer_D s0" "requires_grad s1 = requires_grad s0"
    "weights s1 = weights s0" "grad s1 = grad s0" "log s1 = log s0"
    "created s1 = created s0 \<union> {''real_A'', ''real_B''}"
    using fr by simp_all
  have "\<exists>v. st = s1\<lparr>visuals := v\<rparr>"
    using assms(1) s1(1)
    by (auto simp add: set_input_def Let_def bind_err_Inr_iff set_visual_def split: if_splits)
  then obtain v where v: "st = s1\<lparr>visuals := v\<rparr>" by blast
  show ?thesis
    using len t assms(2-) by (simp add: v ready_def rest)
qed

lemma init_Inr:
  assumes "init fs vgg_rg opts = Inr s0" and "isTrain_opt opts"
  shows "opt s0 = opts \<and> netD s0 = Some [NetD 0, NetD 1] \<and> optimizer_G s0 = Some [NetG]
       \<and> optimizer_D s0 = Some [[NetD 0], [NetD 1]]
       \<and> requires_grad s0 NetG \<and> requires_grad s0 NetG_prev"
  using assms
  by (auto simp add: init_def load_prev_model_eq blank_def Let_def make_optimizers_def attr_def
        bind_err_Inr_iff split: if_splits option.splits)

lemma init_created:
  assumes "init fs vgg_rg opts = Inr s0"
  shows "created s0 = {}"
  using assms
  by (auto simp add: init_def load_prev_model_eq blank_def Let_def make_optimizers_def attr_def
        bind_err_Inr_iff split: if_splits option.splits)

lemma optimize_parameters_before_set_input:
  assumes "init fs vgg_rg opts = Inr s0"
  shows "optimize_parameters s0 = Inl (AttributeError ''real_A'')"
  using forward_before_set_input [of s0] init_created [OF assms]
  by (simp add: optimize_parameters_def)

lemma init_set_input_ready:
  assumes "init fs vgg_rg opts = Inr s0" and "isTrain_opt opts" and "set_input input s0 = Inr st"
  shows "ready st \<and> weights st = weights s0"
  using set_input_ready [OF assms(3)] init_Inr [OF assms(1,2)] by simp

text \<open>
  C1 as stated fails: on the example model (task index 2, lifelong training enabled) one
  cycle succeeds, the generator loss has a gradient path into the previous-task generator,
  and the backward pass leaves that loss in the previous-task generator's gradient buffer,
  which was empty before.
\<close>

theorem previous_generator_gradient_counterexample:
  "ready (model_example 2 False) \<and> retention (model_example 2 False)
   \<and> grad (model_example 2 False) NetG_prev = []
   \<and> \<not> isl (optimize_parameters (model_example 2 False))
   \<and> NetG_prev \<in> leaves (the (loss_G (projr (optimize_parameters (model_example 2 False)))))
   \<and> grad (projr (optimize_parameters (model_example 2 False))) NetG_prev =
       [the (loss_G (projr (optimize_parameters (model_example 2 False))))]"
proof -
  from optimize_parameters_prev [OF model_example_2(1)] obtain s l where
    "optimize_parameters (model_example 2 False) = Inr s" "loss_G s = Some l"
    "retention (model_example 2 False) \<longrightarrow>
       NetG_prev \<in> leaves l \<and> grad s NetG_prev = grad (model_example 2 False) NetG_prev @ [l]"
    by blast
  then show ?thesis
    using model_example_2(1,2) by (simp add: model_example_2(8))
qed

text \<open>
  C1, amended. With task index \<open>t > 1\<close> and lifelong training enabled, the outputs of the
  previous-task generator enter the retention terms as they come out of the forward call,
  with no stop-gradient boundary: the retention L1 sum is over terms that compare the two
  generators' outputs as they are, every cycle's generator loss reaches the previous-task
  generator's parameters, and its backward pass adds to their gradient buffer. The
  parameters themselves are the same after the cycle.
\<close>

theorem previous_generator_not_detached:
  assumes "ready st" and "1 < task_num (opt st)" and "\<not> no_lifelong_training (opt st)"
  shows "\<exists>s l. optimize_parameters st = Inr s \<and> loss_G s = Some l
           \<and> fake_B_prevG s = map (\<lambda>i. Apply NetG_prev (weights st NetG_prev) True
                                          (Data (real_A st ! nat i)))
                                  [0..2 * task_num (opt st) - 3]
           \<and> loss_reminding_L1_all s =
               Some (sum_over (\<lambda>i. L1Loss (fake_B_curG s ! nat i) (fake_B_prevG s ! nat i))
                       (2 * task_num (opt st) - 3))
           \<and> NetG_prev \<in> leaves l
           \<and> grad s NetG_prev = grad st NetG_prev @ [l]
           \<and> weights s NetG_prev = weights st NetG_prev"
proof -
  have "retention st" using assms(2,3) by (simp add: retention_def lifelong_def)
  with optimize_parameters_prev [OF assms(1)] show ?thesis by blast
qed

theorem previous_generator_not_detached_witness:
  "ready (model_example 2 False) \<and> 1 < task_num (opt (model_example 2 False))
   \<and> \<not> no_lifelong_training (opt (model_example 2 False))
   \<and> (\<exists>s l. optimize_parameters (model_example 2 False) = Inr s \<and> loss_G s = Some l
         \<and> fake_B_prevG s = [Apply NetG_prev (Fresh NetG_prev) True (Data 0),
                              Apply NetG_prev (Fresh NetG_prev) True (Data 1)]
         \<and> NetG_prev \<in> leaves l \<and> grad s NetG_prev = [l]
         \<and> weights s NetG_prev = Fresh NetG_prev)"
proof -
  have h: "1 < task_num (opt (model_example 2 False))"
    "\<not> no_lifelong_training (opt (model_example 2 False))"
    by (simp_all add: model_example_2(3) opts_example_def)
  from previous_generator_not_detached [OF model_example_2(1) h] obtain s l where
    "optimize_parameters (model_example 2 False) = Inr s" "loss_G s = Some l"
    "fake_B_prevG s = map (\<lambda>i. Apply NetG_prev (weights (model_example 2 False) NetG_prev) True
                                  (Data (real_A (model_example 2 False) ! nat i)))
                          [0..2 * task_num (opt (model_example 2 False)) - 3]"
    "NetG_prev \<in> leaves l"
    "grad s NetG_prev = grad (model_example 2 False) NetG_prev @ [l]"
    "weights s NetG_prev = weights (model_example 2 False) NetG_prev"
    by blast
  then show ?thesis
    using model_example_2(1) h
    by (simp add: model_example_2(3-) opts_example_def upto_0_1)
qed

text \<open>
  C5. In a training session (\<^verbatim>\<open>__init__\<close> in training mode, then
  \<^verbatim>\<open>set_input\<close>) any number of calls of \<^verbatim>\<open>optimize_parameters\<close>
  succeed and leave the previous-task generator's parameters exactly as
  \<^verbatim>\<open>__init__\<close> left them; the generator's optimiser holds the trainable generator
  only and the discriminators' optimisers one discriminator each.
\<close>

theorem frozen_generator_parameters_unchanged:
  assumes "init fs vgg_rg opts = Inr s0" and "isTrain_opt opts" and "set_input input s0 = Inr st"
  shows "\<exists>s. repeat_optimize n st = Inr s
           \<and> weights s NetG_prev = weights s0 NetG_prev
           \<and> optimizer_G s = Some [NetG] \<and> optimizer_D s = Some [[NetD 0], [NetD 1]]"
proof -
  have step: "\<exists>s. repeat_optimize n st = Inr s \<and> ready s \<and> weights s NetG_prev = weights st NetG_prev"
    if "ready st" for st
    using that
  proof (induction n arbitrary: st)
    case 0
    then show ?case by simp
  next
    case (Suc n)
    from optimize_parameters_prev [OF Suc.prems] obtain s1 where
      s1: "optimize_parameters st = Inr s1" "ready s1" "weights s1 NetG_prev = weights st NetG_prev"
      by blast
    from Suc.IH [OF s1(2)] obtain s where
      "repeat_optimize n s1 = Inr s" "ready s" "weights s NetG_prev = weights s1 NetG_prev"
      by blast
    then show ?case using s1 by simp
  qed
  from init_set_input_ready [OF assms] have r: "ready st" "weights st = weights s0"
    by simp_all
  from step [OF r(1)] show ?thesis
    by (auto simp add: r(2) ready_def)
qed

lemma init_example:
  "init Map.empty False (opts_example 2 False '''') =
     Inr (projr (init Map.empty False (opts_example 2 False '''')))"
  "weights (projr (init Map.empty False (opts_example 2 False ''''))) = Fresh"
  "set_input batch_example (projr (init Map.empty False (opts_example 2 False ''''))) =
     Inr (model_example 2 False)"
  by (simp_all add: model_example_def init_def make_optimizers_def blank_def Let_def attr_def
        opts_example_def set_input_def set_input_body_def range_py_0_4 str_int_small
        item_def to_device_def batch_example_def py_nth_def set_visual_def
        retention_def lifelong_def)

theorem frozen_generator_parameters_unchanged_witness:
  "init Map.empty False (opts_example 2 False '''') =
     Inr (projr (init Map.empty False (opts_example 2 False '''')))
   \<and> isTrain_opt (opts_example 2 False '''')
   \<and> set_input batch_example (projr (init Map.empty False (opts_example 2 False ''''))) =
       Inr (model_example 2 False)
   \<and> (\<exists>s. repeat_optimize 3 (model_example 2 False) = Inr s
         \<and> weights s NetG_prev = Fresh NetG_prev
         \<and> optimizer_G s = Some [NetG] \<and> optimizer_D s = Some [[NetD 0], [NetD 1]])"
proof -
  have t: "isTrain_opt (opts_example 2 False '''')" by (simp add: opts_example_def)
  from frozen_generator_parameters_unchanged [OF init_example(1) t init_example(3), of 3]
  show ?thesis using init_example t by simp
qed

subsection \<open>The retention terms\<close>

lemma nets_of_foldl_Add: "nets_of (foldl Add a xs) = nets_of a \<union> (\<Union>x\<in>set xs. nets_of x)"
  by (induction xs arbitrary: a) auto

lemma nets_of_sum_over:
  assumes "0 \<le> n" and "\<forall>i\<in>{0..n}. nets_of (f i) = L"
  shows "nets_of (sum_over f n) = L"
  using assms by (auto simp add: sum_over_def nets_of_foldl_Add)

lemma nets_of_terms:
  "nets_of (G_adv_term st i) = {NetD (parity i)} \<union> nets_of (generated st i)"
  "nets_of (G_L1_term st i) = nets_of (generated st i)"
  "nets_of (G_perceptual_term st i) = {Vgg} \<union> nets_of (generated st i)"
  "nets_of (remind_L1_term st i) = nets_of (fake_B_curG st ! nat i) \<union> nets_of (fake_B_prevG st ! nat i)"
  "nets_of (remind_perceptual_term st i) =
     {Vgg} \<union> (nets_of (fake_B_curG st ! nat i) \<union> nets_of (fake_B_prevG st ! nat i))"
  by (auto simp add: G_adv_term_def G_L1_term_def G_perceptual_term_def remind_L1_term_def
        remind_perceptual_term_def call_def source_def target_def)

lemma nets_of_total_G:
  assumes "fake_B st = [f0, f1]" and "nets_of f0 = {NetG}" and "nets_of f1 = {NetG}"
    and "retention st \<longrightarrow> 1 < task_num (opt st)
           \<and> (\<forall>i\<in>{0..2 * task_num (opt st) - 3}.
                 nets_of (fake_B_curG st ! nat i) = {NetG}
               \<and> nets_of (fake_B_prevG st ! nat i) = {NetG_prev})"
  shows "NetG_prev \<in> nets_of (total_G st) \<longleftrightarrow> retention st"
proof -
  let ?t = "task_num (opt st)"
  have g: "nets_of (generated st (2 * ?t - 2)) = {NetG}" "nets_of (generated st (2 * ?t - 1)) = {NetG}"
    by (simp_all add: generated_def assms(1-3))
  have dig: "NetG_prev \<notin> nets_of (digesting st)"
    by (simp add: digesting_def Let_def nets_of_terms g)
  show ?thesis
  proof (cases "retention st")
    case False
    then show ?thesis using dig by (simp add: total_G_def)
  next
    case True
    with assms(4) have t: "1 < ?t"
      and el: "\<forall>i\<in>{0..2 * ?t - 3}. nets_of (fake_B_curG st ! nat i) = {NetG}
                  \<and> nets_of (fake_B_prevG st ! nat i) = {NetG_prev}"
      by simp_all
    have "\<forall>i\<in>{0..2 * ?t - 3}. nets_of (remind_L1_term st i) = {NetG, NetG_prev}"
      using el by (simp add: nets_of_terms insert_commute)
    then have "nets_of (sum_over (remind_L1_term st) (2 * ?t - 3)) = {NetG, NetG_prev}"
      using t by (intro nets_of_sum_over) simp_all
    then show ?thesis using True by (simp add: total_G_def)
  qed
qed

lemma set_requires_grad_frame [simp]:
  "opt (set_requires_grad ns b s) = opt s"
  "retention (set_requires_grad ns b s) = retention s"
  "G_L1_term (set_requires_grad ns b s) = G_L1_term s"
  "Vgg \<notin> set ns \<Longrightarrow> G_perceptual_term (set_requires_grad ns b s) = G_perceptual_term s"
  by (simp_all add: G_L1_term_def G_perceptual_term_def generated_def target_def call_def
        retention_def set_requires_grad_def logged_def fun_eq_iff)

lemma sum_over_as_fold:
  assumes "0 \<le> n"
  shows "sum_over f n = foldl Add (hd (map f [0..n])) (tl (map f [0..n]))"
  using assms by (simp add: sum_over_def upto_from_0)

text \<open>
  C4. In a cycle the retention terms are computed exactly when the task index is above 1
  and lifelong training is not disabled. Then the previous-task generator is run once on
  the source image of each of the \<open>2t-2\<close> previous-task streams \<open>0, ..., 2t-3\<close>, each
  retention list gets \<open>2t-2\<close> entries, and each retention accumulator is the sum, over
  these streams, of the term comparing the two generators on the stream's source image.
  Otherwise the previous-task generator is not run, the retention attributes are not
  touched and the generator loss is made of the adversarial, L1 and perceptual sums alone.
  The generator loss depends on the previous-task generator in the first case and only
  then.
\<close>

theorem retention_terms_iff:
  assumes "ready st"
  shows "\<exists>s l. optimize_parameters st = Inr s \<and> loss_G s = Some l
           \<and> (NetG_prev \<in> nets_of l \<longleftrightarrow> 1 < task_num (opt st) \<and> \<not> no_lifelong_training (opt st))
           \<and> (1 < task_num (opt st) \<and> \<not> no_lifelong_training (opt st) \<longrightarrow>
                forwards_of NetG_prev (drop (length (log st)) (log s)) =
                  map (\<lambda>i. Data (real_A st ! nat i)) [0..2 * task_num (opt st) - 3]
              \<and> int (length (loss_reminding_L1 s)) = 2 * task_num (opt st) - 2
              \<and> int (length (loss_reminding_perceptual s)) = 2 * task_num (opt st) - 2
              \<and> loss_reminding_L1_all s =
                  Some (sum_over
                          (\<lambda>i. L1Loss (Apply NetG (weights st NetG) True (Data (real_A st ! nat i)))
                                      (Apply NetG_prev (weights st NetG_prev) True (Data (real_A st ! nat i))))
                          (2 * task_num (opt st) - 3))
              \<and> loss_reminding_perceptual_all s =
                  Some (sum_over
                          (\<lambda>i. Perceptual
                                  (Apply Vgg (weights st Vgg) (requires_grad st Vgg)
                                     (Apply NetG (weights st NetG) True (Data (real_A st ! nat i))))
                                  (Apply Vgg (weights st Vgg) (requires_grad st Vgg)
                                     (Apply NetG_prev (weights st NetG_prev) True (Data (real_A st ! nat i)))))
                          (2 * task_num (opt st) - 3)))
           \<and> (task_num (opt st) = 1 \<or> no_lifelong_training (opt st) \<longrightarrow>
                forwards_of NetG_prev (drop (length (log st)) (log s)) = []
              \<and> loss_reminding_L1 s = loss_reminding_L1 st
              \<and> loss_reminding_perceptual s = loss_reminding_perceptual st
              \<and> loss_reminding_L1_all s = loss_reminding_L1_all st
              \<and> loss_reminding_perceptual_all s = loss_reminding_perceptual_all st
              \<and> (\<exists>adv l1 perc.
                    loss_G_GAN_all s = Some adv \<and> loss_G_L1_all s = Some l1
                  \<and> loss_G_perceptual_all s = Some perc
                  \<and> l = Scale (Add (Add adv (Scale l1 (lambda_digesting_L1 (opt st))))
                                   (Scale perc (lambda_digesting_perceptual (opt st))))
                              (lambda_G (opt st))))"
proof -
  let ?t = "task_num (opt st)"
  let ?on = "1 < ?t \<and> \<not> no_lifelong_training (opt st)"
  let ?cur = "\<lambda>i. Apply NetG (weights st NetG) True (Data (real_A st ! nat i))"
  let ?prv = "\<lambda>i. Apply NetG_prev (weights st NetG_prev) True (Data (real_A st ! nat i))"
  have rg: "requires_grad st NetG" "requires_grad st NetG_prev" "1 \<le> ?t"
    using assms by (simp_all add: ready_def)
  have cond: "retention st \<longleftrightarrow> ?on" "(?t = 1 \<or> no_lifelong_training (opt st)) \<longleftrightarrow> \<not> retention st"
    using rg(3) by (auto simp add: retention_def lifelong_def)
  from forward_post [OF assms] obtain s1 where s1:
    "forward st = Inr s1" "forwarded s1" "core s1 = core st" "weights s1 = weights st"
    "requires_grad s1 = requires_grad st"
    "fake_B s1 = map (\<lambda>i. call st NetG (source st i)) [2 * ?t - 2, 2 * ?t - 1]"
    "retention st \<longrightarrow>
       fake_B_curG s1 = map (\<lambda>i. call st NetG (source st i)) [0..2 * ?t - 3]
     \<and> fake_B_prevG s1 = map (\<lambda>i. call st NetG_prev (source st i)) [0..2 * ?t - 3]"
    "loss_reminding_L1 s1 = loss_reminding_L1 st"
    "loss_reminding_perceptual s1 = loss_reminding_perceptual st"
    "loss_reminding_L1_all s1 = loss_reminding_L1_all st"
    "loss_reminding_perceptual_all s1 = loss_reminding_perceptual_all st"
    "log s1 = log st @ map (\<lambda>i. Forward NetG (source st i)) [2 * ?t - 2, 2 * ?t - 1]
                @ (if retention st
                   then concat (map (\<lambda>i. [Forward NetG (source st i), Forward NetG_prev (source st i)])
                                  [0..2 * ?t - 3])
                   else [])"
    by blast
  let ?E = "set_requires_grad [NetD 0, NetD 1] True s1"
  from update_D_post [OF s1(2)] obtain s2 where s2:
    "update_D s1 = Inr s2" "forwarded s2" "core s2 = core s1"
    "fake_B s2 = fake_B s1" "fake_B_curG s2 = fake_B_curG s1" "fake_B_prevG s2 = fake_B_prevG s1"
    "loss_reminding_L1 s2 = loss_reminding_L1 s1"
    "loss_reminding_perceptual s2 = loss_reminding_perceptual s1"
    "loss_reminding_L1_all s2 = loss_reminding_L1_all s1"
    "loss_reminding_perceptual_all s2 = loss_reminding_perceptual_all s1"
    "requires_grad s2 = requires_grad ?E"
    "weights s2 = (\<lambda>n. if n \<in> {NetD 0, NetD 1} then Adam (weights s1 n) [total_D ?E] else weights s1 n)"
    "log s2 = log s1 @ [SetRequiresGrad [NetD 0, NetD 1] True, ZeroGrad [NetD 0], ZeroGrad [NetD 1]]
                @ D_events s1 @ [Backward (total_D ?E), Step [NetD 0], Step [NetD 1]]"
    by blast
  let ?F = "set_requires_grad [NetD 0, NetD 1] False s2"
  from update_G_post [OF s2(2)] obtain s3 where s3:
    "update_G s2 = Inr s3"
    "loss_G s3 = Some (total_G ?F)"
    "loss_G_GAN_all s3 = Some (Add (G_adv_term ?F (2 * task_num (opt s2) - 2))
                                   (G_adv_term ?F (2 * task_num (opt s2) - 1)))"
    "loss_G_L1_all s3 = Some (Add (G_L1_term s2 (2 * task_num (opt s2) - 2))
                                  (G_L1_term s2 (2 * task_num (opt s2) - 1)))"
    "loss_G_perceptual_all s3 = Some (Add (G_perceptual_term s2 (2 * task_num (opt s2) - 2))
                                          (G_perceptual_term s2 (2 * task_num (opt s2) - 1)))"
    "retention s2 \<longrightarrow>
       loss_reminding_L1 s3 =
         (map (remind_L1_term s2) [0..2 * task_num (opt s2) - 3])
           [0 := sum_over (remind_L1_term s2) (2 * task_num (opt s2) - 3)]
     \<and> loss_reminding_perceptual s3 =
         (map (remind_perceptual_term s2) [0..2 * task_num (opt s2) - 3])
           [0 := sum_over (remind_perceptual_term s2) (2 * task_num (opt s2) - 3)]
     \<and> loss_reminding_L1_all s3 = Some (sum_over (remind_L1_term s2) (2 * task_num (opt s2) - 3))
     \<and> loss_reminding_perceptual_all s3 =
         Some (sum_over (remind_perceptual_term s2) (2 * task_num (opt s2) - 3))"
    "\<not> retention s2 \<longrightarrow>
       loss_reminding_L1 s3 = loss_reminding_L1 s2
     \<and> loss_reminding_perceptual s3 = loss_reminding_perceptual s2
     \<and> loss_reminding_L1_all s3 = loss_reminding_L1_all s2
     \<and> loss_reminding_perceptual_all s3 = loss_reminding_perceptual_all s2"
    "log s3 = log s2 @ [SetRequiresGrad [NetD 0, NetD 1] False, ZeroGrad [NetG]]
                @ G_events s2 @ (if retention s2 then remind_events s2 else [])
                @ [Backward (total_G ?F), Step [NetG]]"
    by blast
  have o: "opt s2 = opt st" "real_A s2 = real_A st" "retention s2 = retention st"
    "opt ?F = opt st" "retention ?F = retention st"
    using s1(3) s2(3) by (simp_all add: core_def retention_def set_requires_grad_def logged_def)
  have opt: "optimize_parameters st = Inr s3"
    using optimize_parameters_chain [OF s1(1) s2(1)] s3(1) by simp
  have vg: "weights s2 Vgg = weights st Vgg" "requires_grad s2 Vgg = requires_grad st Vgg"
    by (simp_all add: s2(11,12) s1(4,5) set_requires_grad_def logged_def)
  \<comment> \<open>which networks the loss depends on\<close>
  have fb: "fake_B ?F = [?cur (2 * ?t - 2), ?cur (2 * ?t - 1)]"
    using rg by (simp add: set_requires_grad_def logged_def s2(4) s1(6) call_def source_def)
  have el: "retention ?F \<longrightarrow> 1 < task_num (opt ?F)
           \<and> (\<forall>i\<in>{0..2 * task_num (opt ?F) - 3}.
                 nets_of (fake_B_curG ?F ! nat i) = {NetG}
               \<and> nets_of (fake_B_prevG ?F ! nat i) = {NetG_prev})"
    unfolding o using s1(7) cond(1)
    by (simp add: set_requires_grad_def logged_def s2(5,6) nth_map_upto0 call_def source_def)
  have dep: "NetG_prev \<in> nets_of (total_G ?F) \<longleftrightarrow> ?on"
  proof -
    have "NetG_prev \<in> nets_of (total_G ?F) \<longleftrightarrow> retention ?F"
      by (rule nets_of_total_G [OF fb _ _ el]) simp_all
    then show ?thesis by (simp only: o cond(1))
  qed
  \<comment> \<open>the calls of the previous-task generator\<close>
  have calls: "forwards_of NetG_prev (drop (length (log st)) (log s3)) =
      (if retention st then map (\<lambda>i. Data (real_A st ! nat i)) [0..2 * ?t - 3] else [])"
    by (simp add: s3(8) s2(13) s1(12) o forwards_of_append events_D events_G events_remind
          forwards_of_second source_def)
  \<comment> \<open>retention active\<close>
  have on: "?on \<longrightarrow>
       int (length (loss_reminding_L1 s3)) = 2 * ?t - 2
     \<and> int (length (loss_reminding_perceptual s3)) = 2 * ?t - 2
     \<and> loss_reminding_L1_all s3 =
         Some (sum_over (\<lambda>i. L1Loss (?cur i) (?prv i)) (2 * ?t - 3))
     \<and> loss_reminding_perceptual_all s3 =
         Some (sum_over (\<lambda>i. Perceptual (Apply Vgg (weights st Vgg) (requires_grad st Vgg) (?cur i))
                                         (Apply Vgg (weights st Vgg) (requires_grad st Vgg) (?prv i)))
                        (2 * ?t - 3))"
  proof
    assume a: ?on
    then have r: "retention st" and t: "1 < ?t" using cond(1) by simp_all
    have lists: "fake_B_curG s2 = map (\<lambda>i. call st NetG (source st i)) [0..2 * ?t - 3]"
      "fake_B_prevG s2 = map (\<lambda>i. call st NetG_prev (source st i)) [0..2 * ?t - 3]"
      using s1(7) r by (simp_all add: s2(5,6))
    have t1: "\<forall>i\<in>{0..2 * ?t - 3}. remind_L1_term s2 i = L1Loss (?cur i) (?prv i)"
      using rg by (simp add: remind_L1_term_def lists nth_map_upto0 call_def source_def)
    have t2: "\<forall>i\<in>{0..2 * ?t - 3}. remind_perceptual_term s2 i =
        Perceptual (Apply Vgg (weights st Vgg) (requires_grad st Vgg) (?cur i))
                   (Apply Vgg (weights st Vgg) (requires_grad st Vgg) (?prv i))"
      using rg by (simp add: remind_perceptual_term_def lists nth_map_upto0 call_def source_def vg)
    have m1: "map (remind_L1_term s2) [0..2 * ?t - 3] = map (\<lambda>i. L1Loss (?cur i) (?prv i)) [0..2 * ?t - 3]"
      using t1 by (intro map_cong) simp_all
    have m2: "map (remind_perceptual_term s2) [0..2 * ?t - 3] =
        map (\<lambda>i. Perceptual (Apply Vgg (weights st Vgg) (requires_grad st Vgg) (?cur i))
                             (Apply Vgg (weights st Vgg) (requires_grad st Vgg) (?prv i)))
            [0..2 * ?t - 3]"
      using t2 by (intro map_cong) simp_all
    have pos: "0 \<le> 2 * ?t - 3" using t by simp
    have su1: "sum_over (remind_L1_term s2) (2 * ?t - 3) = sum_over (\<lambda>i. L1Loss (?cur i) (?prv i)) (2 * ?t - 3)"
      by (simp only: sum_over_as_fold [OF pos] m1)
    have su2: "sum_over (remind_perceptual_term s2) (2 * ?t - 3) =
        sum_over (\<lambda>i. Perceptual (Apply Vgg (weights st Vgg) (requires_grad st Vgg) (?cur i))
                                  (Apply Vgg (weights st Vgg) (requires_grad st Vgg) (?prv i)))
                 (2 * ?t - 3)"
      by (simp only: sum_over_as_fold [OF pos] m2)
    from s3(6) r have f:
      "loss_reminding_L1 s3 =
         (map (remind_L1_term s2) [0..2 * ?t - 3])[0 := sum_over (remind_L1_term s2) (2 * ?t - 3)]"
      "loss_reminding_perceptual s3 =
         (map (remind_perceptual_term s2) [0..2 * ?t - 3])
           [0 := sum_over (remind_perceptual_term s2) (2 * ?t - 3)]"
      "loss_reminding_L1_all s3 = Some (sum_over (remind_L1_term s2) (2 * ?t - 3))"
      "loss_reminding_perceptual_all s3 = Some (sum_over (remind_perceptual_term s2) (2 * ?t - 3))"
      by (simp_all only: o)
    have len: "int (length (loss_reminding_L1 s3)) = 2 * ?t - 2"
      "int (length (loss_reminding_perceptual s3)) = 2 * ?t - 2"
      using t by (simp_all add: f(1,2))
    show
      "int (length (loss_reminding_L1 s3)) = 2 * ?t - 2
     \<and> int (length (loss_reminding_perceptual s3)) = 2 * ?t - 2
     \<and> loss_reminding_L1_all s3 =
         Some (sum_over (\<lambda>i. L1Loss (?cur i) (?prv i)) (2 * ?t - 3))
     \<and> loss_reminding_perceptual_all s3 =
         Some (sum_over (\<lambda>i. Perceptual (Apply Vgg (weights st Vgg) (requires_grad st Vgg) (?cur i))
                                         (Apply Vgg (weights st Vgg) (requires_grad st Vgg) (?prv i)))
                        (2 * ?t - 3))"
      using len f(3,4) by (simp only: su1 su2 simp_thms)
  qed
  \<comment> \<open>retention inactive\<close>
  have off: "\<not> retention st \<longrightarrow>
       loss_reminding_L1 s3 = loss_reminding_L1 st
     \<and> loss_reminding_perceptual s3 = loss_reminding_perceptual st
     \<and> loss_reminding_L1_all s3 = loss_reminding_L1_all st
     \<and> loss_reminding_perceptual_all s3 = loss_reminding_perceptual_all st"
    using s3(7) by (simp add: o s2(7-10) s1(8-11))
  have off': "\<not> retention st \<longrightarrow>
       total_G ?F =
         Scale (Add (Add (Add (G_adv_term ?F (2 * ?t - 2)) (G_adv_term ?F (2 * ?t - 1)))
                         (Scale (Add (G_L1_term s2 (2 * ?t - 2)) (G_L1_term s2 (2 * ?t - 1)))
                                (lambda_digesting_L1 (opt st))))
                    (Scale (Add (G_perceptual_term s2 (2 * ?t - 2)) (G_perceptual_term s2 (2 * ?t - 1)))
                           (lambda_digesting_perceptual (opt st))))
               (lambda_G (opt st))"
    by (simp add: total_G_def digesting_def Let_def o(1,3))
  show ?thesis
    using opt s3(2) dep on calls off off' s3(3-5) [unfolded o] cond
    by (intro exI [of _ s3] exI [of _ "total_G ?F"]) simp
qed

theorem retention_terms_iff_witness:
  "ready (model_example 2 False)
   \<and> 1 < task_num (opt (model_example 2 False))
   \<and> \<not> no_lifelong_training (opt (model_example 2 False))
   \<and> (\<exists>s l. optimize_parameters (model_example 2 False) = Inr s \<and> loss_G s = Some l
         \<and> NetG_prev \<in> nets_of l
         \<and> forwards_of NetG_prev (drop (length (log (model_example 2 False))) (log s)) = [Data 0, Data 1]
         \<and> loss_reminding_L1_all s =
             Some (Add (L1Loss (Apply NetG (Fresh NetG) True (Data 0))
                               (Apply NetG_prev (Fresh NetG_prev) True (Data 0)))
                       (L1Loss (Apply NetG (Fresh NetG) True (Data 1))
                               (Apply NetG_prev (Fresh NetG_prev) True (Data 1)))))
   \<and> ready (model_example 1 False)
   \<and> task_num (opt (model_example 1 False)) = 1
   \<and> (\<exists>s l. optimize_parameters (model_example 1 False) = Inr s \<and> loss_G s = Some l
         \<and> NetG_prev \<notin> nets_of l
         \<and> forwards_of NetG_prev (drop (length (log (model_example 1 False))) (log s)) = [])"
proof -
  have h2: "1 < task_num (opt (model_example 2 False))"
    "\<not> no_lifelong_training (opt (model_example 2 False))"
    by (simp_all add: model_example_2(3) opts_example_def)
  have h1: "task_num (opt (model_example 1 False)) = 1"
    by (simp add: model_example_1(3) opts_example_def)
  from retention_terms_iff [OF model_example_2(1)] obtain s l where a:
    "optimize_parameters (model_example 2 False) = Inr s" "loss_G s = Some l"
    "NetG_prev \<in> nets_of l \<longleftrightarrow>
       1 < task_num (opt (model_example 2 False)) \<and> \<not> no_lifelong_training (opt (model_example 2 False))"
    "1 < task_num (opt (model_example 2 False)) \<and> \<not> no_lifelong_training (opt (model_example 2 False)) \<longrightarrow>
       forwards_of NetG_prev (drop (length (log (model_example 2 False))) (log s)) =
         map (\<lambda>i. Data (real_A (model_example 2 False) ! nat i))
           [0..2 * task_num (opt (model_example 2 False)) - 3]
     \<and> loss_reminding_L1_all s =
         Some (sum_over
                 (\<lambda>i. L1Loss (Apply NetG (weights (model_example 2 False) NetG) True
                                 (Data (real_A (model_example 2 False) ! nat i)))
                              (Apply NetG_prev (weights (model_example 2 False) NetG_prev) True
                                 (Data (real_A (model_example 2 False) ! nat i))))
                 (2 * task_num (opt (model_example 2 False)) - 3))"
    by blast
  have A: "\<exists>s l. optimize_parameters (model_example 2 False) = Inr s \<and> loss_G s = Some l
         \<and> NetG_prev \<in> nets_of l
         \<and> forwards_of NetG_prev (drop (length (log (model_example 2 False))) (log s)) = [Data 0, Data 1]
         \<and> loss_reminding_L1_all s =
             Some (Add (L1Loss (Apply NetG (Fresh NetG) True (Data 0))
                               (Apply NetG_prev (Fresh NetG_prev) True (Data 0)))
                       (L1Loss (Apply NetG (Fresh NetG) True (Data 1))
                               (Apply NetG_prev (Fresh NetG_prev) True (Data 1))))"
    using a h2
    by (intro exI [of _ s] exI [of _ l])
       (simp add: model_example_2(3-) opts_example_def upto_0_1 sum_over_1)
  from retention_terms_iff [OF model_example_1(1)] obtain s' l' where b:
    "optimize_parameters (model_example 1 False) = Inr s'" "loss_G s' = Some l'"
    "NetG_prev \<in> nets_of l' \<longleftrightarrow>
       1 < task_num (opt (model_example 1 False)) \<and> \<not> no_lifelong_training (opt (model_example 1 False))"
    "task_num (opt (model_example 1 False)) = 1 \<or> no_lifelong_training (opt (model_example 1 False)) \<longrightarrow>
       forwards_of NetG_prev (drop (length (log (model_example 1 False))) (log s')) = []"
    by blast
  have B: "\<exists>s l. optimize_parameters (model_example 1 False) = Inr s \<and> loss_G s = Some l
         \<and> NetG_prev \<notin> nets_of l
         \<and> forwards_of NetG_prev (drop (length (log (model_example 1 False))) (log s)) = []"
    using b h1 by (intro exI [of _ s'] exI [of _ l']) simp
  show ?thesis
    using A B h1 h2 model_example_1(1) model_example_2(1) by simp
qed

subsection \<open>The order of a cycle\<close>

text \<open>
  C9. A cycle is the forward pass, then the discriminator update, then the generator
  update. The trainable generator is called in the forward pass only, once per stream; the
  optimisers step in the order discriminators, generator; the generator update keeps the
  images of the forward pass, and its adversarial sum is the two discriminators, with the
  parameters their update has just given them and gradients switched off, called once each
  on the non-detached (source, generated) pair made of those images.
\<close>

theorem discriminator_update_precedes_generator_update:
  assumes "ready st"
  shows "\<exists>s1 s2 s3 fw dsc gen.
           forward st = Inr s1 \<and> update_D s1 = Inr s2 \<and> update_G s2 = Inr s3
         \<and> optimize_parameters st = Inr s3
         \<and> log s1 = log st @ fw \<and> log s2 = log s1 @ dsc \<and> log s3 = log s2 @ gen
         \<and> steps_of fw = [] \<and> steps_of dsc = [[NetD 0], [NetD 1]] \<and> steps_of gen = [[NetG]]
         \<and> steps_of (drop (length (log st)) (log s3)) = [[NetD 0], [NetD 1], [NetG]]
         \<and> forwards_of NetG fw =
             map (\<lambda>i. Data (real_A st ! nat i))
               ([2 * task_num (opt st) - 2, 2 * task_num (opt st) - 1]
                @ (if retention st then [0..2 * task_num (opt st) - 3] else []))
         \<and> forwards_of NetG dsc = [] \<and> forwards_of NetG gen = []
         \<and> fake_B s1 = map (\<lambda>i. Apply NetG (weights st NetG) True (Data (real_A st ! nat i)))
                          [2 * task_num (opt st) - 2, 2 * task_num (opt st) - 1]
         \<and> fake_B s2 = fake_B s1 \<and> fake_B s3 = fake_B s1
         \<and> forwards_of (NetD 0) gen =
             [Cat (Data (real_A st ! nat (2 * task_num (opt st) - 2))) (fake_B s1 ! 0)]
         \<and> forwards_of (NetD 1) gen =
             [Cat (Data (real_A st ! nat (2 * task_num (opt st) - 1))) (fake_B s1 ! 1)]
         \<and> loss_G_GAN_all s3 =
             Some (Add (GANLoss (Apply (NetD 0) (weights s2 (NetD 0)) False
                                   (Cat (Data (real_A st ! nat (2 * task_num (opt st) - 2)))
                                        (fake_B s1 ! 0)))
                                True)
                       (GANLoss (Apply (NetD 1) (weights s2 (NetD 1)) False
                                   (Cat (Data (real_A st ! nat (2 * task_num (opt st) - 1)))
                                        (fake_B s1 ! 1)))
                                True))"
proof -
  let ?t = "task_num (opt st)"
  let ?fw = "map (\<lambda>i. Forward NetG (source st i)) [2 * ?t - 2, 2 * ?t - 1]
               @ (if retention st
                  then concat (map (\<lambda>i. [Forward NetG (source st i), Forward NetG_prev (source st i)])
                                 [0..2 * ?t - 3])
                  else [])"
  have rg: "requires_grad st NetG" using assms by (simp add: ready_def)
  from forward_post [OF assms] obtain s1 where s1:
    "forward st = Inr s1" "forwarded s1" "core s1 = core st"
    "fake_B s1 = map (\<lambda>i. call st NetG (source st i)) [2 * ?t - 2, 2 * ?t - 1]"
    "log s1 = log st @ ?fw"
    by blast
  let ?E = "set_requires_grad [NetD 0, NetD 1] True s1"
  let ?dsc = "[SetRequiresGrad [NetD 0, NetD 1] True, ZeroGrad [NetD 0], ZeroGrad [NetD 1]]
                @ D_events s1 @ [Backward (total_D ?E), Step [NetD 0], Step [NetD 1]]"
  from update_D_post [OF s1(2)] obtain s2 where s2:
    "update_D s1 = Inr s2" "forwarded s2" "core s2 = core s1" "fake_B s2 = fake_B s1"
    "log s2 = log s1 @ ?dsc"
    by blast
  let ?F = "set_requires_grad [NetD 0, NetD 1] False s2"
  let ?gen = "[SetRequiresGrad [NetD 0, NetD 1] False, ZeroGrad [NetG]]
                @ G_events s2 @ (if retention s2 then remind_events s2 else [])
                @ [Backward (total_G ?F), Step [NetG]]"
  from update_G_post [OF s2(2)] obtain s3 where s3:
    "update_G s2 = Inr s3" "fake_B s3 = fake_B s2"
    "loss_G_GAN_all s3 = Some (Add (G_adv_term ?F (2 * task_num (opt s2) - 2))
                                   (G_adv_term ?F (2 * task_num (opt s2) - 1)))"
    "log s3 = log s2 @ ?gen"
    by blast
  have o: "opt s2 = opt st" "real_A s2 = real_A st" "opt s1 = opt st"
    using s1(3) s2(3) by (simp_all add: core_def)
  have opt: "optimize_parameters st = Inr s3"
    using optimize_parameters_chain [OF s1(1) s2(1)] s3(1) by simp
  have st_fw: "steps_of ?fw = []"
    by (simp add: steps_of_append steps_of_forwards)
  have st_dsc: "steps_of ?dsc = [[NetD 0], [NetD 1]]"
    by (simp add: steps_of_append events_D)
  have st_gen: "steps_of ?gen = [[NetG]]"
    by (simp add: steps_of_append events_G events_remind)
  have all: "steps_of (drop (length (log st)) (log s3)) = [[NetD 0], [NetD 1], [NetG]]"
    using st_fw st_dsc st_gen by (simp add: s3(4) s2(5) s1(5) steps_of_append)
  have g_fw: "forwards_of NetG ?fw =
      map (\<lambda>i. Data (real_A st ! nat i))
        ([2 * ?t - 2, 2 * ?t - 1] @ (if retention st then [0..2 * ?t - 3] else []))"
    by (simp add: forwards_of_append forwards_of_first source_def)
  have g_dsc: "forwards_of NetG ?dsc = []"
    by (simp add: forwards_of_append events_D)
  have g_gen: "forwards_of NetG ?gen = []"
    by (simp add: forwards_of_append events_G events_remind)
  have d_gen: "forwards_of (NetD 0) ?gen = [Cat (Data (real_A st ! nat (2 * ?t - 2))) (fake_B s1 ! 0)]"
    "forwards_of (NetD 1) ?gen = [Cat (Data (real_A st ! nat (2 * ?t - 1))) (fake_B s1 ! 1)]"
    by (simp_all add: forwards_of_append G_events_def events_remind o source_def generated_def s2(4))
  have fb: "fake_B s1 = map (\<lambda>i. Apply NetG (weights st NetG) True (Data (real_A st ! nat i)))
                          [2 * ?t - 2, 2 * ?t - 1]"
    using rg by (simp add: s1(4) call_def source_def)
  have adv: "G_adv_term ?F (2 * ?t - 2) =
      GANLoss (Apply (NetD 0) (weights s2 (NetD 0)) False
                 (Cat (Data (real_A st ! nat (2 * ?t - 2))) (fake_B s1 ! 0))) True"
    "G_adv_term ?F (2 * ?t - 1) =
      GANLoss (Apply (NetD 1) (weights s2 (NetD 1)) False
                 (Cat (Data (real_A st ! nat (2 * ?t - 1))) (fake_B s1 ! 1))) True"
    by (simp_all add: G_adv_term_def call_def source_def generated_def set_requires_grad_def
          logged_def o s2(4))
  have acc: "loss_G_GAN_all s3 =
      Some (Add (GANLoss (Apply (NetD 0) (weights s2 (NetD 0)) False
                            (Cat (Data (real_A st ! nat (2 * ?t - 2))) (fake_B s1 ! 0))) True)
                (GANLoss (Apply (NetD 1) (weights s2 (NetD 1)) False
                            (Cat (Data (real_A st ! nat (2 * ?t - 1))) (fake_B s1 ! 1))) True))"
    using s3(3) by (simp only: o adv)
  have keep: "fake_B s3 = fake_B s1" by (simp add: s3(2) s2(4))
  show ?thesis
    apply (rule exI [of _ s1], rule exI [of _ s2], rule exI [of _ s3])
    apply (rule exI [of _ ?fw], rule exI [of _ ?dsc], rule exI [of _ ?gen])
    apply (intro conjI)
    apply (fact s1(1) s2(1) s3(1) opt s1(5) s2(5) s3(4) st_fw st_dsc st_gen all g_fw g_dsc g_gen
        fb s2(4) keep d_gen acc)+
    done
qed

theorem discriminator_update_precedes_generator_update_witness:
  "ready (model_example 2 False)
   \<and> (\<exists>s1 s2 s3 fw dsc gen.
         forward (model_example 2 False) = Inr s1 \<and> update_D s1 = Inr s2 \<and> update_G s2 = Inr s3
       \<and> optimize_parameters (model_example 2 False) = Inr s3
       \<and> log s1 = fw \<and> log s2 = fw @ dsc \<and> log s3 = fw @ dsc @ gen
       \<and> steps_of fw = [] \<and> steps_of dsc = [[NetD 0], [NetD 1]] \<and> steps_of gen = [[NetG]]
       \<and> forwards_of NetG fw = [Data 2, Data 3, Data 0, Data 1]
       \<and> forwards_of NetG dsc = [] \<and> forwards_of NetG gen = []
       \<and> fake_B s3 = [Apply NetG (Fresh NetG) True (Data 2), Apply NetG (Fresh NetG) True (Data 3)]
       \<and> forwards_of (NetD 0) gen = [Cat (Data 2) (Apply NetG (Fresh NetG) True (Data 2))]
       \<and> forwards_of (NetD 1) gen = [Cat (Data 3) (Apply NetG (Fresh NetG) True (Data 3))])"
proof -
  let ?m = "model_example 2 False"
  from discriminator_update_precedes_generator_update [OF model_example_2(1)]
  obtain s1 s2 s3 fw dsc gen where h:
    "forward ?m = Inr s1" "update_D s1 = Inr s2" "update_G s2 = Inr s3"
    "optimize_parameters ?m = Inr s3"
    "log s1 = log ?m @ fw" "log s2 = log s1 @ dsc" "log s3 = log s2 @ gen"
    "steps_of fw = []" "steps_of dsc = [[NetD 0], [NetD 1]]" "steps_of gen = [[NetG]]"
    "forwards_of NetG fw =
       map (\<lambda>i. Data (real_A ?m ! nat i))
         ([2 * task_num (opt ?m) - 2, 2 * task_num (opt ?m) - 1]
          @ (if retention ?m then [0..2 * task_num (opt ?m) - 3] else []))"
    "forwards_of NetG dsc = []" "forwards_of NetG gen = []"
    "fake_B s1 = map (\<lambda>i. Apply NetG (weights ?m NetG) True (Data (real_A ?m ! nat i)))
                   [2 * task_num (opt ?m) - 2, 2 * task_num (opt ?m) - 1]"
    "fake_B s3 = fake_B s1"
    "forwards_of (NetD 0) gen = [Cat (Data (real_A ?m ! nat (2 * task_num (opt ?m) - 2))) (fake_B s1 ! 0)]"
    "forwards_of (NetD 1) gen = [Cat (Data (real_A ?m ! nat (2 * task_num (opt ?m) - 1))) (fake_B s1 ! 1)]"
    by blast
  have f: "fake_B s1 = [Apply NetG (Fresh NetG) True (Data 2), Apply NetG (Fresh NetG) True (Data 3)]"
    using h(14) by (simp add: model_example_2(3-) opts_example_def)
  have logs: "log s1 = fw" "log s2 = fw @ dsc" "log s3 = fw @ dsc @ gen"
    using h(5,6,7) by (simp_all add: model_example_2(9))
  have g: "forwards_of NetG fw = [Data 2, Data 3, Data 0, Data 1]"
    using h(11) model_example_2(2) by (simp add: model_example_2(3-) opts_example_def upto_0_1)
  have d: "forwards_of (NetD 0) gen = [Cat (Data 2) (Apply NetG (Fresh NetG) True (Data 2))]"
    "forwards_of (NetD 1) gen = [Cat (Data 3) (Apply NetG (Fresh NetG) True (Data 3))]"
    using h(16,17) by (simp_all add: f model_example_2(3-) opts_example_def)
  have k: "fake_B s3 = [Apply NetG (Fresh NetG) True (Data 2), Apply NetG (Fresh NetG) True (Data 3)]"
    by (simp add: h(15) f)
  show ?thesis
    using model_example_2(1) h(1-4) logs h(8-10) g h(12,13) k d by blast
qed

end
